theory Spec2Isabelle
  imports Complex_Main
begin

section \<open>JavaScript numbers and arrays\<close>

text \<open>
  The engine of \<^verbatim>\<open>md2d.js\<close> computes with JavaScript numbers. They are embedded as
  the reals extended by the three special values of IEEE-754 arithmetic that the code
  tests for or can produce (\<^verbatim>\<open>Infinity\<close>, \<^verbatim>\<open>-Infinity\<close>, \<^verbatim>\<open>NaN\<close>). The operations
  \<open>jadd\<close>, \<open>jmul\<close>, \<open>jdiv\<close>, \<open>jsqrt\<close> are exact on finite numbers and the sign of zero is
  not represented. Rounding is applied, by \<open>toDouble\<close> and \<open>toFloat32\<close> below, at the two
  places where it decides what the code does next: the quotient whose floor is the
  number of steps of \<^verbatim>\<open>integrate\<close>, and the coordinates that the drift stores and the
  divergence guard reads back. \<^verbatim>\<open>undefined\<close> read as a number is \<open>NaN\<close>.
\<close>

datatype jsnum = Fin real | PInf | NInf | NaN

fun isNaN :: "jsnum \<Rightarrow> bool" where
  "isNaN NaN = True"
| "isNaN _ = False"

fun jneg :: "jsnum \<Rightarrow> jsnum" where
  "jneg (Fin a) = Fin (- a)"
| "jneg PInf = NInf"
| "jneg NInf = PInf"
| "jneg NaN = NaN"

fun jadd :: "jsnum \<Rightarrow> jsnum \<Rightarrow> jsnum" where
  "jadd (Fin a) (Fin b) = Fin (a + b)"
| "jadd NaN _ = NaN"
| "jadd _ NaN = NaN"
| "jadd PInf NInf = NaN"
| "jadd NInf PInf = NaN"
| "jadd PInf _ = PInf"
| "jadd _ PInf = PInf"
| "jadd NInf _ = NInf"
| "jadd _ NInf = NInf"

definition jsub :: "jsnum \<Rightarrow> jsnum \<Rightarrow> jsnum" where
  "jsub a b = jadd a (jneg b)"

text \<open>The sign of a number: \<open>1\<close>, \<open>-1\<close>, or \<open>0\<close> for zero and \<open>NaN\<close>.\<close>

fun jsign :: "jsnum \<Rightarrow> int" where
  "jsign (Fin a) = (if 0 < a then 1 else if a < 0 then -1 else 0)"
| "jsign PInf = 1"
| "jsign NInf = -1"
| "jsign NaN = 0"

fun jmul :: "jsnum \<Rightarrow> jsnum \<Rightarrow> jsnum" where
  "jmul (Fin a) (Fin b) = Fin (a * b)"
| "jmul NaN _ = NaN"
| "jmul _ NaN = NaN"
| "jmul a b =
     (if jsign a * jsign b = 0 then NaN
      else if 0 < jsign a * jsign b then PInf else NInf)"

fun jdiv :: "jsnum \<Rightarrow> jsnum \<Rightarrow> jsnum" where
  "jdiv NaN _ = NaN"
| "jdiv _ NaN = NaN"
| "jdiv (Fin a) (Fin b) =
     (if b \<noteq> 0 then Fin (a / b)
      else if 0 < a then PInf else if a < 0 then NInf else NaN)"
| "jdiv (Fin a) _ = Fin 0"
| "jdiv PInf (Fin b) = (if 0 \<le> b then PInf else NInf)"
| "jdiv NInf (Fin b) = (if 0 \<le> b then NInf else PInf)"
| "jdiv _ _ = NaN"

fun jsqrt :: "jsnum \<Rightarrow> jsnum" where
  "jsqrt (Fin a) = (if a < 0 then NaN else Fin (sqrt a))"
| "jsqrt PInf = PInf"
| "jsqrt _ = NaN"

fun jabs :: "jsnum \<Rightarrow> jsnum" where
  "jabs (Fin a) = Fin \<bar>a\<bar>"
| "jabs NaN = NaN"
| "jabs _ = PInf"

fun jfloor :: "jsnum \<Rightarrow> jsnum" where
  "jfloor (Fin a) = Fin (of_int \<lfloor>a\<rfloor>)"
| "jfloor a = a"

text \<open>Comparisons: every comparison with \<open>NaN\<close> is false, also \<^verbatim>\<open>===\<close>.\<close>

fun jlt :: "jsnum \<Rightarrow> jsnum \<Rightarrow> bool" where
  "jlt (Fin a) (Fin b) = (a < b)"
| "jlt NaN _ = False"
| "jlt _ NaN = False"
| "jlt _ NInf = False"
| "jlt PInf _ = False"
| "jlt _ _ = True"

definition jgt :: "jsnum \<Rightarrow> jsnum \<Rightarrow> bool" where
  "jgt a b = jlt b a"

definition jeq :: "jsnum \<Rightarrow> jsnum \<Rightarrow> bool" where
  "jeq a b = (\<not> isNaN a \<and> a = b)"

definition jle :: "jsnum \<Rightarrow> jsnum \<Rightarrow> bool" where
  "jle a b = (jlt a b \<or> jeq a b)"

definition jge :: "jsnum \<Rightarrow> jsnum \<Rightarrow> bool" where
  "jge a b = jle b a"

text \<open>A number used as a condition is true unless it is zero or \<open>NaN\<close>.\<close>

definition truthy :: "jsnum \<Rightarrow> bool" where
  "truthy a = (\<not> isNaN a \<and> a \<noteq> Fin 0)"

text \<open>
  Rounding to the nearest binary floating-point number, ties to even: \<open>p\<close> is the
  number of bits of the significand, \<open>emin\<close> and \<open>emax\<close> the least and greatest exponent
  of a normal number. \<open>binade r\<close> is the exponent \<open>e\<close> with \<^verbatim>\<open>2^e <= |r| < 2^(e+1)\<close>,
  found by halving or doubling at most 1100 times; beyond that the result is an
  infinity or lies below the least normal number of either format, whatever the
  exponent. A result of magnitude \<^verbatim>\<open>2^(emax+1)\<close> or more is an infinity.
\<close>

definition roundHalfEven :: "real \<Rightarrow> int" where
  "roundHalfEven r =
     (let f = \<lfloor>r\<rfloor>; d = r - of_int f
      in if d < 1/2 then f else if 1/2 < d then f + 1 else if even f then f else f + 1)"

primrec halvings :: "nat \<Rightarrow> real \<Rightarrow> int" where
  "halvings 0 r = 0"
| "halvings (Suc n) r = (if r < 2 then 0 else 1 + halvings n (r / 2))"

primrec doublings :: "nat \<Rightarrow> real \<Rightarrow> int" where
  "doublings 0 r = 0"
| "doublings (Suc n) r = (if 1 \<le> r then 0 else doublings n (r * 2) - 1)"

definition binade :: "real \<Rightarrow> int" where
  "binade r = (if 1 \<le> \<bar>r\<bar> then halvings 1100 \<bar>r\<bar> else doublings 1100 \<bar>r\<bar>)"

definition roundBinary :: "nat \<Rightarrow> int \<Rightarrow> int \<Rightarrow> real \<Rightarrow> jsnum" where
  "roundBinary p emin emax r =
     (if r = 0 then Fin 0
      else
        let e = max (binade r) emin;
            ulp = 2 powi (e - (int p - 1));
            v = of_int (roundHalfEven (r / ulp)) * ulp
        in if 2 powi (emax + 1) \<le> \<bar>v\<bar> then (if 0 < r then PInf else NInf) else Fin v)"

text \<open>
  The double nearest to an exact result, and the value a \<^verbatim>\<open>Float32Array\<close> holds after a
  number is stored in it.
\<close>

fun toDouble :: "jsnum \<Rightarrow> jsnum" where
  "toDouble (Fin r) = roundBinary 53 (-1022) 1023 r"
| "toDouble v = v"

fun toFloat32 :: "jsnum \<Rightarrow> jsnum" where
  "toFloat32 (Fin r) = roundBinary 24 (-126) 127 r"
| "toFloat32 v = v"

text \<open>
  Arrays are lists. A read past the end gives \<^verbatim>\<open>undefined\<close> (\<open>NaN\<close> as a number, false
  as a flag, no index as an index); a write past the end is \<open>xs[i := v]\<close>, which leaves
  the list as it is, as a typed array does.
\<close>

definition rd :: "jsnum list \<Rightarrow> nat \<Rightarrow> jsnum" where
  "rd xs i = (if i < length xs then xs ! i else NaN)"

definition rdb :: "bool list \<Rightarrow> nat \<Rightarrow> bool" where
  "rdb xs i = (i < length xs \<and> xs ! i)"

definition rdi :: "nat list \<Rightarrow> nat \<Rightarrow> nat option" where
  "rdi xs i = (if i < length xs then Some (xs ! i) else None)"

definition rdo :: "jsnum list \<Rightarrow> nat option \<Rightarrow> jsnum" where
  "rdo xs io = (case io of None \<Rightarrow> NaN | Some i \<Rightarrow> rd xs i)"

text \<open>\<^verbatim>\<open>arrays.extend(a, n)\<close>: the array at length \<open>n\<close>, new slots zero.\<close>

definition extendArray :: "'a \<Rightarrow> 'a list \<Rightarrow> nat \<Rightarrow> 'a list" where
  "extendArray z xs n = take n xs @ replicate (n - length xs) z"

section \<open>The engine state\<close>

text \<open>
  The closure variables of \<^verbatim>\<open>createEngine\<close>. The containers \<^verbatim>\<open>atoms\<close>, \<^verbatim>\<open>elements\<close>,
  \<^verbatim>\<open>obstacles\<close> and \<^verbatim>\<open>springForces\<close> are records of parallel arrays, as in the source.
  The modules the engine requires (cell list, neighbour list, Lennard-Jones and Coulomb
  kernels, unit conversion, pressure buffers, windowed averager) are not part of the
  file under study; what the engine needs from them enters as a parameter of the
  function that calls them.
\<close>

record atoms =
  radius :: "jsnum list"
  px :: "jsnum list"
  py :: "jsnum list"
  x :: "jsnum list"
  y :: "jsnum list"
  vx :: "jsnum list"
  vy :: "jsnum list"
  speed :: "jsnum list"
  ax :: "jsnum list"
  ay :: "jsnum list"
  charge :: "jsnum list"
  friction :: "jsnum list"
  element :: "nat list"
  pinned :: "bool list"
  mass :: "jsnum list"

record elements =
  elementMass :: "jsnum list"
  elementEpsilon :: "jsnum list"
  elementSigma :: "jsnum list"
  elementRadius :: "jsnum list"

record obstacles =
  obstacleX :: "jsnum list"
  obstacleY :: "jsnum list"
  obstacleWidth :: "jsnum list"
  obstacleHeight :: "jsnum list"
  obstacleMass :: "jsnum list"
  obstacleVX :: "jsnum list"
  obstacleVY :: "jsnum list"
  obstacleExtFX :: "jsnum list"
  obstacleExtFY :: "jsnum list"
  obstacleFriction :: "jsnum list"
  obstacleWestProbe :: "bool list"
  obstacleNorthProbe :: "bool list"
  obstacleEastProbe :: "bool list"
  obstacleSouthProbe :: "bool list"
  obstacleWProbeValue :: "jsnum list"
  obstacleNProbeValue :: "jsnum list"
  obstacleEProbeValue :: "jsnum list"
  obstacleSProbeValue :: "jsnum list"
  obstacleXPrev :: "jsnum list"
  obstacleYPrev :: "jsnum list"

record springs =
  springForceAtomIndex :: "nat list"
  springForceX :: "jsnum list"
  springForceY :: "jsnum list"
  springForceStrength :: "jsnum list"

text \<open>
  The container \<^verbatim>\<open>vdwPairs\<close>: its \<^verbatim>\<open>COUNT\<close> entry and the two \<^verbatim>\<open>uint16\<close> index arrays,
  which the closure variables \<^verbatim>\<open>vdwPairAtom1Index\<close> and \<^verbatim>\<open>vdwPairAtom2Index\<close> alias.
\<close>

record vdwPairs =
  vdwCount :: "nat option"
  vdwPairAtom1Index :: "nat list"
  vdwPairAtom2Index :: "nat list"

record engine =
  sizeHasBeenInitialized :: bool
  atomsHaveBeenCreated :: bool
  elementsHaveBeenCreated :: bool
  useThermostat :: bool
  vdwLinesRatio :: jsnum
  gravitationalField :: jsnum
  temperatureChangeInProgress :: bool
  T_target :: jsnum
  size_x :: jsnum
  size_y :: jsnum
  viscosity :: jsnum
  time :: jsnum
  dt :: jsnum
  dt_sq :: jsnum
  N :: nat
  atoms :: "atoms option"
  elems :: "elements option"
  N_elements :: nat
  elementUsed :: "nat \<Rightarrow> bool"
  N_radialBonds :: nat
  radialBondMatrix :: "nat \<Rightarrow> nat \<Rightarrow> bool"
  obstacles :: "obstacles option"
  N_obstacles :: nat
  N_vdwPairs :: "nat option"
  vdwPairs :: "vdwPairs option"
  springForces :: "springs option"
  N_springForces :: nat
  T :: jsnum
  T_history :: "jsnum list"
  pressureTime :: "jsnum list"

text \<open>
  The initial values of \<^verbatim>\<open>createEngine\<close>. A variable the source leaves \<^verbatim>\<open>undefined\<close>
  is \<open>NaN\<close> (numbers), \<open>None\<close> (containers, the pair count \<open>N_vdwPairs\<close>) or \<open>0\<close> (\<open>N\<close>, which bounds loops only:
  \<^verbatim>\<open>i < undefined\<close> is false). \<^verbatim>\<open>gravitationalField = false\<close> is \<open>Fin 0\<close>: both are false
  as a condition and zero in arithmetic. \<open>T_history\<close> holds the temperatures passed so
  far to the windowed averager, \<open>pressureTime\<close> the durations passed so far to
  \<^verbatim>\<open>pressureBuffers.updateBuffers\<close>.
\<close>

definition createEngine :: engine where
  "createEngine = \<lparr>
     sizeHasBeenInitialized = False,
     atomsHaveBeenCreated = False,
     elementsHaveBeenCreated = False,
     useThermostat = False,
     vdwLinesRatio = Fin (167 / 100),
     gravitationalField = Fin 0,
     temperatureChangeInProgress = False,
     T_target = NaN,
     size_x = Fin 10,
     size_y = Fin 10,
     viscosity = NaN,
     time = Fin 0,
     dt = NaN,
     dt_sq = NaN,
     N = 0,
     atoms = None,
     elems = None,
     N_elements = 0,
     elementUsed = (\<lambda>_. False),
     N_radialBonds = 0,
     radialBondMatrix = (\<lambda>_ _. False),
     obstacles = None,
     N_obstacles = 0,
     N_vdwPairs = None,
     vdwPairs = None,
     springForces = None,
     N_springForces = 0,
     T = NaN,
     T_history = [],
     pressureTime = []
   \<rparr>"

section \<open>Errors\<close>

text \<open>
  One constructor for each \<^verbatim>\<open>throw new Error(...)\<close> of the source, named after its
  message, and \<open>TypeError\<close> for a call of something that is not a function or a property
  read of \<^verbatim>\<open>undefined\<close>. A call either returns, or throws and leaves a state behind.
\<close>

datatype error =
    TemperatureNotUnderstood
  | TemperatureLessThanZero
  | TemperatureInfinity
  | SizeAlreadySet
  | CreateAtomsBeforeSetElements
  | AtomsAlreadyCreated
  | NumMissing
  | NumNonIntegral
  | NumLessThanMin
  | NumGreaterThanMax
  | IntegrateBeforeAtomsCreated
  | ModelHasDiverged
  | TypeError

datatype 'a outcome = Returns 'a | Throws error 'a

fun stateOf :: "'a outcome \<Rightarrow> 'a" where
  "stateOf (Returns s) = s"
| "stateOf (Throws e s) = s"

fun thrown :: "'a outcome \<Rightarrow> error option" where
  "thrown (Returns s) = None"
| "thrown (Throws e s) = Some e"

section \<open>Configuration and catalogue population\<close>

definition setSize :: "jsnum \<times> jsnum \<Rightarrow> engine \<Rightarrow> engine outcome" where
  "setSize v s =
     (if sizeHasBeenInitialized s then Throws SizeAlreadySet s
      else
        let width = (if truthy (fst v) \<and> jgt (fst v) (Fin 0) then fst v else Fin 10);
            height = (if truthy (snd v) \<and> jgt (snd v) (Fin 0) then snd v else Fin 10)
        in Returns (s\<lparr>size_x := width, size_y := height\<rparr>))"

definition getSize :: "engine \<Rightarrow> jsnum \<times> jsnum" where
  "getSize s = (size_x s, size_y s)"

text \<open>
  \<^verbatim>\<open>validateTemperature(t)\<close> for a number \<open>t\<close> (\<^verbatim>\<open>parseFloat\<close> of a number is that number;
  of \<^verbatim>\<open>undefined\<close> it is \<open>NaN\<close>): the error it throws, if any.
\<close>

definition validateTemperature :: "jsnum \<Rightarrow> error option" where
  "validateTemperature t =
     (let temperature = t in
      if isNaN temperature then Some TemperatureNotUnderstood
      else if jlt temperature (Fin 0) then Some TemperatureLessThanZero
      else if jeq temperature PInf then Some TemperatureInfinity
      else None)"

definition setTargetTemperature :: "jsnum \<Rightarrow> engine \<Rightarrow> engine outcome" where
  "setTargetTemperature v s =
     (case validateTemperature v of
        Some e \<Rightarrow> Throws e s
      | None \<Rightarrow> Returns (s\<lparr>T_target := v\<rparr>))"

definition setUseThermostat :: "bool \<Rightarrow> engine \<Rightarrow> engine" where
  "setUseThermostat v s = s\<lparr>useThermostat := v\<rparr>"

definition setTime :: "jsnum \<Rightarrow> engine \<Rightarrow> engine" where
  "setTime t s = s\<lparr>time := t\<rparr>"

definition setViscosity :: "jsnum \<Rightarrow> engine \<Rightarrow> engine" where
  "setViscosity v s = s\<lparr>viscosity := v\<rparr>"

definition setVDWLinesRatio :: "jsnum \<Rightarrow> engine \<Rightarrow> engine" where
  "setVDWLinesRatio vdwlr s =
     (if \<not> jeq vdwlr (Fin 0) then s\<lparr>vdwLinesRatio := vdwlr\<rparr> else s)"

definition setGravitationalField :: "jsnum \<Rightarrow> engine \<Rightarrow> engine" where
  "setGravitationalField gf s =
     (if \<not> jeq gf (Fin 0) then s\<lparr>gravitationalField := gf\<rparr>
      else s\<lparr>gravitationalField := Fin 0\<rparr>)"

subsection \<open>Elements\<close>

record elementProps =
  p_mass :: jsnum
  p_epsilon :: jsnum
  p_sigma :: jsnum

definition createElementsArray :: "nat \<Rightarrow> engine \<Rightarrow> engine" where
  "createElementsArray num s =
     s\<lparr>elems := Some \<lparr>
        elementMass = replicate num (Fin 0),
        elementEpsilon = replicate num (Fin 0),
        elementSigma = replicate num (Fin 0),
        elementRadius = replicate num (Fin 0)\<rparr>\<rparr>"

definition extendElements :: "elements \<Rightarrow> nat \<Rightarrow> elements" where
  "extendElements e n = \<lparr>
     elementMass = extendArray (Fin 0) (elementMass e) n,
     elementEpsilon = extendArray (Fin 0) (elementEpsilon e) n,
     elementSigma = extendArray (Fin 0) (elementSigma e) n,
     elementRadius = extendArray (Fin 0) (elementRadius e) n\<rparr>"

text \<open>
  \<^verbatim>\<open>addElement(props)\<close>. \<open>ljRadius\<close> stands for \<^verbatim>\<open>lennardJones.radius\<close>. When the table is
  full the source extends it and then calls \<^verbatim>\<open>assignShortcutReferences.N_elements()\<close>,
  which does not exist: a \<open>TypeError\<close>. The pairwise Lennard-Jones tables that
  \<^verbatim>\<open>setPairwiseLJProperties\<close> fills are not part of the model.
\<close>

definition addElement :: "(jsnum \<Rightarrow> jsnum) \<Rightarrow> elementProps \<Rightarrow> engine \<Rightarrow> engine outcome" where
  "addElement ljRadius props s =
     (case elems s of
        None \<Rightarrow> Throws TypeError s
      | Some e \<Rightarrow>
          if N_elements s \<ge> length (elementEpsilon e)
          then Throws TypeError (s\<lparr>elems := Some (extendElements e (N_elements s + 10))\<rparr>)
          else
            let n = N_elements s;
                e' = e\<lparr>elementMass := (elementMass e)[n := p_mass props],
                       elementEpsilon := (elementEpsilon e)[n := p_epsilon props],
                       elementSigma := (elementSigma e)[n := p_sigma props],
                       elementRadius := (elementRadius e)[n := ljRadius (p_sigma props)]\<rparr>
            in Returns (s\<lparr>elems := Some e', elementsHaveBeenCreated := True,
                           N_elements := n + 1\<rparr>))"

fun addElements :: "(jsnum \<Rightarrow> jsnum) \<Rightarrow> elementProps list \<Rightarrow> engine \<Rightarrow> engine outcome" where
  "addElements ljRadius [] s = Returns s"
| "addElements ljRadius (p # ps) s =
     (case addElement ljRadius p s of
        Throws e s' \<Rightarrow> Throws e s'
      | Returns s' \<Rightarrow> addElements ljRadius ps s')"

definition initializeElements :: "(jsnum \<Rightarrow> jsnum) \<Rightarrow> elementProps list \<Rightarrow> engine \<Rightarrow> engine outcome" where
  "initializeElements ljRadius es s =
     (case addElements ljRadius es (createElementsArray (length es) s) of
        Throws e s' \<Rightarrow> Throws e s'
      | Returns s' \<Rightarrow> Returns (s'\<lparr>elementsHaveBeenCreated := True\<rparr>))"

subsection \<open>Atoms\<close>

definition N_MIN :: jsnum where "N_MIN = Fin 1"
definition N_MAX :: jsnum where "N_MAX = Fin 1000"

definition newAtoms :: "nat \<Rightarrow> atoms" where
  "newAtoms n = \<lparr>
     radius = replicate n (Fin 0), px = replicate n (Fin 0), py = replicate n (Fin 0),
     x = replicate n (Fin 0), y = replicate n (Fin 0),
     vx = replicate n (Fin 0), vy = replicate n (Fin 0), speed = replicate n (Fin 0),
     ax = replicate n (Fin 0), ay = replicate n (Fin 0),
     charge = replicate n (Fin 0), friction = replicate n (Fin 0),
     element = replicate n 0, pinned = replicate n False,
     mass = replicate n (Fin 0)\<rparr>"

text \<open>
  \<^verbatim>\<open>createAtomsArray(num)\<close>; \<open>None\<close> is a call without the argument. The two flags are
  assigned after the ordering checks and before \<open>num\<close> is looked at, as in the source.
  The view-only arrays (\<^verbatim>\<open>marked\<close>, \<^verbatim>\<open>visible\<close>, \<^verbatim>\<open>draggable\<close>) are left out.
\<close>

definition createAtomsArray :: "jsnum option \<Rightarrow> engine \<Rightarrow> engine outcome" where
  "createAtomsArray num s =
     (if \<not> elementsHaveBeenCreated s then Throws CreateAtomsBeforeSetElements s
      else if atomsHaveBeenCreated s then Throws AtomsAlreadyCreated s
      else
        let s1 = s\<lparr>atomsHaveBeenCreated := True, sizeHasBeenInitialized := True\<rparr> in
        case num of
          None \<Rightarrow> Throws NumMissing s1
        | Some n \<Rightarrow>
            if \<not> jeq n (jfloor n) then Throws NumNonIntegral s1
            else if jlt n N_MIN then Throws NumLessThanMin s1
            else if jgt n N_MAX then Throws NumGreaterThanMax s1
            else
              (case n of
                 Fin r \<Rightarrow> Returns (s1\<lparr>atoms := Some (newAtoms (nat \<lfloor>r\<rfloor>)), N := 0\<rparr>)
               | _ \<Rightarrow> Throws TypeError s1))"

subsection \<open>Spring forces\<close>

definition createSpringForcesArray :: "nat \<Rightarrow> springs" where
  "createSpringForcesArray num = \<lparr>
     springForceAtomIndex = replicate num 0,
     springForceX = replicate num (Fin 0),
     springForceY = replicate num (Fin 0),
     springForceStrength = replicate num (Fin 0)\<rparr>"

definition extendSprings :: "springs \<Rightarrow> nat \<Rightarrow> springs" where
  "extendSprings sp n = \<lparr>
     springForceAtomIndex = extendArray 0 (springForceAtomIndex sp) n,
     springForceX = extendArray (Fin 0) (springForceX sp) n,
     springForceY = extendArray (Fin 0) (springForceY sp) n,
     springForceStrength = extendArray (Fin 0) (springForceStrength sp) n\<rparr>"

text \<open>\<^verbatim>\<open>addSpringForce\<close> returns the index of the new spring force and the new state.\<close>

definition addSpringForce :: "nat \<Rightarrow> jsnum \<Rightarrow> jsnum \<Rightarrow> jsnum \<Rightarrow> engine \<Rightarrow> nat \<times> engine" where
  "addSpringForce atomIndex sx sy strength s =
     (let sp0 = (case springForces s of None \<Rightarrow> createSpringForcesArray 1 | Some sp \<Rightarrow> sp);
          n = N_springForces s;
          sp1 = (if n > length (springForceAtomIndex sp0) then extendSprings sp0 (n + 1) else sp0);
          sp2 = sp1\<lparr>springForceAtomIndex := (springForceAtomIndex sp1)[n := atomIndex],
                    springForceX := (springForceX sp1)[n := sx],
                    springForceY := (springForceY sp1)[n := sy],
                    springForceStrength := (springForceStrength sp1)[n := strength]\<rparr>
      in (n, s\<lparr>springForces := Some sp2, N_springForces := n + 1\<rparr>))"

definition updateSpringForce :: "nat \<Rightarrow> jsnum \<Rightarrow> jsnum \<Rightarrow> engine \<Rightarrow> engine outcome" where
  "updateSpringForce i sx sy s =
     (case springForces s of
        None \<Rightarrow> Throws TypeError s
      | Some sp \<Rightarrow>
          Returns (s\<lparr>springForces :=
            Some (sp\<lparr>springForceX := (springForceX sp)[i := sx],
                     springForceY := (springForceY sp)[i := sy]\<rparr>)\<rparr>))"

definition removeSpringForce :: "nat \<Rightarrow> engine \<Rightarrow> engine" where
  "removeSpringForce i s =
     (if i \<ge> N_springForces s then s
      else s\<lparr>N_springForces := N_springForces s - 1\<rparr>)"

text \<open>
  The indices that the loop of \<^verbatim>\<open>updateSpringForces\<close> visits:
  \<^verbatim>\<open>for (i = 0; i < N_springForces; i++)\<close>.
\<close>

definition appliedSpringForces :: "engine \<Rightarrow> nat list" where
  "appliedSpringForces s = [0 ..< N_springForces s]"


section \<open>Collisions\<close>

text \<open>
  The two loops that fold a runaway coordinate back towards the domain:
  \<^verbatim>\<open>while (c < bound) c += step\<close> and \<^verbatim>\<open>while (c > bound) c -= step\<close>. They need not
  terminate (an infinite coordinate, a step that is not positive), so their result is
  optional: \<open>None\<close> is a loop that runs forever.
\<close>

partial_function (option) whileLess :: "jsnum \<Rightarrow> jsnum \<Rightarrow> jsnum \<Rightarrow> jsnum option" where
  "whileLess c bound step =
     (if jlt c bound then whileLess (jadd c step) bound step else Some c)"

partial_function (option) whileGreater :: "jsnum \<Rightarrow> jsnum \<Rightarrow> jsnum \<Rightarrow> jsnum option" where
  "whileGreater c bound step =
     (if jgt c bound then whileGreater (jsub c step) bound step else Some c)"

text \<open>
  One coordinate against its two walls, the pattern that \<^verbatim>\<open>bounceObstacleOffWalls\<close>
  and \<^verbatim>\<open>bounceParticleOffWalls\<close> apply to \<open>x\<close> and to \<open>y\<close>:
  \<^verbatim>\<open>if (c < low) { while (c < low - stepLow) c += stepLow; c = low + (low - c); ... }\<close>
  \<^verbatim>\<open>else if (c > high) { while (c > high + stepHigh) c -= stepHigh; c = high - (c - high); ... }\<close>.
  The result is \<open>None\<close> when a loop does not end, \<open>Some None\<close> when no wall was
  crossed, and \<open>Some (Some c')\<close> with the reflected coordinate when one was (the caller
  then negates the velocity).
\<close>

definition bounceCoordinate ::
  "jsnum \<Rightarrow> jsnum \<Rightarrow> jsnum \<Rightarrow> jsnum \<Rightarrow> jsnum \<Rightarrow> jsnum option option" where
  "bounceCoordinate c low high stepLow stepHigh =
     (if jlt c low then
        (case whileLess c (jsub low stepLow) stepLow of
           None \<Rightarrow> None
         | Some c' \<Rightarrow> Some (Some (jadd low (jsub low c'))))
      else if jgt c high then
        (case whileGreater c (jadd high stepHigh) stepHigh of
           None \<Rightarrow> None
         | Some c' \<Rightarrow> Some (Some (jsub high (jsub c' high))))
      else Some None)"

text \<open>
  \<^verbatim>\<open>bounceObstacleOffWalls(i)\<close>, on the obstacle arrays; \<open>sz\<close> is the closure variable
  \<^verbatim>\<open>size = [width, height]\<close>. The branch for the top wall folds by \<open>width\<close>, as the
  source does.
\<close>

definition bounceObstacleOffWalls :: "jsnum \<times> jsnum \<Rightarrow> nat \<Rightarrow> obstacles \<Rightarrow> obstacles option" where
  "bounceObstacleOffWalls sz i ob =
     (let leftwall = Fin 0;
          bottomwall = Fin 0;
          width = fst sz;
          height = snd sz;
          rightwall = jsub width (rd (obstacleWidth ob) i);
          topwall = jsub height (rd (obstacleHeight ob) i)
      in case bounceCoordinate (rd (obstacleX ob) i) leftwall rightwall width width of
           None \<Rightarrow> None
         | Some hx \<Rightarrow>
             let ob1 = (case hx of
                          None \<Rightarrow> ob
                        | Some c \<Rightarrow> ob\<lparr>
                            obstacleX := (obstacleX ob)[i := c],
                            obstacleVX := (obstacleVX ob)[i := jmul (rd (obstacleVX ob) i) (Fin (-1))]\<rparr>)
             in case bounceCoordinate (rd (obstacleY ob1) i) bottomwall topwall height width of
                  None \<Rightarrow> None
                | Some hy \<Rightarrow>
                    Some (case hy of
                            None \<Rightarrow> ob1
                          | Some c \<Rightarrow> ob1\<lparr>
                              obstacleY := (obstacleY ob1)[i := c],
                              obstacleVY := (obstacleVY ob1)[i := jmul (rd (obstacleVY ob1) i) (Fin (-1))]\<rparr>))"

text \<open>\<^verbatim>\<open>bounceParticleOffWalls(i)\<close>, on the atom arrays.\<close>

definition bounceParticleOffWalls :: "jsnum \<times> jsnum \<Rightarrow> nat \<Rightarrow> atoms \<Rightarrow> atoms option" where
  "bounceParticleOffWalls sz i a =
     (let r = rd (radius a) i;
          leftwall = r;
          bottomwall = r;
          width = fst sz;
          height = snd sz;
          rightwall = jsub width r;
          topwall = jsub height r
      in case bounceCoordinate (rd (x a) i) leftwall rightwall width width of
           None \<Rightarrow> None
         | Some hx \<Rightarrow>
             let a1 = (case hx of
                         None \<Rightarrow> a
                       | Some c \<Rightarrow> a\<lparr>
                           x := (x a)[i := c],
                           vx := (vx a)[i := jmul (rd (vx a) i) (Fin (-1))],
                           px := (px a)[i := jmul (rd (px a) i) (Fin (-1))]\<rparr>)
             in case bounceCoordinate (rd (y a1) i) bottomwall topwall height height of
                  None \<Rightarrow> None
                | Some hy \<Rightarrow>
                    Some (case hy of
                            None \<Rightarrow> a1
                          | Some c \<Rightarrow> a1\<lparr>
                              y := (y a1)[i := c],
                              vy := (vy a1)[i := jmul (rd (vy a1) i) (Fin (-1))],
                              py := (py a1)[i := jmul (rd (py a1) i) (Fin (-1))]\<rparr>))"

section \<open>Obstacles\<close>

text \<open>
  A property hash passed to a setter: a record of optional values, \<open>None\<close> for a key
  the hash does not have. \<open>setOpt\<close> is the assignment \<^verbatim>\<open>container[key][i] = props[key]\<close>
  for one key.
\<close>

definition setOpt :: "'a option \<Rightarrow> nat \<Rightarrow> 'a list \<Rightarrow> 'a list" where
  "setOpt v i xs = (case v of None \<Rightarrow> xs | Some w \<Rightarrow> xs[i := w])"

record obstacleProps =
  o_x :: "jsnum option"
  o_y :: "jsnum option"
  o_width :: "jsnum option"
  o_height :: "jsnum option"
  o_mass :: "jsnum option"
  o_vx :: "jsnum option"
  o_vy :: "jsnum option"
  o_externalFx :: "jsnum option"
  o_externalFy :: "jsnum option"
  o_friction :: "jsnum option"
  o_westProbe :: "bool option"
  o_northProbe :: "bool option"
  o_eastProbe :: "bool option"
  o_southProbe :: "bool option"

definition noObstacleProps :: obstacleProps where
  "noObstacleProps = \<lparr>o_x = None, o_y = None, o_width = None, o_height = None,
     o_mass = None, o_vx = None, o_vy = None, o_externalFx = None, o_externalFy = None,
     o_friction = None, o_westProbe = None, o_northProbe = None, o_eastProbe = None,
     o_southProbe = None\<rparr>"

definition createObstaclesArray :: "nat \<Rightarrow> obstacles" where
  "createObstaclesArray num = \<lparr>
     obstacleX = replicate num (Fin 0), obstacleY = replicate num (Fin 0),
     obstacleWidth = replicate num (Fin 0), obstacleHeight = replicate num (Fin 0),
     obstacleMass = replicate num (Fin 0),
     obstacleVX = replicate num (Fin 0), obstacleVY = replicate num (Fin 0),
     obstacleExtFX = replicate num (Fin 0), obstacleExtFY = replicate num (Fin 0),
     obstacleFriction = replicate num (Fin 0),
     obstacleWestProbe = replicate num False, obstacleNorthProbe = replicate num False,
     obstacleEastProbe = replicate num False, obstacleSouthProbe = replicate num False,
     obstacleWProbeValue = replicate num (Fin 0), obstacleNProbeValue = replicate num (Fin 0),
     obstacleEProbeValue = replicate num (Fin 0), obstacleSProbeValue = replicate num (Fin 0),
     obstacleXPrev = replicate num (Fin 0), obstacleYPrev = replicate num (Fin 0)\<rparr>"

definition extendObstacles :: "obstacles \<Rightarrow> nat \<Rightarrow> obstacles" where
  "extendObstacles ob n = \<lparr>
     obstacleX = extendArray (Fin 0) (obstacleX ob) n,
     obstacleY = extendArray (Fin 0) (obstacleY ob) n,
     obstacleWidth = extendArray (Fin 0) (obstacleWidth ob) n,
     obstacleHeight = extendArray (Fin 0) (obstacleHeight ob) n,
     obstacleMass = extendArray (Fin 0) (obstacleMass ob) n,
     obstacleVX = extendArray (Fin 0) (obstacleVX ob) n,
     obstacleVY = extendArray (Fin 0) (obstacleVY ob) n,
     obstacleExtFX = extendArray (Fin 0) (obstacleExtFX ob) n,
     obstacleExtFY = extendArray (Fin 0) (obstacleExtFY ob) n,
     obstacleFriction = extendArray (Fin 0) (obstacleFriction ob) n,
     obstacleWestProbe = extendArray False (obstacleWestProbe ob) n,
     obstacleNorthProbe = extendArray False (obstacleNorthProbe ob) n,
     obstacleEastProbe = extendArray False (obstacleEastProbe ob) n,
     obstacleSouthProbe = extendArray False (obstacleSouthProbe ob) n,
     obstacleWProbeValue = extendArray (Fin 0) (obstacleWProbeValue ob) n,
     obstacleNProbeValue = extendArray (Fin 0) (obstacleNProbeValue ob) n,
     obstacleEProbeValue = extendArray (Fin 0) (obstacleEProbeValue ob) n,
     obstacleSProbeValue = extendArray (Fin 0) (obstacleSProbeValue ob) n,
     obstacleXPrev = extendArray (Fin 0) (obstacleXPrev ob) n,
     obstacleYPrev = extendArray (Fin 0) (obstacleYPrev ob) n\<rparr>"

text \<open>
  \<^verbatim>\<open>setObstacleProperties(i, props)\<close>: a position given in \<open>props\<close> is also the previous
  position. Colour and visibility, and the call of \<^verbatim>\<open>pressureBuffers.initialize\<close>, are
  left out.
\<close>

definition writeObstacle :: "nat \<Rightarrow> obstacleProps \<Rightarrow> obstacles \<Rightarrow> obstacles" where
  "writeObstacle i props ob = \<lparr>
     obstacleX = setOpt (o_x props) i (obstacleX ob),
     obstacleY = setOpt (o_y props) i (obstacleY ob),
     obstacleWidth = setOpt (o_width props) i (obstacleWidth ob),
     obstacleHeight = setOpt (o_height props) i (obstacleHeight ob),
     obstacleMass = setOpt (o_mass props) i (obstacleMass ob),
     obstacleVX = setOpt (o_vx props) i (obstacleVX ob),
     obstacleVY = setOpt (o_vy props) i (obstacleVY ob),
     obstacleExtFX = setOpt (o_externalFx props) i (obstacleExtFX ob),
     obstacleExtFY = setOpt (o_externalFy props) i (obstacleExtFY ob),
     obstacleFriction = setOpt (o_friction props) i (obstacleFriction ob),
     obstacleWestProbe = setOpt (o_westProbe props) i (obstacleWestProbe ob),
     obstacleNorthProbe = setOpt (o_northProbe props) i (obstacleNorthProbe ob),
     obstacleEastProbe = setOpt (o_eastProbe props) i (obstacleEastProbe ob),
     obstacleSouthProbe = setOpt (o_southProbe props) i (obstacleSouthProbe ob),
     obstacleWProbeValue = obstacleWProbeValue ob,
     obstacleNProbeValue = obstacleNProbeValue ob,
     obstacleEProbeValue = obstacleEProbeValue ob,
     obstacleSProbeValue = obstacleSProbeValue ob,
     obstacleXPrev = setOpt (o_x props) i (obstacleXPrev ob),
     obstacleYPrev = setOpt (o_y props) i (obstacleYPrev ob)\<rparr>"

definition setObstacleProperties :: "nat \<Rightarrow> obstacleProps \<Rightarrow> engine \<Rightarrow> engine outcome" where
  "setObstacleProperties i props s =
     (case obstacles s of
        None \<Rightarrow> Throws TypeError s
      | Some ob \<Rightarrow> Returns (s\<lparr>obstacles := Some (writeObstacle i props ob)\<rparr>))"

definition addObstacle :: "obstacleProps \<Rightarrow> engine \<Rightarrow> engine outcome" where
  "addObstacle props s =
     (let ob0 = (if N_obstacles s = 0 then Some (createObstaclesArray 1) else obstacles s)
      in case ob0 of
           None \<Rightarrow> Throws TypeError s
         | Some ob \<Rightarrow>
             let ob1 = (if N_obstacles s + 1 > length (obstacleX ob)
                        then extendObstacles ob (N_obstacles s + 1) else ob);
                 s1 = s\<lparr>obstacles := Some ob1, N_obstacles := N_obstacles s + 1\<rparr>
             in setObstacleProperties (N_obstacles s1 - 1) props s1)"

text \<open>
  \<^verbatim>\<open>updateObstaclesPosition\<close>: the body for obstacle \<open>i\<close>, then the loop over all
  obstacles. \<open>None\<close> is a wall-folding loop that does not terminate.
\<close>

definition updateObstaclePosition :: "engine \<Rightarrow> nat \<Rightarrow> obstacles \<Rightarrow> obstacles option" where
  "updateObstaclePosition s i ob =
     (if jeq (rd (obstacleMass ob) i) PInf then Some ob
      else
        let ovx = rd (obstacleVX ob) i;
            ovy = rd (obstacleVY ob) i;
            extFx = rd (obstacleExtFX ob) i;
            extFy = rd (obstacleExtFY ob) i
        in if truthy ovx \<or> truthy ovy \<or> truthy extFx \<or> truthy extFy
              \<or> truthy (gravitationalField s)
           then
             let drag = jmul (viscosity s) (rd (obstacleFriction ob) i);
                 oax = jsub extFx (jmul drag ovx);
                 oay = jsub (jsub extFy (jmul drag ovy)) (gravitationalField s);
                 ob1 = ob\<lparr>obstacleXPrev := (obstacleXPrev ob)[i := rd (obstacleX ob) i],
                          obstacleYPrev := (obstacleYPrev ob)[i := rd (obstacleY ob) i]\<rparr>;
                 ob2 = ob1\<lparr>
                   obstacleX := (obstacleX ob1)[i := jadd (rd (obstacleX ob1) i)
                     (jadd (jmul ovx (dt s)) (jmul (jmul (Fin (1/2)) oax) (dt_sq s)))],
                   obstacleY := (obstacleY ob1)[i := jadd (rd (obstacleY ob1) i)
                     (jadd (jmul ovy (dt s)) (jmul (jmul (Fin (1/2)) oay) (dt_sq s)))]\<rparr>;
                 ob3 = ob2\<lparr>
                   obstacleVX := (obstacleVX ob2)[i := jadd (rd (obstacleVX ob2) i) (jmul oax (dt s))],
                   obstacleVY := (obstacleVY ob2)[i := jadd (rd (obstacleVY ob2) i) (jmul oay (dt s))]\<rparr>
             in bounceObstacleOffWalls (size_x s, size_y s) i ob3
           else Some ob)"

fun updateObstaclesFrom :: "engine \<Rightarrow> nat list \<Rightarrow> obstacles \<Rightarrow> obstacles option" where
  "updateObstaclesFrom s [] ob = Some ob"
| "updateObstaclesFrom s (i # is) ob =
     (case updateObstaclePosition s i ob of
        None \<Rightarrow> None
      | Some ob1 \<Rightarrow> updateObstaclesFrom s is ob1)"

definition updateObstaclesPosition :: "engine \<Rightarrow> engine outcome option" where
  "updateObstaclesPosition s =
     (if N_obstacles s = 0 then Some (Returns s)
      else case obstacles s of
             None \<Rightarrow> Some (Throws TypeError s)
           | Some ob \<Rightarrow>
               (case updateObstaclesFrom s [0 ..< N_obstacles s] ob of
                  None \<Rightarrow> None
                | Some ob1 \<Rightarrow> Some (Returns (s\<lparr>obstacles := Some ob1\<rparr>))))"


section \<open>Atoms and obstacles\<close>

text \<open>
  The expression \<^verbatim>\<open>(vPrev ? vPrev : -v)\<close> of the probe update; \<open>vPrev\<close> is a local
  variable of \<^verbatim>\<open>bounceParticleOffObstacles\<close>, \<^verbatim>\<open>undefined\<close> (\<open>None\<close>) until a collision with
  a movable obstacle assigns it.
\<close>

definition prevOrNegated :: "jsnum option \<Rightarrow> jsnum \<Rightarrow> jsnum" where
  "prevOrNegated vPrev v =
     (case vPrev of
        None \<Rightarrow> jneg v
      | Some p \<Rightarrow> if truthy p then p else jneg v)"

text \<open>
  The body of the loop of \<^verbatim>\<open>bounceParticleOffObstacles\<close> for obstacle \<open>j\<close>, in the
  four parts the source has: which wall was crossed (\<^verbatim>\<open>bounceDirection\<close>: 1 west, 2 east,
  -1 south, -2 north, 0 none), the reflection of the position, the change of the
  velocities, and the update of the probes. \<open>r\<close>, \<open>xi\<close>, \<open>yi\<close> are read once before the
  loop. The loop state is the atom arrays, the obstacle arrays and the locals \<^verbatim>\<open>vxPrev\<close>,
  \<^verbatim>\<open>vyPrev\<close>, which keep their values from one obstacle to the next.
\<close>

definition bounceDirectionOf ::
  "jsnum \<Rightarrow> jsnum \<Rightarrow> jsnum \<Rightarrow> jsnum \<Rightarrow> jsnum \<Rightarrow> nat \<Rightarrow> obstacles \<Rightarrow> int" where
  "bounceDirectionOf x_prev y_prev r xi yi j ob =
     (let x_left = jsub (rd (obstacleX ob) j) r;
          x_right = jadd (jadd (rd (obstacleX ob) j) (rd (obstacleWidth ob) j)) r;
          y_top = jadd (jadd (rd (obstacleY ob) j) (rd (obstacleHeight ob) j)) r;
          y_bottom = jsub (rd (obstacleY ob) j) r;
          x_left_prev = jsub (rd (obstacleXPrev ob) j) r;
          x_right_prev = jadd (jadd (rd (obstacleXPrev ob) j) (rd (obstacleWidth ob) j)) r;
          y_top_prev = jadd (jadd (rd (obstacleYPrev ob) j) (rd (obstacleHeight ob) j)) r;
          y_bottom_prev = jsub (rd (obstacleYPrev ob) j) r
      in if jgt xi x_left \<and> jlt xi x_right \<and> jgt yi y_bottom \<and> jlt yi y_top then
           (if jle x_prev x_left_prev then 1
            else if jge x_prev x_right_prev then 2
            else if jle y_prev y_bottom_prev then -1
            else if jge y_prev y_top_prev then -2
            else 0)
         else 0)"

definition reflectAtObstacle ::
  "int \<Rightarrow> nat \<Rightarrow> jsnum \<Rightarrow> jsnum \<Rightarrow> jsnum \<Rightarrow> nat \<Rightarrow> obstacles \<Rightarrow> atoms \<Rightarrow> atoms" where
  "reflectAtObstacle bounceDirection i r xi yi j ob a =
     (let x_left = jsub (rd (obstacleX ob) j) r;
          x_right = jadd (jadd (rd (obstacleX ob) j) (rd (obstacleWidth ob) j)) r;
          y_top = jadd (jadd (rd (obstacleY ob) j) (rd (obstacleHeight ob) j)) r;
          y_bottom = jsub (rd (obstacleY ob) j) r
      in if bounceDirection = 1 then a\<lparr>x := (x a)[i := jsub x_left (jsub xi x_left)]\<rparr>
         else if bounceDirection = 2 then a\<lparr>x := (x a)[i := jadd x_right (jsub x_right xi)]\<rparr>
         else if bounceDirection = -1 then a\<lparr>y := (y a)[i := jsub y_bottom (jsub yi y_bottom)]\<rparr>
         else if bounceDirection = -2 then a\<lparr>y := (y a)[i := jadd y_top (jsub y_top yi)]\<rparr>
         else a)"

definition collideWithObstacle ::
  "int \<Rightarrow> nat \<Rightarrow> nat \<Rightarrow> atoms \<times> obstacles \<times> jsnum option \<times> jsnum option \<Rightarrow>
   atoms \<times> obstacles \<times> jsnum option \<times> jsnum option" where
  "collideWithObstacle bounceDirection i j st =
     (case st of (a, ob, vxPrev, vyPrev) \<Rightarrow>
      let obs_mass = rd (obstacleMass ob) j in
      if \<not> jeq obs_mass PInf then
        let atom_mass = rd (mass a) i;
            totalMass = jadd obs_mass atom_mass
        in
        if bounceDirection > 0 then
          let vxP = rd (vx a) i;
              obs_vxPrev = rd (obstacleVX ob) j
          in (a\<lparr>vx := (vx a)[i :=
                  jdiv (jadd (jmul vxP (jsub atom_mass obs_mass))
                             (jmul (jmul (Fin 2) obs_mass) obs_vxPrev)) totalMass]\<rparr>,
              ob\<lparr>obstacleVX := (obstacleVX ob)[j :=
                  jdiv (jadd (jmul obs_vxPrev (jsub obs_mass atom_mass))
                             (jmul (Fin 2) (rd (px a) i))) totalMass]\<rparr>,
              Some vxP, vyPrev)
        else
          let vyP = rd (vy a) i;
              obs_vyPrev = rd (obstacleVY ob) j
          in (a\<lparr>vy := (vy a)[i :=
                  jdiv (jadd (jmul vyP (jsub atom_mass obs_mass))
                             (jmul (jmul (Fin 2) obs_mass) obs_vyPrev)) totalMass]\<rparr>,
              ob\<lparr>obstacleVY := (obstacleVY ob)[j :=
                  jdiv (jadd (jmul obs_vyPrev (jsub obs_mass atom_mass))
                             (jmul (Fin 2) (rd (py a) i))) totalMass]\<rparr>,
              vxPrev, Some vyP)
      else if bounceDirection > 0
        then (a\<lparr>vx := (vx a)[i := jmul (rd (vx a) i) (Fin (-1))]\<rparr>, ob, vxPrev, vyPrev)
        else (a\<lparr>vy := (vy a)[i := jmul (rd (vy a) i) (Fin (-1))]\<rparr>, ob, vxPrev, vyPrev))"

definition updateProbes ::
  "int \<Rightarrow> nat \<Rightarrow> nat \<Rightarrow> atoms \<Rightarrow> jsnum option \<Rightarrow> jsnum option \<Rightarrow> obstacles \<Rightarrow> obstacles" where
  "updateProbes bounceDirection i j a vxPrev vyPrev ob =
     (if rdb (obstacleWestProbe ob) j \<and> bounceDirection = 1 then
        ob\<lparr>obstacleWProbeValue := (obstacleWProbeValue ob)[j :=
           jadd (rd (obstacleWProbeValue ob) j)
             (jmul (rd (mass a) i)
                (jsub (prevOrNegated vxPrev (rd (vx a) i)) (rd (vx a) i)))]\<rparr>
      else if rdb (obstacleEastProbe ob) j \<and> bounceDirection = 2 then
        ob\<lparr>obstacleEProbeValue := (obstacleEProbeValue ob)[j :=
           jadd (rd (obstacleEProbeValue ob) j)
             (jmul (rd (mass a) i)
                (jsub (rd (vx a) i) (prevOrNegated vxPrev (rd (vx a) i))))]\<rparr>
      else if rdb (obstacleSouthProbe ob) j \<and> bounceDirection = -1 then
        ob\<lparr>obstacleSProbeValue := (obstacleSProbeValue ob)[j :=
           jadd (rd (obstacleSProbeValue ob) j)
             (jmul (rd (mass a) i)
                (jsub (prevOrNegated vyPrev (rd (vy a) i)) (rd (vy a) i)))]\<rparr>
      else if rdb (obstacleNorthProbe ob) j \<and> bounceDirection = -2 then
        ob\<lparr>obstacleNProbeValue := (obstacleNProbeValue ob)[j :=
           jadd (rd (obstacleNProbeValue ob) j)
             (jmul (rd (mass a) i)
                (jsub (rd (vy a) i) (prevOrNegated vyPrev (rd (vy a) i))))]\<rparr>
      else ob)"

definition bounceOffObstacle ::
  "nat \<Rightarrow> jsnum \<Rightarrow> jsnum \<Rightarrow> bool \<Rightarrow> jsnum \<Rightarrow> jsnum \<Rightarrow> jsnum \<Rightarrow> nat \<Rightarrow>
   atoms \<times> obstacles \<times> jsnum option \<times> jsnum option \<Rightarrow>
   atoms \<times> obstacles \<times> jsnum option \<times> jsnum option" where
  "bounceOffObstacle i x_prev y_prev updatePressure r xi yi j st =
     (case st of (a, ob, vxPrev, vyPrev) \<Rightarrow>
      let bounceDirection = bounceDirectionOf x_prev y_prev r xi yi j ob;
          a1 = reflectAtObstacle bounceDirection i r xi yi j ob a
      in
      if bounceDirection = 0 then (a1, ob, vxPrev, vyPrev)
      else
        (case collideWithObstacle bounceDirection i j (a1, ob, vxPrev, vyPrev) of
           (a2, ob2, vxPrev2, vyPrev2) \<Rightarrow>
             if updatePressure
             then (a2, updateProbes bounceDirection i j a2 vxPrev2 vyPrev2 ob2, vxPrev2, vyPrev2)
             else (a2, ob2, vxPrev2, vyPrev2)))"

text \<open>
  \<^verbatim>\<open>bounceParticleOffObstacles(i, x_prev, y_prev, updatePressure)\<close>; \<open>n\<close> is
  \<^verbatim>\<open>N_obstacles\<close>.
\<close>

definition bounceParticleOffObstacles ::
  "nat \<Rightarrow> nat \<Rightarrow> jsnum \<Rightarrow> jsnum \<Rightarrow> bool \<Rightarrow> atoms \<times> obstacles \<Rightarrow> atoms \<times> obstacles" where
  "bounceParticleOffObstacles n i x_prev y_prev updatePressure ao =
     (if n < 1 then ao
      else
        let a = fst ao;
            ob = snd ao;
            r = rd (radius a) i;
            xi = rd (x a) i;
            yi = rd (y a) i;
            st = fold (bounceOffObstacle i x_prev y_prev updatePressure r xi yi)
                   [0 ..< n] (a, ob, None, None)
        in (fst st, fst (snd st)))"


section \<open>Atom and element setters\<close>

record atomProps =
  a_element :: "nat option"
  a_x :: "jsnum option"
  a_y :: "jsnum option"
  a_vx :: "jsnum option"
  a_vy :: "jsnum option"
  a_ax :: "jsnum option"
  a_ay :: "jsnum option"
  a_charge :: "jsnum option"
  a_friction :: "jsnum option"
  a_pinned :: "bool option"
  a_mass :: "jsnum option"
  a_radius :: "jsnum option"

definition noAtomProps :: atomProps where
  "noAtomProps = \<lparr>a_element = None, a_x = None, a_y = None, a_vx = None, a_vy = None,
     a_ax = None, a_ay = None, a_charge = None, a_friction = None, a_pinned = None,
     a_mass = None, a_radius = None\<rparr>"

definition extendAtoms :: "atoms \<Rightarrow> nat \<Rightarrow> atoms" where
  "extendAtoms a n = \<lparr>
     radius = extendArray (Fin 0) (radius a) n,
     px = extendArray (Fin 0) (px a) n,
     py = extendArray (Fin 0) (py a) n,
     x = extendArray (Fin 0) (x a) n,
     y = extendArray (Fin 0) (y a) n,
     vx = extendArray (Fin 0) (vx a) n,
     vy = extendArray (Fin 0) (vy a) n,
     speed = extendArray (Fin 0) (speed a) n,
     ax = extendArray (Fin 0) (ax a) n,
     ay = extendArray (Fin 0) (ay a) n,
     charge = extendArray (Fin 0) (charge a) n,
     friction = extendArray (Fin 0) (friction a) n,
     element = extendArray 0 (element a) n,
     pinned = extendArray False (pinned a) n,
     mass = extendArray (Fin 0) (mass a) n\<rparr>"

text \<open>
  The loop \<^verbatim>\<open>for (key in props) atoms[key][i] = props[key]\<close> of \<^verbatim>\<open>setAtomProperties\<close>.
  \<^verbatim>\<open>atoms.element\<close> is a \<^verbatim>\<open>Uint8Array\<close>: it holds the element index modulo 256.
\<close>

definition writeAtom :: "nat \<Rightarrow> atomProps \<Rightarrow> atoms \<Rightarrow> atoms" where
  "writeAtom i props a = \<lparr>
     radius = setOpt (a_radius props) i (radius a),
     px = px a,
     py = py a,
     x = setOpt (a_x props) i (x a),
     y = setOpt (a_y props) i (y a),
     vx = setOpt (a_vx props) i (vx a),
     vy = setOpt (a_vy props) i (vy a),
     speed = speed a,
     ax = setOpt (a_ax props) i (ax a),
     ay = setOpt (a_ay props) i (ay a),
     charge = setOpt (a_charge props) i (charge a),
     friction = setOpt (a_friction props) i (friction a),
     element = setOpt (map_option (\<lambda>e. e mod 256) (a_element props)) i (element a),
     pinned = setOpt (a_pinned props) i (pinned a),
     mass = setOpt (a_mass props) i (mass a)\<rparr>"

text \<open>The last three assignments of \<^verbatim>\<open>setAtomProperties\<close>.\<close>

definition updateDependent :: "nat \<Rightarrow> atoms \<Rightarrow> atoms" where
  "updateDependent i a =
     (let a1 = a\<lparr>px := (px a)[i := jmul (rd (vx a) i) (rd (mass a) i)]\<rparr>;
          a2 = a1\<lparr>py := (py a1)[i := jmul (rd (vy a1) i) (rd (mass a1) i)]\<rparr>
      in a2\<lparr>speed := (speed a2)[i :=
           jsqrt (jadd (jmul (rd (vx a2) i) (rd (vx a2) i))
                       (jmul (rd (vy a2) i) (rd (vy a2) i)))]\<rparr>)"

text \<open>
  \<^verbatim>\<open>setAtomProperties(i, props)\<close>. A given element replaces the mass and radius of
  \<open>props\<close> by the element's. The list of charged atoms, which only the Coulomb forces
  read, is not part of the model.
\<close>

definition setAtomProperties :: "nat \<Rightarrow> atomProps \<Rightarrow> engine \<Rightarrow> engine outcome" where
  "setAtomProperties i props s =
     (case a_element props of
        None \<Rightarrow>
          (case atoms s of
             None \<Rightarrow> Throws TypeError s
           | Some a \<Rightarrow> Returns (s\<lparr>atoms := Some (updateDependent i (writeAtom i props a))\<rparr>))
      | Some el \<Rightarrow>
          let s1 = s\<lparr>elementUsed := (elementUsed s)(el := True)\<rparr> in
          (case elems s1 of
             None \<Rightarrow> Throws TypeError s1
           | Some e \<Rightarrow>
               let props1 = props\<lparr>a_mass := Some (rd (elementMass e) el),
                                  a_radius := Some (rd (elementRadius e) el)\<rparr>
               in (case atoms s1 of
                     None \<Rightarrow> Throws TypeError s1
                   | Some a \<Rightarrow>
                       Returns (s1\<lparr>atoms := Some (updateDependent i (writeAtom i props1 a))\<rparr>))))"

text \<open>
  \<^verbatim>\<open>addAtom(props)\<close>; the (re)initialisation of the cell and neighbour lists is not part
  of the model. The returned index is \<open>N - 1\<close> of the new state.
\<close>

definition addAtom :: "atomProps \<Rightarrow> engine \<Rightarrow> engine outcome" where
  "addAtom props s =
     (case atoms s of
        None \<Rightarrow> Throws TypeError s
      | Some a \<Rightarrow>
          let a1 = (if N s + 1 > length (x a) then extendAtoms a (N s + 10) else a);
              props1 = props\<lparr>a_ax := Some (Fin 0), a_ay := Some (Fin 0)\<rparr>;
              s1 = s\<lparr>atoms := Some a1, N := N s + 1\<rparr>
          in setAtomProperties (N s1 - 1) props1 s1)"

text \<open>
  \<^verbatim>\<open>setElementProperties(i, properties)\<close>. \<open>setWhere\<close> is the loop
  \<^verbatim>\<open>for (j = 0; j < N; j++) if (element[j] === i) arr[j] = v\<close>. The contents of the
  pairwise Lennard-Jones tables that the source recomputes at the end are not part of
  the model; the tables have one row for each element added, so the closing loop
  \<^verbatim>\<open>for (j = 0; j < N_elements; j++) setPairwiseLJProperties(i, j)\<close> ends in a \<open>TypeError\<close>
  at \<^verbatim>\<open>epsilon[i][j]\<close> when it runs for an \<open>i\<close> that has no row.
\<close>

definition setWhere :: "nat \<Rightarrow> nat list \<Rightarrow> nat \<Rightarrow> jsnum \<Rightarrow> jsnum list \<Rightarrow> jsnum list" where
  "setWhere n els i v arr =
     fold (\<lambda>j acc. if rdi els j = Some i then acc[j := v] else acc) [0 ..< n] arr"

definition setElementMass :: "nat \<Rightarrow> jsnum option \<Rightarrow> engine \<Rightarrow> elements \<times> atoms option \<Rightarrow> elements \<times> atoms option" where
  "setElementMass i m s ea =
     (case m of
        None \<Rightarrow> ea
      | Some v \<Rightarrow>
          if jeq v (rd (elementMass (fst ea)) i) then ea
          else ((fst ea)\<lparr>elementMass := (elementMass (fst ea))[i := v]\<rparr>,
                map_option (\<lambda>a. a\<lparr>mass := setWhere (N s) (element a) i v (mass a)\<rparr>) (snd ea)))"

definition setElementSigma :: "(jsnum \<Rightarrow> jsnum) \<Rightarrow> nat \<Rightarrow> jsnum option \<Rightarrow> engine \<Rightarrow> elements \<times> atoms option \<Rightarrow> elements \<times> atoms option" where
  "setElementSigma ljRadius i sg s ea =
     (case sg of
        None \<Rightarrow> ea
      | Some v \<Rightarrow>
          let e1 = (fst ea)\<lparr>elementSigma := (elementSigma (fst ea))[i := v]\<rparr>;
              newRadius = ljRadius v
          in if jeq (rd (elementRadius e1) i) newRadius then (e1, snd ea)
             else (e1\<lparr>elementRadius := (elementRadius e1)[i := newRadius]\<rparr>,
                   map_option (\<lambda>a. a\<lparr>radius := setWhere (N s) (element a) i newRadius (radius a)\<rparr>)
                     (snd ea)))"

definition setElementProperties ::
  "(jsnum \<Rightarrow> jsnum) \<Rightarrow> nat \<Rightarrow> jsnum option \<times> jsnum option \<times> jsnum option \<Rightarrow> engine \<Rightarrow> engine outcome" where
  "setElementProperties ljRadius i properties s =
     (case properties of (pmass, psigma, pepsilon) \<Rightarrow>
      case elems s of
        None \<Rightarrow> Throws TypeError s
      | Some e \<Rightarrow>
          let ea1 = setElementMass i pmass s (e, atoms s);
              ea2 = setElementSigma ljRadius i psigma s ea1;
              e3 = (case pepsilon of
                      None \<Rightarrow> fst ea2
                    | Some v \<Rightarrow> (fst ea2)\<lparr>elementEpsilon := (elementEpsilon (fst ea2))[i := v]\<rparr>)
          in if N_elements s = 0 \<or> i < N_elements s
             then Returns (s\<lparr>elems := Some e3, atoms := snd ea2\<rparr>)
             else Throws TypeError (s\<lparr>elems := Some e3, atoms := snd ea2\<rparr>))"

section \<open>The integrator\<close>

text \<open>
  What the engine takes from the modules that are not part of the file under study:
  \<open>forces\<close> is the result of the force accumulation of \<^verbatim>\<open>updateParticlesAccelerations\<close>
  (cell and neighbour lists, Lennard-Jones, Coulomb, bonds, restraints, springs, drag,
  division by the mass, gravity), the new contents of \<^verbatim>\<open>ax\<close> and \<^verbatim>\<open>ay\<close>; \<open>mwToJoule\<close> is
  \<^verbatim>\<open>constants.convert\<close> from the engine's energy unit to Joule; \<open>boltzmann\<close> is
  \<^verbatim>\<open>BOLTZMANN_CONSTANT_IN_JOULES\<close>; \<open>windowAverage\<close> is the windowed averager
  \<^verbatim>\<open>T_windowed\<close>, as a function of the temperatures passed to it so far.
\<close>

record modules =
  forces :: "engine \<Rightarrow> jsnum list \<times> jsnum list"
  mwToJoule :: "jsnum \<Rightarrow> jsnum"
  boltzmann :: jsnum
  windowAverage :: "jsnum list \<Rightarrow> jsnum"

text \<open>Sequencing of steps that may throw or not terminate.\<close>

definition andThen ::
  "'a outcome option \<Rightarrow> ('a \<Rightarrow> 'a outcome option) \<Rightarrow> 'a outcome option" where
  "andThen r f =
     (case r of
        None \<Rightarrow> None
      | Some (Throws e s) \<Rightarrow> Some (Throws e s)
      | Some (Returns s) \<Rightarrow> f s)"

text \<open>
  \<^verbatim>\<open>updateParticlesAccelerations\<close>. The neighbour list exists once \<^verbatim>\<open>addAtom\<close> has run;
  before that, \<^verbatim>\<open>neighborList.shouldUpdate\<close> is a call on \<^verbatim>\<open>undefined\<close>.
\<close>

definition updateParticlesAccelerations :: "modules \<Rightarrow> engine \<Rightarrow> engine outcome" where
  "updateParticlesAccelerations M s =
     (case atoms s of
        None \<Rightarrow> Throws TypeError s
      | Some a \<Rightarrow>
          if N s = 0 then Throws TypeError s
          else Returns (s\<lparr>atoms := Some (a\<lparr>ax := fst (forces M s), ay := snd (forces M s)\<rparr>)\<rparr>))"

definition halfKick :: "jsnum \<Rightarrow> nat \<Rightarrow> atoms \<Rightarrow> atoms" where
  "halfKick dt0 i a =
     (let m = rd (mass a) i;
          a1 = a\<lparr>vx := (vx a)[i := jadd (rd (vx a) i) (jmul (jmul (Fin (1/2)) (rd (ax a) i)) dt0)]\<rparr>;
          a2 = a1\<lparr>px := (px a1)[i := jmul m (rd (vx a1) i)]\<rparr>;
          a3 = a2\<lparr>vy := (vy a2)[i := jadd (rd (vy a2) i) (jmul (jmul (Fin (1/2)) (rd (ay a2) i)) dt0)]\<rparr>
      in a3\<lparr>py := (py a3)[i := jmul m (rd (vy a3) i)]\<rparr>)"

definition halfUpdateVelocity :: "engine \<Rightarrow> engine" where
  "halfUpdateVelocity s =
     s\<lparr>atoms := map_option (fold (halfKick (dt s)) [0 ..< N s]) (atoms s)\<rparr>"

text \<open>
  \<^verbatim>\<open>updateParticlesPosition\<close>: the body of its loop for atom \<open>i\<close>, on the atom and
  obstacle arrays, and the loop. \<open>advance c v dt\<close> is what the array holds after
  \<^verbatim>\<open>c += v * dt\<close>: the product and the sum are doubles, the entry of the
  \<^verbatim>\<open>Float32Array\<close> is the 32-bit float nearest to the sum. \<open>moveAtom\<close> is
  \<^verbatim>\<open>x[i] += vx[i] * dt; y[i] += vy[i] * dt\<close>. \<open>hundredfold\<close> is \<^verbatim>\<open>size[k] * 100\<close>, a double.
\<close>

definition advance :: "jsnum \<Rightarrow> jsnum \<Rightarrow> jsnum \<Rightarrow> jsnum" where
  "advance c v dt0 = toFloat32 (toDouble (jadd c (toDouble (jmul v dt0))))"

definition hundredfold :: "jsnum \<Rightarrow> jsnum" where
  "hundredfold extent = toDouble (jmul extent (Fin 100))"

definition moveAtom :: "jsnum \<Rightarrow> nat \<Rightarrow> atoms \<Rightarrow> atoms" where
  "moveAtom dt0 i a =
     (let a1 = a\<lparr>x := (x a)[i := advance (rd (x a) i) (rd (vx a) i) dt0]\<rparr>
      in a1\<lparr>y := (y a1)[i := advance (rd (y a1) i) (rd (vy a1) i) dt0]\<rparr>)"

definition driftAtom ::
  "engine \<Rightarrow> nat \<Rightarrow> atoms \<times> obstacles option \<Rightarrow> (atoms \<times> obstacles option) outcome option" where
  "driftAtom s i ao =
     (case ao of (a, obo) \<Rightarrow>
      let width100 = hundredfold (size_x s);
          height100 = hundredfold (size_y s);
          xPrev = rd (x a) i;
          yPrev = rd (y a) i;
          a2 = moveAtom (dt s) i a
      in
      if isNaN (rd (x a2) i) \<or> isNaN (rd (y a2) i)
         \<or> jgt (jabs (rd (x a2) i)) width100 \<or> jgt (jabs (rd (y a2) i)) height100
      then Some (Throws ModelHasDiverged (a2, obo))
      else
        (case bounceParticleOffWalls (size_x s, size_y s) i a2 of
           None \<Rightarrow> None
         | Some a3 \<Rightarrow>
             if N_obstacles s < 1 then Some (Returns (a3, obo))
             else
               (case obo of
                  None \<Rightarrow> Some (Throws TypeError (a3, obo))
                | Some ob \<Rightarrow>
                    (case bounceParticleOffObstacles (N_obstacles s) i xPrev yPrev True (a3, ob) of
                       (a4, ob4) \<Rightarrow> Some (Returns (a4, Some ob4))))))"

fun driftFrom ::
  "engine \<Rightarrow> nat list \<Rightarrow> atoms \<times> obstacles option \<Rightarrow> (atoms \<times> obstacles option) outcome option" where
  "driftFrom s [] ao = Some (Returns ao)"
| "driftFrom s (i # is) ao = andThen (driftAtom s i ao) (driftFrom s is)"

definition updateParticlesPosition :: "engine \<Rightarrow> engine outcome option" where
  "updateParticlesPosition s =
     (case atoms s of
        None \<Rightarrow> if N s = 0 then Some (Returns s) else Some (Throws TypeError s)
      | Some a \<Rightarrow>
          (case driftFrom s [0 ..< N s] (a, obstacles s) of
             None \<Rightarrow> None
           | Some (Throws e (a', ob')) \<Rightarrow> Some (Throws e (s\<lparr>atoms := Some a', obstacles := ob'\<rparr>))
           | Some (Returns (a', ob')) \<Rightarrow> Some (Returns (s\<lparr>atoms := Some a', obstacles := ob'\<rparr>))))"

definition pinAtom :: "nat \<Rightarrow> atoms \<Rightarrow> atoms" where
  "pinAtom i a =
     (if rdb (pinned a) i
      then a\<lparr>vx := (vx a)[i := Fin 0], vy := (vy a)[i := Fin 0],
             ax := (ax a)[i := Fin 0], ay := (ay a)[i := Fin 0]\<rparr>
      else a)"

definition pinAtoms :: "engine \<Rightarrow> engine" where
  "pinAtoms s = s\<lparr>atoms := map_option (fold pinAtom [0 ..< N s]) (atoms s)\<rparr>"

definition updateSpeed :: "nat \<Rightarrow> atoms \<Rightarrow> atoms" where
  "updateSpeed i a =
     a\<lparr>speed := (speed a)[i :=
        jsqrt (jadd (jmul (rd (vx a) i) (rd (vx a) i)) (jmul (rd (vy a) i) (rd (vy a) i)))]\<rparr>"

definition updateParticlesSpeed :: "engine \<Rightarrow> engine" where
  "updateParticlesSpeed s = s\<lparr>atoms := map_option (fold updateSpeed [0 ..< N s]) (atoms s)\<rparr>"

subsection \<open>Temperature\<close>

definition KE_to_T :: "modules \<Rightarrow> jsnum \<Rightarrow> nat \<Rightarrow> jsnum" where
  "KE_to_T M totalKEinMWUnits n =
     (let N_df = jmul (Fin 2) (Fin (real n));
          averageKEinMWUnits = jmul (jdiv (Fin 2) N_df) totalKEinMWUnits;
          averageKEinJoules = mwToJoule M averageKEinMWUnits
      in jdiv averageKEinJoules (boltzmann M))"

definition atomTwoKE :: "atoms \<Rightarrow> nat \<Rightarrow> jsnum \<Rightarrow> jsnum" where
  "atomTwoKE a i twoKE =
     jadd twoKE (jmul (rd (mass a) i)
       (jadd (jmul (rd (vx a) i) (rd (vx a) i)) (jmul (rd (vy a) i) (rd (vy a) i))))"

definition obstacleTwoKE :: "obstacles \<Rightarrow> nat \<Rightarrow> jsnum \<Rightarrow> jsnum" where
  "obstacleTwoKE ob i twoKE =
     (if \<not> jeq (rd (obstacleMass ob) i) PInf
      then jadd twoKE (jmul (rd (obstacleMass ob) i)
        (jadd (jmul (rd (obstacleVX ob) i) (rd (obstacleVX ob) i))
              (jmul (rd (obstacleVY ob) i) (rd (obstacleVY ob) i))))
      else twoKE)"

text \<open>
  \<^verbatim>\<open>computeTemperature\<close>. A container that does not exist yet has no entries to read:
  its count is zero or \<^verbatim>\<open>undefined\<close>, and the loop over it does not run.
\<close>

definition computeTemperature :: "modules \<Rightarrow> engine \<Rightarrow> jsnum" where
  "computeTemperature M s =
     (let twoKE1 = (case atoms s of
                      None \<Rightarrow> Fin 0
                    | Some a \<Rightarrow> fold (atomTwoKE a) [0 ..< N s] (Fin 0));
          twoKE2 = (case obstacles s of
                      None \<Rightarrow> twoKE1
                    | Some ob \<Rightarrow> fold (obstacleTwoKE ob) [0 ..< N_obstacles s] twoKE1)
      in KE_to_T M (jdiv twoKE2 (Fin 2)) (N s))"

definition scaleParticleVelocity :: "jsnum \<Rightarrow> nat \<Rightarrow> atoms \<Rightarrow> atoms" where
  "scaleParticleVelocity factor i a =
     a\<lparr>vx := (vx a)[i := jmul (rd (vx a) i) factor],
       vy := (vy a)[i := jmul (rd (vy a) i) factor],
       px := (px a)[i := jmul (rd (px a) i) factor],
       py := (py a)[i := jmul (rd (py a) i) factor]\<rparr>"

definition scaleObstacleVelocity :: "jsnum \<Rightarrow> nat \<Rightarrow> obstacles \<Rightarrow> obstacles" where
  "scaleObstacleVelocity factor i ob =
     ob\<lparr>obstacleVX := (obstacleVX ob)[i := jmul (rd (obstacleVX ob) i) factor],
        obstacleVY := (obstacleVY ob)[i := jmul (rd (obstacleVY ob) i) factor]\<rparr>"

definition tempTolerance :: jsnum where
  "tempTolerance = Fin (1/1000)"

definition beginTransientTemperatureChange :: "engine \<Rightarrow> engine" where
  "beginTransientTemperatureChange s = s\<lparr>temperatureChangeInProgress := True, T_history := []\<rparr>"

text \<open>
  \<^verbatim>\<open>adjustTemperature(target, forceAdjustment)\<close>; \<open>None\<close> is a call without \<open>target\<close>.
  \<open>measureTemperature\<close> is its first half: it stores the instantaneous temperature in
  \<open>T\<close> and, while a transient change is in progress, passes it to the averager and
  clears the flag when the average is within the tolerance of the target.
  \<open>rescaleVelocities\<close> is the body of its last conditional.
\<close>

definition targetOf :: "jsnum option \<Rightarrow> engine \<Rightarrow> jsnum" where
  "targetOf target0 s = (case target0 of None \<Rightarrow> T_target s | Some t \<Rightarrow> t)"

definition measureTemperature :: "modules \<Rightarrow> jsnum \<Rightarrow> engine \<Rightarrow> engine" where
  "measureTemperature M target s =
     (let s1 = s\<lparr>T := computeTemperature M s\<rparr>
      in if temperatureChangeInProgress s1 then
           let s2 = s1\<lparr>T_history := T_history s1 @ [T s1]\<rparr> in
           if jle (jabs (jsub (windowAverage M (T_history s2)) target))
                  (jmul target tempTolerance)
           then s2\<lparr>temperatureChangeInProgress := False\<rparr>
           else s2
         else s1)"

definition rescaleVelocities :: "jsnum \<Rightarrow> engine \<Rightarrow> engine" where
  "rescaleVelocities target s =
     (let rescalingFactor = jsqrt (jdiv target (T s))
      in s\<lparr>atoms := map_option (fold (scaleParticleVelocity rescalingFactor) [0 ..< N s]) (atoms s),
           obstacles := map_option (fold (scaleObstacleVelocity rescalingFactor) [0 ..< N_obstacles s])
                          (obstacles s),
           T := target\<rparr>)"

definition rescales :: "bool \<Rightarrow> engine \<Rightarrow> bool" where
  "rescales forceAdjustment s =
     (forceAdjustment \<or> useThermostat s \<or> (temperatureChangeInProgress s \<and> jgt (T s) (Fin 0)))"

definition adjustTemperature :: "modules \<Rightarrow> jsnum option \<Rightarrow> bool \<Rightarrow> engine \<Rightarrow> engine" where
  "adjustTemperature M target0 forceAdjustment s =
     (let target = targetOf target0 s;
          s2 = measureTemperature M target s
      in if rescales forceAdjustment s2 then rescaleVelocities target s2 else s2)"

text \<open>The real number a finite JavaScript number stands for.\<close>

fun realOf :: "jsnum \<Rightarrow> real" where
  "realOf (Fin r) = r"
| "realOf _ = 0"

fun isFin :: "jsnum \<Rightarrow> bool" where
  "isFin (Fin r) = True"
| "isFin _ = False"

subsection \<open>The integration loop\<close>

text \<open>One pass of the loop body of \<^verbatim>\<open>integrate\<close>, for the loop counter \<open>iloop\<close>.\<close>

definition verletStep :: "modules \<Rightarrow> nat \<Rightarrow> jsnum \<Rightarrow> engine \<Rightarrow> engine outcome option" where
  "verletStep M iloop tStart s =
     (let s1 = s\<lparr>time := jadd tStart (jmul (Fin (real iloop)) (dt s))\<rparr>;
          s2 = halfUpdateVelocity s1
      in andThen (updateParticlesPosition s2) (\<lambda>s3.
         andThen (Some (updateParticlesAccelerations M s3)) (\<lambda>s4.
           let s5 = pinAtoms s4;
               s6 = halfUpdateVelocity s5;
               s7 = updateParticlesSpeed s6
           in andThen (updateObstaclesPosition s7) (\<lambda>s8.
                Some (Returns (adjustTemperature M None False s8))))))"

text \<open>
  \<^verbatim>\<open>for (iloop = 1; iloop <= steps; iloop++)\<close>; \<open>steps\<close> is a number and can be
  \<open>PInf\<close>, so the loop need not end.
\<close>

partial_function (option) integrateLoop ::
  "modules \<Rightarrow> nat \<Rightarrow> jsnum \<Rightarrow> jsnum \<Rightarrow> engine \<Rightarrow> engine outcome option" where
  "integrateLoop M iloop steps tStart s =
     (if jle (Fin (real iloop)) steps then
        (case verletStep M iloop tStart s of
           None \<Rightarrow> None
         | Some (Throws e s') \<Rightarrow> Some (Throws e s')
         | Some (Returns s') \<Rightarrow> integrateLoop M (iloop + 1) steps tStart s')
      else Some (Returns s))"

text \<open>
  \<^verbatim>\<open>integrate(duration, _dt)\<close>; \<open>None\<close> is an omitted argument. The number of steps is
  the floor of the quotient as a double, \<^verbatim>\<open>Math.floor(duration / dt)\<close>.
  \<^verbatim>\<open>pressureBuffers.updateBuffers(duration)\<close> appends \<open>duration\<close> to \<open>pressureTime\<close>.
\<close>

definition updateBuffers :: "jsnum \<Rightarrow> engine \<Rightarrow> engine" where
  "updateBuffers duration s = s\<lparr>pressureTime := pressureTime s @ [duration]\<rparr>"

definition integrate ::
  "modules \<Rightarrow> jsnum option \<Rightarrow> jsnum option \<Rightarrow> engine \<Rightarrow> engine outcome option" where
  "integrate M duration0 dt0 s =
     (let tStart = time s in
      if \<not> atomsHaveBeenCreated s then Some (Throws IntegrateBeforeAtomsCreated s)
      else
        let duration = (case duration0 of None \<Rightarrow> Fin 100 | Some d \<Rightarrow> d);
            dt1 = (case dt0 of None \<Rightarrow> Fin 1 | Some d \<Rightarrow> d);
            s1 = s\<lparr>dt := dt1, dt_sq := jmul dt1 dt1\<rparr>
        in andThen (if jeq (time s1) (Fin 0)
                    then Some (updateParticlesAccelerations M s1)
                    else Some (Returns s1)) (\<lambda>s2.
             let steps = jfloor (toDouble (jdiv duration (dt s2)))
             in andThen (integrateLoop M 1 steps tStart s2) (\<lambda>s3.
                  Some (Returns (updateBuffers duration s3)))))"


section \<open>Well-formed states\<close>

text \<open>
  The first \<open>n\<close> entries of an array exist and are finite numbers; for the mass of an
  obstacle, finite or \<open>PInf\<close> (an immovable obstacle).
\<close>

definition finiteUpTo :: "nat \<Rightarrow> jsnum list \<Rightarrow> bool" where
  "finiteUpTo n xs = (n \<le> length xs \<and> list_all isFin (take n xs))"

definition massesUpTo :: "nat \<Rightarrow> jsnum list \<Rightarrow> bool" where
  "massesUpTo n xs = (n \<le> length xs \<and> list_all (\<lambda>m. isFin m \<or> m = PInf) (take n xs))"

definition finiteAtoms :: "nat \<Rightarrow> atoms \<Rightarrow> bool" where
  "finiteAtoms n a =
     (finiteUpTo n (vx a) \<and> finiteUpTo n (vy a) \<and> finiteUpTo n (mass a)
      \<and> n \<le> length (px a) \<and> n \<le> length (py a))"

definition finiteObstacles :: "nat \<Rightarrow> obstacles \<Rightarrow> bool" where
  "finiteObstacles n ob =
     (finiteUpTo n (obstacleVX ob) \<and> finiteUpTo n (obstacleVY ob)
      \<and> massesUpTo n (obstacleMass ob))"

text \<open>
  Twice the kinetic energy, as a real number: the sum that \<^verbatim>\<open>computeTemperature\<close>
  accumulates over the atoms and over the movable obstacles.
\<close>

definition twoKEAtoms :: "nat \<Rightarrow> atoms \<Rightarrow> real" where
  "twoKEAtoms n a =
     (\<Sum>i<n. realOf (mass a ! i) * (realOf (vx a ! i) * realOf (vx a ! i)
                                     + realOf (vy a ! i) * realOf (vy a ! i)))"

definition twoKEObstacles :: "nat \<Rightarrow> obstacles \<Rightarrow> real" where
  "twoKEObstacles n ob =
     (\<Sum>i<n. if obstacleMass ob ! i = PInf then 0
             else realOf (obstacleMass ob ! i)
                    * (realOf (obstacleVX ob ! i) * realOf (obstacleVX ob ! i)
                       + realOf (obstacleVY ob ! i) * realOf (obstacleVY ob ! i)))"

definition finiteState :: "engine \<Rightarrow> bool" where
  "finiteState s =
     (0 < N s
      \<and> (case atoms s of None \<Rightarrow> False | Some a \<Rightarrow> finiteAtoms (N s) a)
      \<and> (case obstacles s of None \<Rightarrow> True | Some ob \<Rightarrow> finiteObstacles (N_obstacles s) ob))"

text \<open>
  The unit conversion is a multiplication by a positive factor \<open>k\<close>, and Boltzmann's
  constant is a positive number \<open>b\<close>.
\<close>

definition linearUnits :: "modules \<Rightarrow> real \<Rightarrow> real \<Rightarrow> bool" where
  "linearUnits M k b =
     ((\<forall>r. mwToJoule M (Fin r) = Fin (k * r)) \<and> boltzmann M = Fin b \<and> 0 < k \<and> 0 < b)"

text \<open>The temperature of a well-formed state, in closed form.\<close>

definition temperatureOf :: "real \<Rightarrow> real \<Rightarrow> nat \<Rightarrow> real \<Rightarrow> real" where
  "temperatureOf k b n twoKE = k * (2 / (2 * real n) * (twoKE / 2)) / b"

definition twoKEOf :: "engine \<Rightarrow> real" where
  "twoKEOf s =
     (case atoms s of None \<Rightarrow> 0 | Some a \<Rightarrow> twoKEAtoms (N s) a)
     + (case obstacles s of None \<Rightarrow> 0 | Some ob \<Rightarrow> twoKEObstacles (N_obstacles s) ob)"



section \<open>The drift substep, as the specification words it\<close>

text \<open>
  Atom \<open>i\<close> has diverged when its new coordinate, the one the array holds after
  \<^verbatim>\<open>x += vx * dt\<close> or \<^verbatim>\<open>y += vy * dt\<close>, is \<open>NaN\<close> or exceeds, in absolute value, 100 times
  the domain's extent in that direction.
\<close>

definition divergedAt :: "engine \<Rightarrow> atoms \<Rightarrow> nat \<Rightarrow> bool" where
  "divergedAt s a i =
     (isNaN (advance (rd (x a) i) (rd (vx a) i) (dt s))
      \<or> isNaN (advance (rd (y a) i) (rd (vy a) i) (dt s))
      \<or> jgt (jabs (advance (rd (x a) i) (rd (vx a) i) (dt s))) (hundredfold (size_x s))
      \<or> jgt (jabs (advance (rd (y a) i) (rd (vy a) i) (dt s))) (hundredfold (size_y s)))"

text \<open>
  What the substep does with an atom that has not diverged: the position is updated,
  the atom is bounced off the walls, and then off the obstacles, if there are any, with
  the position before the update as the previous position and pressure updating
  enabled. (Where the wall bounce does not end, the atom is left as moved; the theorem
  below is about states where it ends.)
\<close>

definition driftThenBounce ::
  "engine \<Rightarrow> nat \<Rightarrow> atoms \<times> obstacles option \<Rightarrow> atoms \<times> obstacles option" where
  "driftThenBounce s i ao =
     (case ao of (a, obo) \<Rightarrow>
        let moved = moveAtom (dt s) i a;
            walled = (case bounceParticleOffWalls (size_x s, size_y s) i moved of
                        None \<Rightarrow> moved
                      | Some a3 \<Rightarrow> a3)
        in case obo of
             None \<Rightarrow> (walled, None)
           | Some ob \<Rightarrow>
               if N_obstacles s < 1 then (walled, Some ob)
               else
                 (case bounceParticleOffObstacles (N_obstacles s) i (rd (x a) i) (rd (y a) i)
                         True (walled, ob) of
                    (a4, ob4) \<Rightarrow> (a4, Some ob4)))"

text \<open>
  Processing atom \<open>i\<close> leaves the radii and the positions and velocities of the other
  atoms as they were.
\<close>

definition otherAtomsKept :: "nat \<Rightarrow> atoms \<Rightarrow> atoms \<Rightarrow> bool" where
  "otherAtomsKept i a a' =
     (radius a' = radius a
      \<and> length (x a') = length (x a) \<and> length (y a') = length (y a)
      \<and> length (vx a') = length (vx a) \<and> length (vy a') = length (vy a)
      \<and> (\<forall>k. k \<noteq> i \<longrightarrow> x a' ! k = x a ! k \<and> y a' ! k = y a ! k
                       \<and> vx a' ! k = vx a ! k \<and> vy a' ! k = vy a ! k))"


section \<open>A given number of integration steps\<close>

text \<open>
  \<open>n\<close> passes of the loop body of \<^verbatim>\<open>integrate\<close>, with the loop counters \<open>iloop\<close>,
  \<open>iloop + 1\<close>, ..., stopping at the first pass that throws or does not end.
\<close>

primrec runSteps :: "modules \<Rightarrow> jsnum \<Rightarrow> nat \<Rightarrow> nat \<Rightarrow> engine \<Rightarrow> engine outcome option" where
  "runSteps M tStart iloop 0 s = Some (Returns s)"
| "runSteps M tStart iloop (Suc n) s =
     andThen (verletStep M iloop tStart s) (runSteps M tStart (Suc iloop) n)"

section \<open>Van der Waals pairs\<close>

text \<open>
  The pairs \<^verbatim>\<open>updateVdwPairsArray\<close> visits, in the order of its two loops: \<open>i\<close> from \<open>0\<close>,
  \<open>j\<close> from \<open>i + 1\<close>, both below \<open>N\<close>.
\<close>

definition vdwLoopPairs :: "nat \<Rightarrow> (nat \<times> nat) list" where
  "vdwLoopPairs n = concat (map (\<lambda>i. map (Pair i) [Suc i ..< n]) [0 ..< n])"

text \<open>The test of line 2204 that skips a pair.\<close>

definition radiallyBonded :: "engine \<Rightarrow> nat \<Rightarrow> nat \<Rightarrow> bool" where
  "radiallyBonded s i j = (N_radialBonds s \<noteq> 0 \<and> radialBondMatrix s i j)"

text \<open>
  The two nested conditions under which the pair \<open>(i, j)\<close> is written. Both
  \<^verbatim>\<open>sigma_i\<close> and \<^verbatim>\<open>epsilon_i\<close> are read from \<^verbatim>\<open>elementSigma\<close>, as in the source.
\<close>

definition vdwPairListed :: "jsnum \<Rightarrow> atoms \<Rightarrow> elements \<Rightarrow> nat \<Rightarrow> nat \<Rightarrow> bool" where
  "vdwPairListed distanceCutoff_sq a el i j =
     (let index_i = rdi (element a) i;
          sigma_i = rdo (elementSigma el) index_i;
          epsilon_i = rdo (elementSigma el) index_i;
          x_i = rd (x a) i;
          y_i = rd (y a) i;
          index_j = rdi (element a) j;
          sigma_j = rdo (elementSigma el) index_j;
          epsilon_j = rdo (elementSigma el) index_j
      in jle (jmul (rd (charge a) i) (rd (charge a) j)) (Fin 0) \<and>
         (let dx = jsub (rd (x a) j) x_i;
              dy = jsub (rd (y a) j) y_i;
              r_sq = jadd (jmul dx dx) (jmul dy dy);
              sig = jmul (Fin (1/2)) (jadd sigma_i sigma_j);
              sig_sq = jmul sig sig;
              eps = jmul epsilon_i epsilon_j
          in jlt r_sq (jmul sig_sq distanceCutoff_sq) \<and> jgt eps (Fin 0)))"

text \<open>
  The body of the inner loop, on the running count and the two index arrays. The
  arrays are \<^verbatim>\<open>uint16\<close>: they store an index modulo \<open>65536\<close>, and a write past their
  length is dropped while the count still advances.
\<close>

definition vdwVisit ::
  "engine \<Rightarrow> jsnum \<Rightarrow> atoms \<Rightarrow> elements \<Rightarrow> nat \<times> nat \<Rightarrow>
   nat \<times> nat list \<times> nat list \<Rightarrow> nat \<times> nat list \<times> nat list" where
  "vdwVisit s distanceCutoff_sq a el ij acc =
     (case (ij, acc) of ((i, j), (n, p1, p2)) \<Rightarrow>
        if radiallyBonded s i j then (n, p1, p2)
        else if vdwPairListed distanceCutoff_sq a el i j
        then (Suc n, p1[n := i mod 65536], p2[n := j mod 65536])
        else (n, p1, p2))"

text \<open>
  \<^verbatim>\<open>updateVdwPairsArray\<close>. Before \<^verbatim>\<open>createVdwPairsArray\<close> the container is \<^verbatim>\<open>undefined\<close>
  and the call ends in a \<open>TypeError\<close>, at the first write or at the final store of the
  count; so does a pass over atoms while the atom or element arrays are missing.
\<close>

definition updateVdwPairsArray :: "engine \<Rightarrow> engine outcome" where
  "updateVdwPairsArray s =
     (let distanceCutoff_sq = jmul (vdwLinesRatio s) (vdwLinesRatio s);
          s0 = s\<lparr>N_vdwPairs := Some 0\<rparr>
      in case vdwPairs s of
           None \<Rightarrow> Throws TypeError s0
         | Some vp \<Rightarrow>
             if N s = 0
             then Returns (s0\<lparr>vdwPairs := Some (vp\<lparr>vdwCount := Some 0\<rparr>)\<rparr>)
             else
               (case (atoms s, elems s) of
                  (Some a, Some el) \<Rightarrow>
                    (case fold (\<lambda>i. fold (\<lambda>j. vdwVisit s distanceCutoff_sq a el (i, j)) [Suc i ..< N s])
                            [0 ..< N s] (0, vdwPairAtom1Index vp, vdwPairAtom2Index vp) of
                       (n, p1, p2) \<Rightarrow>
                         Returns (s\<lparr>N_vdwPairs := Some n,
                           vdwPairs := Some \<lparr>vdwCount = Some n, vdwPairAtom1Index = p1,
                             vdwPairAtom2Index = p2\<rparr>\<rparr>))
                | _ \<Rightarrow> Throws TypeError s0))"

text \<open>\<^verbatim>\<open>createVdwPairsArray\<close>: two zero-filled arrays of length \<open>N (N - 1) / 2\<close>, then an update.\<close>

definition createVdwPairsArray :: "engine \<Rightarrow> engine outcome" where
  "createVdwPairsArray s =
     (let maxNumPairs = N s * (N s - 1) div 2
      in updateVdwPairsArray
           (s\<lparr>vdwPairs := Some \<lparr>vdwCount = N_vdwPairs s,
                vdwPairAtom1Index = replicate maxNumPairs 0,
                vdwPairAtom2Index = replicate maxNumPairs 0\<rparr>\<rparr>))"

text \<open>The pairs the container lists: the first \<open>N_vdwPairs\<close> entries of the two arrays.\<close>

definition recordedPairs :: "engine \<Rightarrow> (nat \<times> nat) list" where
  "recordedPairs s =
     (case (N_vdwPairs s, vdwPairs s) of
        (Some n, Some vp) \<Rightarrow> zip (take n (vdwPairAtom1Index vp)) (take n (vdwPairAtom2Index vp))
      | _ \<Rightarrow> [])"

text \<open>
  The specification's description of a listed pair, in its own words: not radially
  bonded, charge product at most zero, and squared separation below
  \<open>(vdwLinesRatio * sigma_ij)\<^sup>2\<close> with \<open>sigma_ij = (sigma_i + sigma_j) / 2\<close>.
\<close>

definition specVdwPair :: "engine \<Rightarrow> atoms \<Rightarrow> elements \<Rightarrow> nat \<times> nat \<Rightarrow> bool" where
  "specVdwPair s a el ij =
     (case ij of (i, j) \<Rightarrow>
        let sigma_i = rdo (elementSigma el) (rdi (element a) i);
            sigma_j = rdo (elementSigma el) (rdi (element a) j);
            sigma_ij = jdiv (jadd sigma_i sigma_j) (Fin 2);
            dx = jsub (rd (x a) j) (rd (x a) i);
            dy = jsub (rd (y a) j) (rd (y a) i);
            cutoff = jmul (vdwLinesRatio s) sigma_ij
        in \<not> radiallyBonded s i j \<and>
           jle (jmul (rd (charge a) i) (rd (charge a) j)) (Fin 0) \<and>
           jlt (jadd (jmul dx dx) (jmul dy dy)) (jmul cutoff cutoff))"

text \<open>The product that the source names \<^verbatim>\<open>eps\<close>: of the two sigmas.\<close>

definition sigmaProduct :: "atoms \<Rightarrow> elements \<Rightarrow> nat \<times> nat \<Rightarrow> jsnum" where
  "sigmaProduct a el ij =
     jmul (rdo (elementSigma el) (rdi (element a) (fst ij)))
          (rdo (elementSigma el) (rdi (element a) (snd ij)))"

section \<open>Facts about JavaScript numbers\<close>

lemma jeq_Fin [simp]: "jeq (Fin a) (Fin b) = (a = b)"
  by (simp add: jeq_def)

lemma jgt_Fin [simp]: "jgt (Fin a) (Fin b) = (b < a)"
  by (simp add: jgt_def)

lemma jle_Fin [simp]: "jle (Fin a) (Fin b) = (a \<le> b)"
  by (auto simp: jle_def)

lemma jge_Fin [simp]: "jge (Fin a) (Fin b) = (b \<le> a)"
  by (simp add: jge_def)

lemma jsub_Fin [simp]: "jsub (Fin a) (Fin b) = Fin (a - b)"
  by (simp add: jsub_def)

lemma truthy_Fin [simp]: "truthy (Fin a) = (a \<noteq> 0)"
  by (simp add: truthy_def)

lemma jeq_special [simp]:
  "jeq (Fin a) PInf = False" "jeq (Fin a) NInf = False" "jeq (Fin a) NaN = False"
  "jeq PInf (Fin a) = False" "jeq NInf (Fin a) = False" "jeq NaN b = False"
  "jeq PInf PInf = True" "jeq NInf NInf = True" "jeq PInf NInf = False" "jeq NInf PInf = False"
  "jeq PInf NaN = False" "jeq NInf NaN = False"
  by (simp_all add: jeq_def)

lemma truthy_special [simp]: "truthy PInf" "truthy NInf" "\<not> truthy NaN"
  by (simp_all add: truthy_def)

section \<open>Lifecycle: size, elements, atoms\<close>

lemma setSize_after_flag:
  "sizeHasBeenInitialized s \<Longrightarrow> setSize v s = Throws SizeAlreadySet s"
  by (simp add: setSize_def)

lemma setSize_before_flag:
  "\<not> sizeHasBeenInitialized s \<Longrightarrow> thrown (setSize v s) = None"
  by (simp add: setSize_def Let_def)

lemma setSize_keeps_flag:
  "sizeHasBeenInitialized (stateOf (setSize v s)) = sizeHasBeenInitialized s"
  by (simp add: setSize_def Let_def)

lemma createAtomsArray_sets_flag:
  "elementsHaveBeenCreated s \<Longrightarrow> \<not> atomsHaveBeenCreated s \<Longrightarrow>
   sizeHasBeenInitialized (stateOf (createAtomsArray num s))"
  by (simp add: createAtomsArray_def Let_def split: option.split jsnum.split)

text \<open>
  C9 (the code at a failing input). \<^verbatim>\<open>setSize\<close> tests \<^verbatim>\<open>sizeHasBeenInitialized\<close> and
  never sets it, although the flag's comment says that setting the size is only
  allowed to happen once. So on a new engine \<^verbatim>\<open>setSize([5, 5])\<close> followed by
  \<^verbatim>\<open>setSize([7, 7])\<close> does not throw at the second call: the call returns, and the
  stored size, 5 by 5 after the first call, is 7 by 7 after the second. Nothing else
  in the state has changed.
\<close>

theorem setSize_second_call_replaces_size:
  "setSize (Fin 7, Fin 7) (stateOf (setSize (Fin 5, Fin 5) createEngine))
     = Returns (createEngine\<lparr>size_x := Fin 7, size_y := Fin 7\<rparr>)
   \<and> thrown (setSize (Fin 5, Fin 5) createEngine) = None
   \<and> getSize (stateOf (setSize (Fin 5, Fin 5) createEngine)) = (Fin 5, Fin 5)
   \<and> thrown (setSize (Fin 7, Fin 7) (stateOf (setSize (Fin 5, Fin 5) createEngine))) = None
   \<and> getSize (stateOf (setSize (Fin 7, Fin 7) (stateOf (setSize (Fin 5, Fin 5) createEngine))))
     = (Fin 7, Fin 7)"
  by (simp add: setSize_def createEngine_def getSize_def)

text \<open>
  The same for every state and every argument: while the flag is unset, \<^verbatim>\<open>setSize\<close>
  returns with the size replaced (by 10 where the argument is not a positive number)
  and with the flag still unset, so the next call returns as well.
\<close>

lemma setSize_repeats:
  assumes "\<not> sizeHasBeenInitialized s"
  shows "setSize v s = Returns (s\<lparr>
        size_x := (if truthy (fst v) \<and> jgt (fst v) (Fin 0) then fst v else Fin 10),
        size_y := (if truthy (snd v) \<and> jgt (snd v) (Fin 0) then snd v else Fin 10)\<rparr>)"
    and "\<not> sizeHasBeenInitialized (stateOf (setSize v s))"
  using assms by (simp_all add: setSize_def Let_def)

section \<open>Spring forces\<close>

text \<open>
  C10. For \<open>i < N_springForces\<close>, \<^verbatim>\<open>removeSpringForce(i)\<close> changes the count and nothing
  else: the stored entries stay, the loop of \<^verbatim>\<open>updateSpringForces\<close> no longer reaches the
  highest index, and it still reaches \<open>i\<close> when \<open>i\<close> is not the highest. For
  \<open>i \<ge> N_springForces\<close> the state is unchanged.
\<close>

theorem removeSpringForce_drops_last:
  "(i < N_springForces s \<longrightarrow>
      removeSpringForce i s = s\<lparr>N_springForces := N_springForces s - 1\<rparr>
      \<and> springForces (removeSpringForce i s) = springForces s
      \<and> appliedSpringForces (removeSpringForce i s) = [0 ..< N_springForces s - 1]
      \<and> N_springForces s - 1 \<notin> set (appliedSpringForces (removeSpringForce i s))
      \<and> (i < N_springForces s - 1 \<longrightarrow> i \<in> set (appliedSpringForces (removeSpringForce i s))))
   \<and> (i \<ge> N_springForces s \<longrightarrow> removeSpringForce i s = s)"
  by (simp add: removeSpringForce_def appliedSpringForces_def)

theorem removeSpringForce_drops_last_witness:
  "(0::nat) < N_springForces (snd (addSpringForce 4 (Fin 2) (Fin 2) (Fin 1)
        (snd (addSpringForce 3 (Fin 1) (Fin 1) (Fin 1) createEngine))))
   \<and> appliedSpringForces (removeSpringForce 0 (snd (addSpringForce 4 (Fin 2) (Fin 2) (Fin 1)
        (snd (addSpringForce 3 (Fin 1) (Fin 1) (Fin 1) createEngine))))) = [0]
   \<and> springForces (removeSpringForce 0 (snd (addSpringForce 4 (Fin 2) (Fin 2) (Fin 1)
        (snd (addSpringForce 3 (Fin 1) (Fin 1) (Fin 1) createEngine)))))
      = springForces (snd (addSpringForce 4 (Fin 2) (Fin 2) (Fin 1)
        (snd (addSpringForce 3 (Fin 1) (Fin 1) (Fin 1) createEngine))))
   \<and> removeSpringForce 5 (snd (addSpringForce 4 (Fin 2) (Fin 2) (Fin 1)
        (snd (addSpringForce 3 (Fin 1) (Fin 1) (Fin 1) createEngine))))
      = snd (addSpringForce 4 (Fin 2) (Fin 2) (Fin 1)
        (snd (addSpringForce 3 (Fin 1) (Fin 1) (Fin 1) createEngine)))"
proof -
  let ?s = "snd (addSpringForce 4 (Fin 2) (Fin 2) (Fin 1)
        (snd (addSpringForce 3 (Fin 1) (Fin 1) (Fin 1) createEngine)))"
  have n: "N_springForces ?s = 2"
    by (simp add: addSpringForce_def Let_def createEngine_def)
  have h: "0 < N_springForces ?s" and h5: "5 \<ge> N_springForces ?s"
    by (simp_all add: n)
  note t = removeSpringForce_drops_last [of 0 ?s, THEN conjunct1, THEN mp, OF h]
  have a: "appliedSpringForces (removeSpringForce 0 ?s) = [0]"
    using t [THEN conjunct2, THEN conjunct2, THEN conjunct1] by (simp only: n) simp
  have b: "springForces (removeSpringForce 0 ?s) = springForces ?s"
    by (rule t [THEN conjunct2, THEN conjunct1])
  have c: "removeSpringForce 5 ?s = ?s"
    by (rule removeSpringForce_drops_last [of 5 ?s, THEN conjunct2, THEN mp, OF h5])
  show ?thesis using h by (simp only: a b c)
qed

section \<open>Contract violations\<close>

lemma validateTemperature_accepts:
  "validateTemperature t = None \<longleftrightarrow> (\<exists>r. t = Fin r \<and> 0 \<le> r)"
  by (cases t) (auto simp: validateTemperature_def jeq_def)

lemma setTargetTemperature_rejects:
  "validateTemperature v = Some e \<Longrightarrow> setTargetTemperature v s = Throws e s"
  by (simp add: setTargetTemperature_def)

lemma createAtomsArray_ordering_checks:
  "\<not> elementsHaveBeenCreated s \<Longrightarrow>
     createAtomsArray num s = Throws CreateAtomsBeforeSetElements s"
  "elementsHaveBeenCreated s \<Longrightarrow> atomsHaveBeenCreated s \<Longrightarrow>
     createAtomsArray num s = Throws AtomsAlreadyCreated s"
  by (simp_all add: createAtomsArray_def)

lemma createAtomsArray_rejected_count:
  assumes e: "elementsHaveBeenCreated s" and a: "\<not> atomsHaveBeenCreated s"
    and t: "thrown (createAtomsArray num s) \<noteq> None"
  shows "stateOf (createAtomsArray num s)
    = s\<lparr>atomsHaveBeenCreated := True, sizeHasBeenInitialized := True\<rparr>"
proof (cases num)
  case None
  then show ?thesis using e a by (simp add: createAtomsArray_def)
next
  case (Some n)
  show ?thesis
  proof (cases "\<not> jeq n (jfloor n)")
    case True
    then show ?thesis using e a Some by (simp add: createAtomsArray_def)
  next
    case i: False
    show ?thesis
    proof (cases "jlt n N_MIN")
      case True
      then show ?thesis using e a Some i by (simp add: createAtomsArray_def)
    next
      case l: False
      show ?thesis
      proof (cases "jgt n N_MAX")
        case True
        then show ?thesis using e a Some i l by (simp add: createAtomsArray_def)
      next
        case g: False
        show ?thesis
        proof (cases n)
          case (Fin r)
          then have "thrown (createAtomsArray num s) = None"
            using e a Some i l g by (simp add: createAtomsArray_def)
          with t show ?thesis by simp
        qed (use e a Some i l g in \<open>simp_all add: createAtomsArray_def\<close>)
      qed
    qed
  qed
qed
text \<open>
  C3 (the code at a failing input). With elements declared and no atoms yet,
  \<^verbatim>\<open>createAtomsArray(0)\<close> throws for the count and has already set \<open>atomsHaveBeenCreated\<close>
  and \<open>sizeHasBeenInitialized\<close>. Both are visible through the public operations:
  \<^verbatim>\<open>setSize\<close>, which returned before the failed call, throws after it, and a later
  \<^verbatim>\<open>createAtomsArray(5)\<close>, valid before, is refused as a second creation.
\<close>

theorem createAtomsArray_rejected_count_changes_state:
  "createAtomsArray (Some (Fin 0))
       (stateOf (initializeElements (\<lambda>sg. jmul (Fin (1/2)) sg)
          [\<lparr>p_mass = Fin 40, p_epsilon = Fin (-1/100), p_sigma = Fin (1/3)\<rparr>] createEngine))
     = Throws NumLessThanMin
       ((stateOf (initializeElements (\<lambda>sg. jmul (Fin (1/2)) sg)
          [\<lparr>p_mass = Fin 40, p_epsilon = Fin (-1/100), p_sigma = Fin (1/3)\<rparr>] createEngine))
        \<lparr>atomsHaveBeenCreated := True, sizeHasBeenInitialized := True\<rparr>)
   \<and> thrown (initializeElements (\<lambda>sg. jmul (Fin (1/2)) sg)
          [\<lparr>p_mass = Fin 40, p_epsilon = Fin (-1/100), p_sigma = Fin (1/3)\<rparr>] createEngine) = None
   \<and> thrown (setSize (Fin 7, Fin 7)
       (stateOf (initializeElements (\<lambda>sg. jmul (Fin (1/2)) sg)
          [\<lparr>p_mass = Fin 40, p_epsilon = Fin (-1/100), p_sigma = Fin (1/3)\<rparr>] createEngine))) = None
   \<and> thrown (setSize (Fin 7, Fin 7)
       (stateOf (createAtomsArray (Some (Fin 0))
         (stateOf (initializeElements (\<lambda>sg. jmul (Fin (1/2)) sg)
          [\<lparr>p_mass = Fin 40, p_epsilon = Fin (-1/100), p_sigma = Fin (1/3)\<rparr>] createEngine)))))
      = Some SizeAlreadySet
   \<and> thrown (createAtomsArray (Some (Fin 5))
       (stateOf (initializeElements (\<lambda>sg. jmul (Fin (1/2)) sg)
          [\<lparr>p_mass = Fin 40, p_epsilon = Fin (-1/100), p_sigma = Fin (1/3)\<rparr>] createEngine))) = None
   \<and> thrown (createAtomsArray (Some (Fin 5))
       (stateOf (createAtomsArray (Some (Fin 0))
         (stateOf (initializeElements (\<lambda>sg. jmul (Fin (1/2)) sg)
          [\<lparr>p_mass = Fin 40, p_epsilon = Fin (-1/100), p_sigma = Fin (1/3)\<rparr>] createEngine)))))
      = Some AtomsAlreadyCreated"
proof -
  let ?r = "initializeElements (\<lambda>sg. jmul (Fin (1/2)) sg)
          [\<lparr>p_mass = Fin 40, p_epsilon = Fin (-1/100), p_sigma = Fin (1/3)\<rparr>] createEngine"
  let ?s = "stateOf ?r"
  have r: "?r = Returns (createEngine\<lparr>
      elems := Some \<lparr>elementMass = [Fin 40], elementEpsilon = [Fin (-1/100)],
        elementSigma = [Fin (1/3)], elementRadius = [Fin (1/6)]\<rparr>,
      elementsHaveBeenCreated := True, N_elements := 1\<rparr>)"
    by (simp add: initializeElements_def createElementsArray_def addElement_def
        createEngine_def Let_def)
  have t: "thrown ?r = None"
    by (simp only: r thrown.simps)
  have e: "elementsHaveBeenCreated ?s" and a: "\<not> atomsHaveBeenCreated ?s"
    and z: "\<not> sizeHasBeenInitialized ?s"
    by (simp_all only: r stateOf.simps) (simp_all add: createEngine_def)
  let ?s1 = "?s\<lparr>atomsHaveBeenCreated := True, sizeHasBeenInitialized := True\<rparr>"
  have c0: "createAtomsArray (Some (Fin 0)) ?s = Throws NumLessThanMin ?s1"
    using e a by (simp add: createAtomsArray_def N_MIN_def Let_def)
  have c5: "thrown (createAtomsArray (Some (Fin 5)) ?s) = None"
    using e a by (simp add: createAtomsArray_def N_MIN_def N_MAX_def Let_def)
  have z0: "thrown (setSize (Fin 7, Fin 7) ?s) = None"
    using z by (rule setSize_before_flag)
  have z1: "thrown (setSize (Fin 7, Fin 7) ?s1) = Some SizeAlreadySet"
    by (simp add: setSize_after_flag)
  have c1: "thrown (createAtomsArray (Some (Fin 5)) ?s1) = Some AtomsAlreadyCreated"
    using e by (simp add: createAtomsArray_ordering_checks(2))
  show ?thesis
    by (simp only: c0 stateOf.simps t c5 z0 z1 c1 simp_thms)
qed

section \<open>Obstacles and walls\<close>

lemma whileGreater_stop: "\<not> jgt c b \<Longrightarrow> whileGreater c b w = Some c"
  by (subst whileGreater.simps) simp

lemma whileGreater_step: "jgt c b \<Longrightarrow> whileGreater c b w = whileGreater (jsub c w) b w"
  by (subst whileGreater.simps) simp

lemma whileLess_stop: "\<not> jlt c b \<Longrightarrow> whileLess c b w = Some c"
  by (subst whileLess.simps) simp

lemma whileLess_step: "jlt c b \<Longrightarrow> whileLess c b w = whileLess (jadd c w) b w"
  by (subst whileLess.simps) simp

lemma rd_Cons_0 [simp]: "rd (v # vs) 0 = v"
  by (simp add: rd_def)

lemma rd_update_same [simp]: "i < length xs \<Longrightarrow> rd (xs[i := v]) i = v"
  by (simp add: rd_def)

lemma rd_update_other [simp]: "i \<noteq> j \<Longrightarrow> rd (xs[i := v]) j = rd xs j"
  by (simp add: rd_def)

text \<open>
  C8 (the code at a failing input). In a domain 1 wide and 10 high, an obstacle of
  height 1 (top-wall limit 9) has reached \<open>y = 10.5\<close> with \<open>vy = 2\<close>. The source tests
  \<open>y > topwall + width\<close> and subtracts \<open>width\<close>: it folds once by the domain width to
  \<open>9.5\<close> and reflects to \<open>8.5\<close>. No fold by a whole number of domain heights gives that
  coordinate; with no fold, the reflection about the top wall is \<open>7.5\<close>.
\<close>

theorem bounceObstacleOffWalls_top_folds_by_width:
  "bounceObstacleOffWalls (Fin 1, Fin 10) 0
      (writeObstacle 0
        (noObstacleProps\<lparr>o_x := Some (Fin 0), o_y := Some (Fin (21/2)),
           o_width := Some (Fin (1/2)), o_height := Some (Fin 1),
           o_mass := Some (Fin 1), o_vy := Some (Fin 2)\<rparr>)
        (createObstaclesArray 1))
    = Some ((writeObstacle 0
        (noObstacleProps\<lparr>o_x := Some (Fin 0), o_y := Some (Fin (21/2)),
           o_width := Some (Fin (1/2)), o_height := Some (Fin 1),
           o_mass := Some (Fin 1), o_vy := Some (Fin 2)\<rparr>)
        (createObstaclesArray 1))
        \<lparr>obstacleY := [Fin (17/2)], obstacleVY := [Fin (-2)]\<rparr>)
   \<and> (\<forall>k::int. Fin (17/2) \<noteq> jsub (Fin 9) (jsub (jsub (Fin (21/2)) (Fin (of_int k * 10))) (Fin 9)))
   \<and> jsub (Fin 9) (jsub (Fin (21/2)) (Fin 9)) = Fin (15/2)"
proof -
  have w: "whileGreater (Fin (21/2)) (Fin 10) (Fin 1) = Some (Fin (19/2))"
    by (simp add: whileGreater_step whileGreater_stop)
  have k: "10 * real_of_int k \<noteq> 1" for k :: int
  proof
    assume "10 * real_of_int k = 1"
    then have "real_of_int (10 * k) = real_of_int 1" by simp
    then have "10 * k = 1" by (simp only: of_int_eq_iff)
    then show False by presburger
  qed
  have y: "bounceCoordinate (Fin (21/2)) (Fin 0) (Fin 9) (Fin 10) (Fin 1) = Some (Some (Fin (17/2)))"
    by (simp add: bounceCoordinate_def w)
  have x: "bounceCoordinate (Fin 0) (Fin 0) (Fin (1/2)) (Fin 1) (Fin 1) = Some None"
    by (simp add: bounceCoordinate_def)
  show ?thesis
    by (simp add: bounceObstacleOffWalls_def writeObstacle_def noObstacleProps_def
        createObstaclesArray_def setOpt_def Let_def x y k)
qed

section \<open>Pressure probes\<close>

text \<open>
  C7 (the code at a failing input). An atom of mass 1 and radius 0.1 rests at
  \<open>(1, 1)\<close>. A movable obstacle of mass 1 with its west probe enabled has moved in the
  previous step from \<open>x = 1.2\<close> to \<open>x = 1\<close> (velocity \<open>-0.2\<close>) and now covers the atom: a
  west-wall collision. The atom's velocity goes from \<open>0\<close> to \<open>-0.2\<close>, so
  \<open>m (v_before - v_after) = 0.2\<close>; the probe accumulates \<open>0.4\<close>, because the
  source's \<^verbatim>\<open>vxPrev ? vxPrev : -vx[i]\<close> takes the pre-collision velocity \<open>0\<close> for a missing
  one and uses \<open>-v_after\<close> in its place.
\<close>

theorem west_probe_zero_velocity_impulse:
  "bounceParticleOffObstacles 1 0 (Fin 1) (Fin 1) True
     ((newAtoms 1)\<lparr>x := [Fin 1], y := [Fin 1], radius := [Fin (1/10)], mass := [Fin 1]\<rparr>,
      (writeObstacle 0
        (noObstacleProps\<lparr>o_x := Some (Fin 1), o_y := Some (Fin 0),
           o_width := Some (Fin 1), o_height := Some (Fin 2),
           o_mass := Some (Fin 1), o_vx := Some (Fin (-1/5)), o_westProbe := Some True\<rparr>)
        (createObstaclesArray 1))\<lparr>obstacleXPrev := [Fin (6/5)]\<rparr>)
   = ((newAtoms 1)\<lparr>x := [Fin (4/5)], y := [Fin 1], radius := [Fin (1/10)], mass := [Fin 1],
         vx := [Fin (-1/5)]\<rparr>,
      (writeObstacle 0
        (noObstacleProps\<lparr>o_x := Some (Fin 1), o_y := Some (Fin 0),
           o_width := Some (Fin 1), o_height := Some (Fin 2),
           o_mass := Some (Fin 1), o_vx := Some (Fin (-1/5)), o_westProbe := Some True\<rparr>)
        (createObstaclesArray 1))\<lparr>obstacleXPrev := [Fin (6/5)], obstacleVX := [Fin 0],
          obstacleWProbeValue := [Fin (2/5)]\<rparr>)
   \<and> jmul (Fin 1) (jsub (Fin 0) (Fin (-1/5))) = Fin (1/5)"
proof -
  let ?a = "(newAtoms 1)\<lparr>x := [Fin 1], y := [Fin 1], radius := [Fin (1/10)], mass := [Fin 1]\<rparr>"
  let ?ob = "(writeObstacle 0
        (noObstacleProps\<lparr>o_x := Some (Fin 1), o_y := Some (Fin 0),
           o_width := Some (Fin 1), o_height := Some (Fin 2),
           o_mass := Some (Fin 1), o_vx := Some (Fin (-1/5)), o_westProbe := Some True\<rparr>)
        (createObstaclesArray 1))\<lparr>obstacleXPrev := [Fin (6/5)]\<rparr>"
  have ob: "?ob = \<lparr>obstacleX = [Fin 1], obstacleY = [Fin 0], obstacleWidth = [Fin 1],
      obstacleHeight = [Fin 2], obstacleMass = [Fin 1], obstacleVX = [Fin (-1/5)],
      obstacleVY = [Fin 0], obstacleExtFX = [Fin 0], obstacleExtFY = [Fin 0],
      obstacleFriction = [Fin 0], obstacleWestProbe = [True], obstacleNorthProbe = [False],
      obstacleEastProbe = [False], obstacleSouthProbe = [False],
      obstacleWProbeValue = [Fin 0], obstacleNProbeValue = [Fin 0],
      obstacleEProbeValue = [Fin 0], obstacleSProbeValue = [Fin 0],
      obstacleXPrev = [Fin (6/5)], obstacleYPrev = [Fin 0]\<rparr>"
    by (simp add: writeObstacle_def noObstacleProps_def createObstaclesArray_def setOpt_def)
  have d: "bounceDirectionOf (Fin 1) (Fin 1) (Fin (1/10)) (Fin 1) (Fin 1) 0 ?ob = 1"
    unfolding ob by (simp add: bounceDirectionOf_def Let_def)
  have r: "reflectAtObstacle 1 0 (Fin (1/10)) (Fin 1) (Fin 1) 0 ?ob ?a = ?a\<lparr>x := [Fin (4/5)]\<rparr>"
    unfolding ob by (simp add: reflectAtObstacle_def newAtoms_def Let_def)
  have c: "collideWithObstacle 1 0 0 (?a\<lparr>x := [Fin (4/5)]\<rparr>, ?ob, None, None)
      = (?a\<lparr>x := [Fin (4/5)], vx := [Fin (-1/5)]\<rparr>, ?ob\<lparr>obstacleVX := [Fin 0]\<rparr>,
         Some (Fin 0), None)"
    unfolding ob by (simp add: collideWithObstacle_def newAtoms_def Let_def)
  have p: "updateProbes 1 0 0 (?a\<lparr>x := [Fin (4/5)], vx := [Fin (-1/5)]\<rparr>) (Some (Fin 0)) None
        (?ob\<lparr>obstacleVX := [Fin 0]\<rparr>)
      = ?ob\<lparr>obstacleVX := [Fin 0], obstacleWProbeValue := [Fin (2/5)]\<rparr>"
    unfolding ob by (simp add: updateProbes_def prevOrNegated_def rdb_def newAtoms_def)
  have b: "bounceOffObstacle 0 (Fin 1) (Fin 1) True (Fin (1/10)) (Fin 1) (Fin 1) 0
        (?a, ?ob, None, None)
      = (?a\<lparr>x := [Fin (4/5)], vx := [Fin (-1/5)]\<rparr>,
         ?ob\<lparr>obstacleVX := [Fin 0], obstacleWProbeValue := [Fin (2/5)]\<rparr>, Some (Fin 0), None)"
    by (simp only: bounceOffObstacle_def prod.case Let_def d r c p) simp
  have u: "[0 ..< (1::nat)] = [0]"
    by simp
  have rr: "rd (radius ?a) 0 = Fin (1/10)" "rd (x ?a) 0 = Fin 1" "rd (y ?a) 0 = Fin 1"
    by (simp_all add: newAtoms_def)
  have "bounceParticleOffObstacles 1 0 (Fin 1) (Fin 1) True (?a, ?ob)
      = (?a\<lparr>x := [Fin (4/5)], vx := [Fin (-1/5)]\<rparr>,
         ?ob\<lparr>obstacleVX := [Fin 0], obstacleWProbeValue := [Fin (2/5)]\<rparr>)"
    by (simp only: bounceParticleOffObstacles_def Let_def fst_conv snd_conv rr u
        List.fold.simps id_apply comp_apply b less_irrefl if_False)
  moreover have "?a\<lparr>x := [Fin (4/5)], vx := [Fin (-1/5)]\<rparr>
      = (newAtoms 1)\<lparr>x := [Fin (4/5)], y := [Fin 1], radius := [Fin (1/10)], mass := [Fin 1],
         vx := [Fin (-1/5)]\<rparr>"
    by (simp add: newAtoms_def)
  moreover have "jmul (Fin 1) (jsub (Fin 0) (Fin (-1/5))) = Fin (1/5)"
    by simp
  ultimately show ?thesis by (simp only: simp_thms)
qed



section \<open>Momentum and velocity\<close>

text \<open>
  C2 (the code at a failing input). One element of mass 1, one atom of that element
  with velocity \<open>(1, 0)\<close>: after \<^verbatim>\<open>addAtom\<close> the momentum \<open>px\<close> is \<open>1 = mass * vx\<close>. Then
  \<^verbatim>\<open>setElementProperties(0, {mass: 2})\<close> writes the new mass into \<^verbatim>\<open>mass[0]\<close> and leaves
  \<^verbatim>\<open>px[0]\<close> as it was: \<open>px = 1\<close>, \<open>mass * vx = 2\<close>. Each triple below is
  \<open>(px, mass, vx)\<close> of atom 0.
\<close>

theorem setElementProperties_breaks_momentum:
  "map_option (\<lambda>a. (rd (px a) 0, rd (mass a) 0, rd (vx a) 0))
     (atoms (stateOf (addAtom
        (noAtomProps\<lparr>a_element := Some 0, a_x := Some (Fin 1), a_y := Some (Fin 1),
           a_vx := Some (Fin 1), a_vy := Some (Fin 0)\<rparr>)
        (stateOf (createAtomsArray (Some (Fin 1))
          (stateOf (initializeElements (\<lambda>sg. jmul (Fin (1/2)) sg)
            [\<lparr>p_mass = Fin 1, p_epsilon = Fin (-1/100), p_sigma = Fin (1/3)\<rparr>] createEngine)))))))
     = Some (Fin 1, Fin 1, Fin 1)
   \<and> map_option (\<lambda>a. (rd (px a) 0, rd (mass a) 0, rd (vx a) 0))
     (atoms (stateOf (setElementProperties (\<lambda>sg. jmul (Fin (1/2)) sg) 0 (Some (Fin 2), None, None)
       (stateOf (addAtom
        (noAtomProps\<lparr>a_element := Some 0, a_x := Some (Fin 1), a_y := Some (Fin 1),
           a_vx := Some (Fin 1), a_vy := Some (Fin 0)\<rparr>)
        (stateOf (createAtomsArray (Some (Fin 1))
          (stateOf (initializeElements (\<lambda>sg. jmul (Fin (1/2)) sg)
            [\<lparr>p_mass = Fin 1, p_epsilon = Fin (-1/100), p_sigma = Fin (1/3)\<rparr>] createEngine)))))))))
     = Some (Fin 1, Fin 2, Fin 1)
   \<and> thrown (setElementProperties (\<lambda>sg. jmul (Fin (1/2)) sg) 0 (Some (Fin 2), None, None)
       (stateOf (addAtom
        (noAtomProps\<lparr>a_element := Some 0, a_x := Some (Fin 1), a_y := Some (Fin 1),
           a_vx := Some (Fin 1), a_vy := Some (Fin 0)\<rparr>)
        (stateOf (createAtomsArray (Some (Fin 1))
          (stateOf (initializeElements (\<lambda>sg. jmul (Fin (1/2)) sg)
            [\<lparr>p_mass = Fin 1, p_epsilon = Fin (-1/100), p_sigma = Fin (1/3)\<rparr>] createEngine))))))) = None
   \<and> jmul (Fin 2) (Fin 1) \<noteq> Fin 1"
proof -
  let ?e = "\<lparr>elementMass = [Fin 1], elementEpsilon = [Fin (-1/100)],
        elementSigma = [Fin (1/3)], elementRadius = [Fin (1/6)]\<rparr>"
  let ?s0 = "createEngine\<lparr>elems := Some ?e, elementsHaveBeenCreated := True, N_elements := 1\<rparr>"
  have r0: "initializeElements (\<lambda>sg. jmul (Fin (1/2)) sg)
            [\<lparr>p_mass = Fin 1, p_epsilon = Fin (-1/100), p_sigma = Fin (1/3)\<rparr>] createEngine
      = Returns ?s0"
    by (simp add: initializeElements_def createElementsArray_def addElement_def
        createEngine_def Let_def)
  let ?s1 = "?s0\<lparr>atomsHaveBeenCreated := True, sizeHasBeenInitialized := True,
      atoms := Some (newAtoms 1), N := 0\<rparr>"
  have r1: "createAtomsArray (Some (Fin 1)) ?s0 = Returns ?s1"
    by (simp add: createAtomsArray_def N_MIN_def N_MAX_def createEngine_def)
  let ?a = "(newAtoms 1)\<lparr>x := [Fin 1], y := [Fin 1], vx := [Fin 1], mass := [Fin 1],
      radius := [Fin (1/6)], px := [Fin 1], speed := [Fin 1]\<rparr>"
  let ?s2 = "?s1\<lparr>N := 1, elementUsed := (\<lambda>_. False)(0 := True), atoms := Some ?a\<rparr>"
  have r2: "addAtom (noAtomProps\<lparr>a_element := Some 0, a_x := Some (Fin 1), a_y := Some (Fin 1),
           a_vx := Some (Fin 1), a_vy := Some (Fin 0)\<rparr>) ?s1 = Returns ?s2"
    by (simp add: addAtom_def setAtomProperties_def Let_def createEngine_def noAtomProps_def
        newAtoms_def updateDependent_def writeAtom_def setOpt_def)
  have sw: "setWhere (Suc 0) [0] 0 (Fin 2) [Fin 1] = [Fin 2]"
    by (simp add: setWhere_def rdi_def)
  have r3: "setElementProperties (\<lambda>sg. jmul (Fin (1/2)) sg) 0 (Some (Fin 2), None, None) ?s2
      = Returns (?s2\<lparr>elems := Some (?e\<lparr>elementMass := [Fin 2]\<rparr>),
          atoms := Some (?a\<lparr>mass := [Fin 2]\<rparr>)\<rparr>)"
    by (simp add: setElementProperties_def setElementMass_def setElementSigma_def Let_def
        createEngine_def newAtoms_def sw)
  show ?thesis
    by (simp only: r0 r1 r2 r3 stateOf.simps thrown.simps) (simp add: newAtoms_def)
qed

text \<open>
  What does hold: \<^verbatim>\<open>setAtomProperties(i, props)\<close> ends by recomputing the momentum of
  atom \<open>i\<close> from its velocity and mass, and each half-kick does so for the atom it
  updates.
\<close>

lemma updateDependent_momentum:
  assumes "i < length (px a)" and "i < length (py a)"
  shows "rd (px (updateDependent i a)) i = jmul (rd (vx (updateDependent i a)) i)
            (rd (mass (updateDependent i a)) i)
       \<and> rd (py (updateDependent i a)) i = jmul (rd (vy (updateDependent i a)) i)
            (rd (mass (updateDependent i a)) i)"
  using assms by (simp add: updateDependent_def Let_def)

lemma setAtomProperties_momentum:
  assumes "setAtomProperties i props s = Returns s'" and "atoms s' = Some a'"
    and "i < length (px a')" and "i < length (py a')"
  shows "rd (px a') i = jmul (rd (vx a') i) (rd (mass a') i)
       \<and> rd (py a') i = jmul (rd (vy a') i) (rd (mass a') i)"
proof -
  from assms(1,2) obtain a0 where a': "a' = updateDependent i a0"
    by (auto simp: setAtomProperties_def Let_def split: option.splits)
  have "length (px a0) = length (px a')" "length (py a0) = length (py a')"
    by (simp_all add: a' updateDependent_def Let_def)
  with assms(3,4) show ?thesis
    unfolding a' by (intro updateDependent_momentum) simp_all
qed

lemma halfKick_momentum:
  assumes "i < length (px a)" and "i < length (py a)"
  shows "rd (px (halfKick d i a)) i = jmul (rd (mass (halfKick d i a)) i) (rd (vx (halfKick d i a)) i)
       \<and> rd (py (halfKick d i a)) i = jmul (rd (mass (halfKick d i a)) i) (rd (vy (halfKick d i a)) i)"
  using assms by (simp add: halfKick_def Let_def)

section \<open>The thermostat\<close>

lemma isFin_realOf: "isFin v \<Longrightarrow> v = Fin (realOf v)"
  by (cases v) simp_all

lemma finiteUpTo_nth:
  assumes "finiteUpTo n xs" and "i < n"
  shows "rd xs i = Fin (realOf (xs ! i))"
proof -
  from assms have l: "i < length xs" by (simp add: finiteUpTo_def)
  from assms l have "isFin (take n xs ! i)" by (simp add: finiteUpTo_def list_all_length)
  with assms(2) have "isFin (xs ! i)" by simp
  then have h: "xs ! i = Fin (realOf (xs ! i))" by (rule isFin_realOf)
  have "rd xs i = xs ! i" using l by (simp add: rd_def)
  also note h
  finally show ?thesis .
qed

lemma massesUpTo_nth:
  assumes "massesUpTo n xs" and "i < n"
  shows "rd xs i = xs ! i \<and> (xs ! i = PInf \<or> xs ! i = Fin (realOf (xs ! i)))"
proof -
  from assms have l: "i < length xs" by (simp add: massesUpTo_def)
  from assms l have "isFin (take n xs ! i) \<or> take n xs ! i = PInf"
    by (simp add: massesUpTo_def list_all_length)
  with assms(2) have "isFin (xs ! i) \<or> xs ! i = PInf" by simp
  then have "xs ! i = PInf \<or> xs ! i = Fin (realOf (xs ! i))"
    using isFin_realOf by blast
  moreover have "rd xs i = xs ! i" using l by (simp add: rd_def)
  ultimately show ?thesis by blast
qed

lemma fold_atomTwoKE:
  assumes "finiteAtoms n a"
  shows "k \<le> n \<Longrightarrow> fold (atomTwoKE a) [0 ..< k] (Fin z) = Fin (z + twoKEAtoms k a)"
proof (induction k)
  case 0
  then show ?case by (simp add: twoKEAtoms_def)
next
  case (Suc k)
  then have k: "k < n" by simp
  from assms have "finiteUpTo n (vx a)" "finiteUpTo n (vy a)" "finiteUpTo n (mass a)"
    by (simp_all add: finiteAtoms_def)
  from this [THEN finiteUpTo_nth, OF k]
  have "rd (vx a) k = Fin (realOf (vx a ! k))" "rd (vy a) k = Fin (realOf (vy a ! k))"
    "rd (mass a) k = Fin (realOf (mass a ! k))" .
  with Suc show ?case
    by (simp add: atomTwoKE_def twoKEAtoms_def)
qed

lemma fold_obstacleTwoKE:
  assumes "finiteObstacles n ob"
  shows "k \<le> n \<Longrightarrow> fold (obstacleTwoKE ob) [0 ..< k] (Fin z) = Fin (z + twoKEObstacles k ob)"
proof (induction k)
  case 0
  then show ?case by (simp add: twoKEObstacles_def)
next
  case (Suc k)
  then have k: "k < n" by simp
  from assms have "finiteUpTo n (obstacleVX ob)" "finiteUpTo n (obstacleVY ob)"
    by (simp_all add: finiteObstacles_def)
  from this [THEN finiteUpTo_nth, OF k]
  have v: "rd (obstacleVX ob) k = Fin (realOf (obstacleVX ob ! k))"
    "rd (obstacleVY ob) k = Fin (realOf (obstacleVY ob ! k))" .
  from assms have "massesUpTo n (obstacleMass ob)"
    by (simp add: finiteObstacles_def)
  from massesUpTo_nth [OF this k]
  have m: "rd (obstacleMass ob) k = obstacleMass ob ! k"
    and c: "obstacleMass ob ! k = PInf \<or> obstacleMass ob ! k = Fin (realOf (obstacleMass ob ! k))"
    by simp_all
  from c show ?case
  proof
    assume "obstacleMass ob ! k = PInf"
    with Suc m show ?thesis by (simp add: obstacleTwoKE_def twoKEObstacles_def)
  next
    assume f: "obstacleMass ob ! k = Fin (realOf (obstacleMass ob ! k))"
    then have "obstacleMass ob ! k \<noteq> PInf" by (metis jsnum.distinct(1))
    moreover have "rd (obstacleMass ob) k = Fin (realOf (obstacleMass ob ! k))"
      using m f by simp
    ultimately show ?thesis using Suc v
      by (simp add: obstacleTwoKE_def twoKEObstacles_def)
  qed
qed

lemma fold_scaleParticleVelocity:
  assumes "k \<le> length (vx a)" "k \<le> length (vy a)" "k \<le> length (px a)" "k \<le> length (py a)"
  shows "mass (fold (scaleParticleVelocity f) [0 ..< k] a) = mass a
    \<and> length (vx (fold (scaleParticleVelocity f) [0 ..< k] a)) = length (vx a)
    \<and> length (vy (fold (scaleParticleVelocity f) [0 ..< k] a)) = length (vy a)
    \<and> length (px (fold (scaleParticleVelocity f) [0 ..< k] a)) = length (px a)
    \<and> length (py (fold (scaleParticleVelocity f) [0 ..< k] a)) = length (py a)
    \<and> (\<forall>i. vx (fold (scaleParticleVelocity f) [0 ..< k] a) ! i
            = (if i < k then jmul (vx a ! i) f else vx a ! i))
    \<and> (\<forall>i. vy (fold (scaleParticleVelocity f) [0 ..< k] a) ! i
            = (if i < k then jmul (vy a ! i) f else vy a ! i))
    \<and> (\<forall>i. px (fold (scaleParticleVelocity f) [0 ..< k] a) ! i
            = (if i < k then jmul (px a ! i) f else px a ! i))
    \<and> (\<forall>i. py (fold (scaleParticleVelocity f) [0 ..< k] a) ! i
            = (if i < k then jmul (py a ! i) f else py a ! i))"
  using assms
proof (induction k)
  case 0
  then show ?case by simp
next
  case (Suc k)
  define b where "b = fold (scaleParticleVelocity f) [0 ..< k] a"
  from Suc have ih: "mass b = mass a"
    "length (vx b) = length (vx a)" "length (vy b) = length (vy a)"
    "length (px b) = length (px a)" "length (py b) = length (py a)"
    "\<And>i. vx b ! i = (if i < k then jmul (vx a ! i) f else vx a ! i)"
    "\<And>i. vy b ! i = (if i < k then jmul (vy a ! i) f else vy a ! i)"
    "\<And>i. px b ! i = (if i < k then jmul (px a ! i) f else px a ! i)"
    "\<And>i. py b ! i = (if i < k then jmul (py a ! i) f else py a ! i)"
    unfolding b_def by simp_all
  have step: "fold (scaleParticleVelocity f) [0 ..< Suc k] a = scaleParticleVelocity f k b"
    by (simp add: b_def)
  from Suc.prems have l: "k < length (vx a)" "k < length (vy a)" "k < length (px a)"
    "k < length (py a)" by simp_all
  show ?case
    unfolding step
    by (auto simp: scaleParticleVelocity_def rd_def nth_list_update ih l)
qed

lemma fold_scaleObstacleVelocity:
  assumes "k \<le> length (obstacleVX ob)" "k \<le> length (obstacleVY ob)"
  shows "obstacleMass (fold (scaleObstacleVelocity f) [0 ..< k] ob) = obstacleMass ob
    \<and> length (obstacleVX (fold (scaleObstacleVelocity f) [0 ..< k] ob)) = length (obstacleVX ob)
    \<and> length (obstacleVY (fold (scaleObstacleVelocity f) [0 ..< k] ob)) = length (obstacleVY ob)
    \<and> (\<forall>i. obstacleVX (fold (scaleObstacleVelocity f) [0 ..< k] ob) ! i
            = (if i < k then jmul (obstacleVX ob ! i) f else obstacleVX ob ! i))
    \<and> (\<forall>i. obstacleVY (fold (scaleObstacleVelocity f) [0 ..< k] ob) ! i
            = (if i < k then jmul (obstacleVY ob ! i) f else obstacleVY ob ! i))"
  using assms
proof (induction k)
  case 0
  then show ?case by simp
next
  case (Suc k)
  define b where "b = fold (scaleObstacleVelocity f) [0 ..< k] ob"
  from Suc have ih: "obstacleMass b = obstacleMass ob"
    "length (obstacleVX b) = length (obstacleVX ob)"
    "length (obstacleVY b) = length (obstacleVY ob)"
    "\<And>i. obstacleVX b ! i = (if i < k then jmul (obstacleVX ob ! i) f else obstacleVX ob ! i)"
    "\<And>i. obstacleVY b ! i = (if i < k then jmul (obstacleVY ob ! i) f else obstacleVY ob ! i)"
    unfolding b_def by simp_all
  have step: "fold (scaleObstacleVelocity f) [0 ..< Suc k] ob = scaleObstacleVelocity f k b"
    by (simp add: b_def)
  from Suc.prems have l: "k < length (obstacleVX ob)" "k < length (obstacleVY ob)"
    by simp_all
  show ?case
    unfolding step
    by (auto simp: scaleObstacleVelocity_def rd_def nth_list_update ih l)
qed

lemma finiteUpTo_iff: "finiteUpTo n xs \<longleftrightarrow> n \<le> length xs \<and> (\<forall>i<n. isFin (xs ! i))"
  by (auto simp: finiteUpTo_def list_all_length)

lemma finiteUpTo_scaled:
  assumes "finiteUpTo n xs" and "length ys = length xs"
    and "\<And>i. ys ! i = (if i < n then jmul (xs ! i) (Fin c) else xs ! i)"
  shows "finiteUpTo n ys \<and> (\<forall>i<n. realOf (ys ! i) = realOf (xs ! i) * c)"
proof -
  have "isFin (ys ! i) \<and> realOf (ys ! i) = realOf (xs ! i) * c" if "i < n" for i
  proof -
    from assms(1) that have "isFin (xs ! i)" by (simp add: finiteUpTo_iff)
    then obtain r where r: "xs ! i = Fin r" by (cases "xs ! i") simp_all
    from assms(3) [of i] that have "ys ! i = Fin (r * c)" by (simp add: r)
    then show ?thesis by (simp add: r)
  qed
  with assms(1,2) show ?thesis by (simp add: finiteUpTo_iff)
qed

lemma twoKEAtoms_scaled:
  assumes "mass a' = mass a"
    and "\<forall>i<n. realOf (vx a' ! i) = realOf (vx a ! i) * c"
    and "\<forall>i<n. realOf (vy a' ! i) = realOf (vy a ! i) * c"
  shows "twoKEAtoms n a' = c * c * twoKEAtoms n a"
proof -
  have "twoKEAtoms n a' = (\<Sum>i<n. c * c * (realOf (mass a ! i)
      * (realOf (vx a ! i) * realOf (vx a ! i) + realOf (vy a ! i) * realOf (vy a ! i))))"
    unfolding twoKEAtoms_def using assms
    by (intro sum.cong refl) (simp add: algebra_simps)
  then show ?thesis by (simp add: twoKEAtoms_def sum_distrib_left)
qed

lemma twoKEObstacles_scaled:
  assumes "obstacleMass ob' = obstacleMass ob"
    and "\<forall>i<n. realOf (obstacleVX ob' ! i) = realOf (obstacleVX ob ! i) * c"
    and "\<forall>i<n. realOf (obstacleVY ob' ! i) = realOf (obstacleVY ob ! i) * c"
  shows "twoKEObstacles n ob' = c * c * twoKEObstacles n ob"
proof -
  have "twoKEObstacles n ob' = (\<Sum>i<n. c * c * (if obstacleMass ob ! i = PInf then 0
      else realOf (obstacleMass ob ! i)
        * (realOf (obstacleVX ob ! i) * realOf (obstacleVX ob ! i)
           + realOf (obstacleVY ob ! i) * realOf (obstacleVY ob ! i))))"
    unfolding twoKEObstacles_def using assms
    by (intro sum.cong refl) (simp add: algebra_simps)
  then show ?thesis by (simp add: twoKEObstacles_def sum_distrib_left)
qed

lemma computeTemperature_finite:
  assumes "finiteState s" and "linearUnits M k b"
  shows "computeTemperature M s = Fin (temperatureOf k b (N s) (twoKEOf s))"
proof -
  from assms(1) obtain a where a: "atoms s = Some a" and fa: "finiteAtoms (N s) a"
    and n: "0 < N s"
    by (auto simp: finiteState_def split: option.splits)
  have e1: "fold (atomTwoKE a) [0 ..< N s] (Fin 0) = Fin (twoKEAtoms (N s) a)"
    using fold_atomTwoKE [OF fa, of "N s" 0] by simp
  have e2: "(case obstacles s of None \<Rightarrow> Fin (twoKEAtoms (N s) a)
      | Some ob \<Rightarrow> fold (obstacleTwoKE ob) [0 ..< N_obstacles s] (Fin (twoKEAtoms (N s) a)))
      = Fin (twoKEOf s)"
  proof (cases "obstacles s")
    case None
    then show ?thesis by (simp add: twoKEOf_def a)
  next
    case (Some ob)
    with assms(1) have "finiteObstacles (N_obstacles s) ob"
      by (simp add: finiteState_def)
    from fold_obstacleTwoKE [OF this, of "N_obstacles s" "twoKEAtoms (N s) a"] Some
    show ?thesis by (simp add: twoKEOf_def a)
  qed
  from assms(2) have conv: "\<And>r. mwToJoule M (Fin r) = Fin (k * r)"
    and b: "boltzmann M = Fin b" "b \<noteq> 0"
    by (simp_all add: linearUnits_def)
  show ?thesis
    using n by (simp add: computeTemperature_def a e1 e2 KE_to_T_def Let_def conv b
        temperatureOf_def)
qed

lemma temperatureOf_scaled:
  "temperatureOf k b n (c * c * e) = c * c * temperatureOf k b n e"
  by (simp add: temperatureOf_def)

lemma measureTemperature_frame:
  "atoms (measureTemperature M tg s) = atoms s"
  "obstacles (measureTemperature M tg s) = obstacles s"
  "N (measureTemperature M tg s) = N s"
  "N_obstacles (measureTemperature M tg s) = N_obstacles s"
  "T (measureTemperature M tg s) = computeTemperature M s"
  "useThermostat (measureTemperature M tg s) = useThermostat s"
  by (simp_all add: measureTemperature_def Let_def)

text \<open>
  The effect of a rescaling on a well-formed state whose stored temperature \<open>T\<close> is
  finite and positive: every atom velocity and momentum and every obstacle velocity
  is multiplied by \<open>c = sqrt (tg / t)\<close>, the state stays well-formed, and twice the
  kinetic energy is multiplied by \<open>c * c\<close>.
\<close>

lemma rescaleVelocities_finite:
  assumes fs: "finiteState s" and t: "T s = Fin t" "0 < t" and tg: "0 \<le> tg"
  defines "c \<equiv> sqrt (tg / t)"
  defines "s' \<equiv> rescaleVelocities (Fin tg) s"
  shows "finiteState s'" and "twoKEOf s' = c * c * twoKEOf s" and "N s' = N s"
    and "N_obstacles s' = N_obstacles s" and "T s' = Fin tg"
    and "\<exists>a a'. atoms s = Some a \<and> atoms s' = Some a'
          \<and> (\<forall>i<N s. vx a' ! i = jmul (vx a ! i) (Fin c) \<and> vy a' ! i = jmul (vy a ! i) (Fin c)
                \<and> px a' ! i = jmul (px a ! i) (Fin c) \<and> py a' ! i = jmul (py a ! i) (Fin c))"
    and "case obstacles s of None \<Rightarrow> obstacles s' = None
         | Some ob \<Rightarrow> (\<exists>ob'. obstacles s' = Some ob'
             \<and> (\<forall>i<N_obstacles s. obstacleVX ob' ! i = jmul (obstacleVX ob ! i) (Fin c)
                   \<and> obstacleVY ob' ! i = jmul (obstacleVY ob ! i) (Fin c)))"
proof -
  from fs obtain a where a: "atoms s = Some a" and fa: "finiteAtoms (N s) a" and n: "0 < N s"
    by (auto simp: finiteState_def split: option.splits)
  have "0 \<le> tg / t"
    using t tg by simp
  then have nn: "\<not> tg / t < 0"
    by (simp add: not_less)
  have f: "jsqrt (jdiv (Fin tg) (T s)) = Fin c"
    using t nn by (simp add: c_def)
  define a' where "a' = fold (scaleParticleVelocity (Fin c)) [0 ..< N s] a"
  have s': "s' = s\<lparr>atoms := Some a',
      obstacles := map_option (fold (scaleObstacleVelocity (Fin c)) [0 ..< N_obstacles s]) (obstacles s),
      T := Fin tg\<rparr>"
    by (simp add: s'_def rescaleVelocities_def f a a'_def Let_def)
  from fa have len: "N s \<le> length (vx a)" "N s \<le> length (vy a)" "N s \<le> length (px a)"
    "N s \<le> length (py a)"
    by (simp_all add: finiteAtoms_def finiteUpTo_def)
  note sc = fold_scaleParticleVelocity [OF len, of "Fin c", folded a'_def]
  from sc have m: "mass a' = mass a"
    and lv: "length (vx a') = length (vx a)" "length (vy a') = length (vy a)"
      "length (px a') = length (px a)" "length (py a') = length (py a)"
    and vx': "\<And>i. vx a' ! i = (if i < N s then jmul (vx a ! i) (Fin c) else vx a ! i)"
    and vy': "\<And>i. vy a' ! i = (if i < N s then jmul (vy a ! i) (Fin c) else vy a ! i)"
    and px': "\<And>i. px a' ! i = (if i < N s then jmul (px a ! i) (Fin c) else px a ! i)"
    and py': "\<And>i. py a' ! i = (if i < N s then jmul (py a ! i) (Fin c) else py a ! i)"
    by simp_all
  from fa have fvx: "finiteUpTo (N s) (vx a)" and fvy: "finiteUpTo (N s) (vy a)"
    and fm: "finiteUpTo (N s) (mass a)"
    by (simp_all add: finiteAtoms_def)
  note x = finiteUpTo_scaled [OF fvx lv(1) vx']
  note y = finiteUpTo_scaled [OF fvy lv(2) vy']
  have fa': "finiteAtoms (N s) a'"
    using x y fm m lv len by (simp add: finiteAtoms_def)
  have ka: "twoKEAtoms (N s) a' = c * c * twoKEAtoms (N s) a"
    using m x y by (intro twoKEAtoms_scaled) simp_all
  have ob: "(case obstacles s of None \<Rightarrow> obstacles s' = None
       | Some ob \<Rightarrow> (\<exists>ob'. obstacles s' = Some ob'
           \<and> finiteObstacles (N_obstacles s) ob'
           \<and> twoKEObstacles (N_obstacles s) ob' = c * c * twoKEObstacles (N_obstacles s) ob
           \<and> (\<forall>i<N_obstacles s. obstacleVX ob' ! i = jmul (obstacleVX ob ! i) (Fin c)
                 \<and> obstacleVY ob' ! i = jmul (obstacleVY ob ! i) (Fin c))))"
  proof (cases "obstacles s")
    case None
    then show ?thesis by (simp add: s')
  next
    case (Some ob)
    define ob' where "ob' = fold (scaleObstacleVelocity (Fin c)) [0 ..< N_obstacles s] ob"
    from fs Some have fo: "finiteObstacles (N_obstacles s) ob"
      by (simp add: finiteState_def)
    then have fx: "finiteUpTo (N_obstacles s) (obstacleVX ob)"
      and fy: "finiteUpTo (N_obstacles s) (obstacleVY ob)"
      and fmo: "massesUpTo (N_obstacles s) (obstacleMass ob)"
      by (simp_all add: finiteObstacles_def)
    from fx fy have lo: "N_obstacles s \<le> length (obstacleVX ob)"
      "N_obstacles s \<le> length (obstacleVY ob)"
      by (simp_all add: finiteUpTo_def)
    note so = fold_scaleObstacleVelocity [OF lo, of "Fin c", folded ob'_def]
    from so have mo: "obstacleMass ob' = obstacleMass ob"
      and llo: "length (obstacleVX ob') = length (obstacleVX ob)"
        "length (obstacleVY ob') = length (obstacleVY ob)"
      and ox: "\<And>i. obstacleVX ob' ! i
          = (if i < N_obstacles s then jmul (obstacleVX ob ! i) (Fin c) else obstacleVX ob ! i)"
      and oy: "\<And>i. obstacleVY ob' ! i
          = (if i < N_obstacles s then jmul (obstacleVY ob ! i) (Fin c) else obstacleVY ob ! i)"
      by simp_all
    note u = finiteUpTo_scaled [OF fx llo(1) ox]
    note v = finiteUpTo_scaled [OF fy llo(2) oy]
    have "finiteObstacles (N_obstacles s) ob'"
      using u v fmo mo by (simp add: finiteObstacles_def)
    moreover have "twoKEObstacles (N_obstacles s) ob' = c * c * twoKEObstacles (N_obstacles s) ob"
      using mo u v by (intro twoKEObstacles_scaled) simp_all
    moreover have "obstacles s' = Some ob'"
      by (simp add: s' Some ob'_def)
    ultimately show ?thesis
      using Some ox oy by simp
  qed
  show "N s' = N s" "N_obstacles s' = N_obstacles s" "T s' = Fin tg"
    by (simp_all add: s')
  show "finiteState s'"
    using n fa' ob by (auto simp: finiteState_def s' split: option.splits)
  show "twoKEOf s' = c * c * twoKEOf s"
    using ka ob by (auto simp: twoKEOf_def s' a algebra_simps split: option.splits)
  show "\<exists>a a'. atoms s = Some a \<and> atoms s' = Some a'
          \<and> (\<forall>i<N s. vx a' ! i = jmul (vx a ! i) (Fin c) \<and> vy a' ! i = jmul (vy a ! i) (Fin c)
                \<and> px a' ! i = jmul (px a ! i) (Fin c) \<and> py a' ! i = jmul (py a ! i) (Fin c))"
    using a vx' vy' px' py' by (simp add: s')
  show "case obstacles s of None \<Rightarrow> obstacles s' = None
         | Some ob \<Rightarrow> (\<exists>ob'. obstacles s' = Some ob'
             \<and> (\<forall>i<N_obstacles s. obstacleVX ob' ! i = jmul (obstacleVX ob ! i) (Fin c)
                   \<and> obstacleVY ob' ! i = jmul (obstacleVY ob ! i) (Fin c)))"
    using ob by (auto split: option.splits)
qed

text \<open>
  The state reached by declaring one element and adding one atom of it, used to
  evaluate the operations at concrete inputs.
\<close>

lemma one_atom_engine:
  "stateOf (addAtom
      (noAtomProps\<lparr>a_element := Some 0, a_x := Some (Fin x0), a_y := Some (Fin y0),
         a_vx := Some (Fin v1), a_vy := Some (Fin v2)\<rparr>)
      (stateOf (createAtomsArray (Some (Fin 1))
        (stateOf (initializeElements (\<lambda>sg. jmul (Fin (1/2)) sg)
          [\<lparr>p_mass = Fin m, p_epsilon = Fin e, p_sigma = Fin sg\<rparr>] createEngine)))))
   = createEngine\<lparr>
       sizeHasBeenInitialized := True, atomsHaveBeenCreated := True,
       elementsHaveBeenCreated := True, N := 1,
       atoms := Some \<lparr>radius = [Fin (1/2 * sg)], px = [Fin (v1 * m)], py = [Fin (v2 * m)],
         x = [Fin x0], y = [Fin y0], vx = [Fin v1], vy = [Fin v2],
         speed = [Fin (sqrt (v1 * v1 + v2 * v2))], ax = [Fin 0], ay = [Fin 0],
         charge = [Fin 0], friction = [Fin 0], element = [0], pinned = [False],
         mass = [Fin m]\<rparr>,
       elems := Some \<lparr>elementMass = [Fin m], elementEpsilon = [Fin e],
         elementSigma = [Fin sg], elementRadius = [Fin (1/2 * sg)]\<rparr>,
       N_elements := 1, elementUsed := (\<lambda>_. False)(0 := True)\<rparr>"
proof -
  have nn: "\<not> v1 * v1 + v2 * v2 < 0"
    by (simp add: not_less)
  let ?e = "\<lparr>elementMass = [Fin m], elementEpsilon = [Fin e],
        elementSigma = [Fin sg], elementRadius = [Fin (1/2 * sg)]\<rparr>"
  let ?s0 = "createEngine\<lparr>elems := Some ?e, elementsHaveBeenCreated := True, N_elements := 1\<rparr>"
  have r0: "initializeElements (\<lambda>sg. jmul (Fin (1/2)) sg)
            [\<lparr>p_mass = Fin m, p_epsilon = Fin e, p_sigma = Fin sg\<rparr>] createEngine
      = Returns ?s0"
    by (simp add: initializeElements_def createElementsArray_def addElement_def
        createEngine_def Let_def)
  let ?s1 = "?s0\<lparr>atomsHaveBeenCreated := True, sizeHasBeenInitialized := True,
      atoms := Some (newAtoms 1), N := 0\<rparr>"
  have r1: "createAtomsArray (Some (Fin 1)) ?s0 = Returns ?s1"
    by (simp add: createAtomsArray_def N_MIN_def N_MAX_def createEngine_def)
  show ?thesis
    unfolding r0 stateOf.simps r1
    by (simp add: addAtom_def setAtomProperties_def Let_def createEngine_def noAtomProps_def
        newAtoms_def updateDependent_def writeAtom_def setOpt_def nn)
qed

lemma finiteState_measureTemperature:
  "finiteState (measureTemperature M tg s) = finiteState s"
  by (simp add: finiteState_def measureTemperature_frame cong: option.case_cong)

lemma twoKEOf_measureTemperature:
  "twoKEOf (measureTemperature M tg s) = twoKEOf s"
  by (simp add: twoKEOf_def measureTemperature_frame cong: option.case_cong)

lemma finiteState_rd:
  assumes "finiteState s" and "atoms s = Some a" and "i < N s"
  shows "rd (vx a) i = vx a ! i" "rd (vy a) i = vy a ! i" "rd (px a) i = px a ! i"
    "rd (py a) i = py a ! i"
  using assms by (simp_all add: finiteState_def finiteAtoms_def finiteUpTo_def rd_def)

lemma finiteState_rd_obstacles:
  assumes "finiteState s" and "obstacles s = Some ob" and "i < N_obstacles s"
  shows "rd (obstacleVX ob) i = obstacleVX ob ! i" "rd (obstacleVY ob) i = obstacleVY ob ! i"
  using assms by (simp_all add: finiteState_def finiteObstacles_def finiteUpTo_def rd_def)

text \<open>
  C4 (amended). In a well-formed state whose instantaneous temperature \<open>t\<close> is finite
  and positive, with a finite target \<open>tg \<ge> 0\<close>: when \<^verbatim>\<open>adjustTemperature\<close> rescales, every
  atom velocity and momentum and every obstacle velocity is multiplied by
  \<open>sqrt (tg / t)\<close>, and the temperature computed from the new kinetic energy is the
  target. Arithmetic is exact in the model.
\<close>

theorem adjustTemperature_reaches_target:
  assumes fs: "finiteState s" and lu: "linearUnits M k b"
    and tg: "targetOf target0 s = Fin tg" "0 \<le> tg"
    and t: "computeTemperature M s = Fin t" "0 < t"
    and r: "rescales forceAdjustment (measureTemperature M (Fin tg) s)"
  shows "computeTemperature M (adjustTemperature M target0 forceAdjustment s) = Fin tg
    \<and> T (adjustTemperature M target0 forceAdjustment s) = Fin tg
    \<and> (\<exists>a a'. atoms s = Some a
          \<and> atoms (adjustTemperature M target0 forceAdjustment s) = Some a'
          \<and> (\<forall>i<N s. rd (vx a') i = jmul (rd (vx a) i) (Fin (sqrt (tg / t)))
                \<and> rd (vy a') i = jmul (rd (vy a) i) (Fin (sqrt (tg / t)))
                \<and> rd (px a') i = jmul (rd (px a) i) (Fin (sqrt (tg / t)))
                \<and> rd (py a') i = jmul (rd (py a) i) (Fin (sqrt (tg / t)))))
    \<and> (case obstacles s of
          None \<Rightarrow> obstacles (adjustTemperature M target0 forceAdjustment s) = None
        | Some ob \<Rightarrow>
            (\<exists>ob'. obstacles (adjustTemperature M target0 forceAdjustment s) = Some ob'
               \<and> (\<forall>i<N_obstacles s.
                     rd (obstacleVX ob') i = jmul (rd (obstacleVX ob) i) (Fin (sqrt (tg / t)))
                     \<and> rd (obstacleVY ob') i = jmul (rd (obstacleVY ob) i) (Fin (sqrt (tg / t))))))"
proof -
  define s2 where "s2 = measureTemperature M (Fin tg) s"
  define s' where "s' = rescaleVelocities (Fin tg) s2"
  define c where "c = sqrt (tg / t)"
  have adj: "adjustTemperature M target0 forceAdjustment s = s'"
    using r by (simp add: adjustTemperature_def tg Let_def s2_def s'_def)
  have fs2: "finiteState s2"
    using fs by (simp add: s2_def finiteState_measureTemperature)
  have T2: "T s2 = Fin t"
    by (simp add: s2_def measureTemperature_frame t)
  have fr: "atoms s2 = atoms s" "obstacles s2 = obstacles s" "N s2 = N s"
    "N_obstacles s2 = N_obstacles s"
    by (simp_all add: s2_def measureTemperature_frame)
  note R = rescaleVelocities_finite [OF fs2 T2 t(2) tg(2), folded s'_def c_def]
  have "Fin t = Fin (temperatureOf k b (N s) (twoKEOf s))"
    using computeTemperature_finite [OF fs lu] t by simp
  then have te: "temperatureOf k b (N s) (twoKEOf s) = t"
    by simp
  have cc: "c * c = tg / t"
    using tg(2) t(2) by (simp add: c_def)
  have "computeTemperature M s' = Fin (temperatureOf k b (N s') (twoKEOf s'))"
    by (rule computeTemperature_finite [OF R(1) lu])
  also have "temperatureOf k b (N s') (twoKEOf s') = c * c * temperatureOf k b (N s) (twoKEOf s)"
    by (simp add: R(2,3) fr s2_def twoKEOf_measureTemperature temperatureOf_scaled
        measureTemperature_frame)
  also have "\<dots> = tg"
    using t(2) by (simp add: te cc)
  finally have c1: "computeTemperature M s' = Fin tg" .
  from R(6) obtain a a' where a: "atoms s = Some a" and a': "atoms s' = Some a'"
    and sc: "\<And>i. i < N s \<Longrightarrow> vx a' ! i = jmul (vx a ! i) (Fin c) \<and> vy a' ! i = jmul (vy a ! i) (Fin c)
                \<and> px a' ! i = jmul (px a ! i) (Fin c) \<and> py a' ! i = jmul (py a ! i) (Fin c)"
    by (auto simp: fr)
  have c3: "\<exists>a a'. atoms s = Some a \<and> atoms s' = Some a'
          \<and> (\<forall>i<N s. rd (vx a') i = jmul (rd (vx a) i) (Fin c)
                \<and> rd (vy a') i = jmul (rd (vy a) i) (Fin c)
                \<and> rd (px a') i = jmul (rd (px a) i) (Fin c)
                \<and> rd (py a') i = jmul (rd (py a) i) (Fin c))"
  proof (intro exI conjI allI impI)
    show "atoms s = Some a" by (rule a)
    show "atoms s' = Some a'" by (rule a')
    fix i assume i: "i < N s"
    then have i': "i < N s'" by (simp add: R(3) fr)
    note o = finiteState_rd [OF fs a i]
    note n = finiteState_rd [OF R(1) a' i']
    show "rd (vx a') i = jmul (rd (vx a) i) (Fin c)" "rd (vy a') i = jmul (rd (vy a) i) (Fin c)"
      "rd (px a') i = jmul (rd (px a) i) (Fin c)" "rd (py a') i = jmul (rd (py a) i) (Fin c)"
      using sc [OF i] by (simp_all add: o n)
  qed
  have c4: "case obstacles s of
          None \<Rightarrow> obstacles s' = None
        | Some ob \<Rightarrow>
            (\<exists>ob'. obstacles s' = Some ob'
               \<and> (\<forall>i<N_obstacles s.
                     rd (obstacleVX ob') i = jmul (rd (obstacleVX ob) i) (Fin c)
                     \<and> rd (obstacleVY ob') i = jmul (rd (obstacleVY ob) i) (Fin c)))"
  proof (cases "obstacles s")
    case None
    with R(7) show ?thesis by (simp add: fr)
  next
    case (Some ob)
    with R(7) obtain ob' where ob': "obstacles s' = Some ob'"
      and so: "\<And>i. i < N_obstacles s \<Longrightarrow> obstacleVX ob' ! i = jmul (obstacleVX ob ! i) (Fin c)
                   \<and> obstacleVY ob' ! i = jmul (obstacleVY ob ! i) (Fin c)"
      by (auto simp: fr)
    have "rd (obstacleVX ob') i = jmul (rd (obstacleVX ob) i) (Fin c)
        \<and> rd (obstacleVY ob') i = jmul (rd (obstacleVY ob) i) (Fin c)"
      if i: "i < N_obstacles s" for i
    proof -
      from i have i': "i < N_obstacles s'" by (simp add: R(4) fr)
      note o = finiteState_rd_obstacles [OF fs Some i]
      note n = finiteState_rd_obstacles [OF R(1) ob' i']
      show ?thesis using so [OF i] by (simp add: o n)
    qed
    then show ?thesis by (simp add: Some ob')
  qed
  show ?thesis
    unfolding adj using c1 R(5) c3 c4 by (simp only: c_def simp_thms)
qed

theorem adjustTemperature_reaches_target_witness:
  "finiteState (setUseThermostat True (stateOf (setTargetTemperature (Fin 40)
      (stateOf (addAtom
        (noAtomProps\<lparr>a_element := Some 0, a_x := Some (Fin 1), a_y := Some (Fin 1),
           a_vx := Some (Fin 3), a_vy := Some (Fin 4)\<rparr>)
        (stateOf (createAtomsArray (Some (Fin 1))
          (stateOf (initializeElements (\<lambda>sg. jmul (Fin (1/2)) sg)
            [\<lparr>p_mass = Fin 2, p_epsilon = Fin (-1/100), p_sigma = Fin (1/3)\<rparr>] createEngine)))))))))
   \<and> linearUnits \<lparr>forces = (\<lambda>s. ([Fin 0], [Fin 0])), mwToJoule = (\<lambda>v. jmul v (Fin 2)),
        boltzmann = Fin 5, windowAverage = (\<lambda>h. NaN)\<rparr> 2 5
   \<and> computeTemperature \<lparr>forces = (\<lambda>s. ([Fin 0], [Fin 0])), mwToJoule = (\<lambda>v. jmul v (Fin 2)),
        boltzmann = Fin 5, windowAverage = (\<lambda>h. NaN)\<rparr>
      (setUseThermostat True (stateOf (setTargetTemperature (Fin 40)
      (stateOf (addAtom
        (noAtomProps\<lparr>a_element := Some 0, a_x := Some (Fin 1), a_y := Some (Fin 1),
           a_vx := Some (Fin 3), a_vy := Some (Fin 4)\<rparr>)
        (stateOf (createAtomsArray (Some (Fin 1))
          (stateOf (initializeElements (\<lambda>sg. jmul (Fin (1/2)) sg)
            [\<lparr>p_mass = Fin 2, p_epsilon = Fin (-1/100), p_sigma = Fin (1/3)\<rparr>] createEngine))))))))) = Fin 10
   \<and> computeTemperature \<lparr>forces = (\<lambda>s. ([Fin 0], [Fin 0])), mwToJoule = (\<lambda>v. jmul v (Fin 2)),
        boltzmann = Fin 5, windowAverage = (\<lambda>h. NaN)\<rparr>
      (adjustTemperature \<lparr>forces = (\<lambda>s. ([Fin 0], [Fin 0])), mwToJoule = (\<lambda>v. jmul v (Fin 2)),
        boltzmann = Fin 5, windowAverage = (\<lambda>h. NaN)\<rparr> None False
      (setUseThermostat True (stateOf (setTargetTemperature (Fin 40)
      (stateOf (addAtom
        (noAtomProps\<lparr>a_element := Some 0, a_x := Some (Fin 1), a_y := Some (Fin 1),
           a_vx := Some (Fin 3), a_vy := Some (Fin 4)\<rparr>)
        (stateOf (createAtomsArray (Some (Fin 1))
          (stateOf (initializeElements (\<lambda>sg. jmul (Fin (1/2)) sg)
            [\<lparr>p_mass = Fin 2, p_epsilon = Fin (-1/100), p_sigma = Fin (1/3)\<rparr>] createEngine)))))))))) = Fin 40"
proof -
  let ?M = "\<lparr>forces = (\<lambda>s. ([Fin 0], [Fin 0])), mwToJoule = (\<lambda>v. jmul v (Fin 2)),
        boltzmann = Fin 5, windowAverage = (\<lambda>h. NaN)\<rparr>"
  let ?s = "setUseThermostat True (stateOf (setTargetTemperature (Fin 40)
      (stateOf (addAtom
        (noAtomProps\<lparr>a_element := Some 0, a_x := Some (Fin 1), a_y := Some (Fin 1),
           a_vx := Some (Fin 3), a_vy := Some (Fin 4)\<rparr>)
        (stateOf (createAtomsArray (Some (Fin 1))
          (stateOf (initializeElements (\<lambda>sg. jmul (Fin (1/2)) sg)
            [\<lparr>p_mass = Fin 2, p_epsilon = Fin (-1/100), p_sigma = Fin (1/3)\<rparr>] createEngine))))))))"
  have fs: "finiteState ?s"
    unfolding one_atom_engine
    by (simp add: setUseThermostat_def setTargetTemperature_def validateTemperature_def
        finiteState_def finiteAtoms_def finiteUpTo_def createEngine_def)
  have lu: "linearUnits ?M 2 5"
    by (simp add: linearUnits_def mult.commute)
  have tg: "targetOf None ?s = Fin 40"
    unfolding one_atom_engine
    by (simp add: setUseThermostat_def setTargetTemperature_def validateTemperature_def
        targetOf_def)
  have ct: "computeTemperature ?M ?s = Fin 10"
    unfolding one_atom_engine
    by (simp add: setUseThermostat_def setTargetTemperature_def validateTemperature_def
        computeTemperature_def createEngine_def atomTwoKE_def KE_to_T_def Let_def)
  have th: "useThermostat (measureTemperature ?M (Fin 40) ?s)"
    by (simp add: measureTemperature_frame setUseThermostat_def)
  then have r: "rescales False (measureTemperature ?M (Fin 40) ?s)"
    by (simp add: rescales_def)
  from adjustTemperature_reaches_target [OF fs lu tg _ ct _ r]
  have "computeTemperature ?M (adjustTemperature ?M None False ?s) = Fin 40"
    by simp
  with fs lu ct show ?thesis by (simp only: simp_thms)
qed

text \<open>
  C4 (as stated, at temperature zero). One atom at rest, thermostat on, target 300 K:
  the instantaneous temperature is \<open>0\<close>, \<^verbatim>\<open>adjustTemperature\<close> rescales, the factor
  \<^verbatim>\<open>Math.sqrt(target / T)\<close> is \<open>PInf\<close>, the atom's velocity becomes \<open>0 * PInf = NaN\<close>, and the
  temperature computed from the kinetic energy afterwards is \<open>NaN\<close>, not the target.
\<close>

theorem adjustTemperature_zero_temperature_counterexample:
  "computeTemperature \<lparr>forces = (\<lambda>s. ([Fin 0], [Fin 0])), mwToJoule = (\<lambda>v. jmul v (Fin 2)),
        boltzmann = Fin 5, windowAverage = (\<lambda>h. NaN)\<rparr>
      (setUseThermostat True (stateOf (setTargetTemperature (Fin 300)
      (stateOf (addAtom
        (noAtomProps\<lparr>a_element := Some 0, a_x := Some (Fin 1), a_y := Some (Fin 1),
           a_vx := Some (Fin 0), a_vy := Some (Fin 0)\<rparr>)
        (stateOf (createAtomsArray (Some (Fin 1))
          (stateOf (initializeElements (\<lambda>sg. jmul (Fin (1/2)) sg)
            [\<lparr>p_mass = Fin 2, p_epsilon = Fin (-1/100), p_sigma = Fin (1/3)\<rparr>] createEngine))))))))) = Fin 0
   \<and> rescales False (measureTemperature \<lparr>forces = (\<lambda>s. ([Fin 0], [Fin 0])),
        mwToJoule = (\<lambda>v. jmul v (Fin 2)), boltzmann = Fin 5, windowAverage = (\<lambda>h. NaN)\<rparr> (Fin 300)
      (setUseThermostat True (stateOf (setTargetTemperature (Fin 300)
      (stateOf (addAtom
        (noAtomProps\<lparr>a_element := Some 0, a_x := Some (Fin 1), a_y := Some (Fin 1),
           a_vx := Some (Fin 0), a_vy := Some (Fin 0)\<rparr>)
        (stateOf (createAtomsArray (Some (Fin 1))
          (stateOf (initializeElements (\<lambda>sg. jmul (Fin (1/2)) sg)
            [\<lparr>p_mass = Fin 2, p_epsilon = Fin (-1/100), p_sigma = Fin (1/3)\<rparr>] createEngine))))))))))
   \<and> map_option (\<lambda>a. (rd (vx a) 0, rd (vy a) 0))
      (atoms (adjustTemperature \<lparr>forces = (\<lambda>s. ([Fin 0], [Fin 0])), mwToJoule = (\<lambda>v. jmul v (Fin 2)),
        boltzmann = Fin 5, windowAverage = (\<lambda>h. NaN)\<rparr> None False
      (setUseThermostat True (stateOf (setTargetTemperature (Fin 300)
      (stateOf (addAtom
        (noAtomProps\<lparr>a_element := Some 0, a_x := Some (Fin 1), a_y := Some (Fin 1),
           a_vx := Some (Fin 0), a_vy := Some (Fin 0)\<rparr>)
        (stateOf (createAtomsArray (Some (Fin 1))
          (stateOf (initializeElements (\<lambda>sg. jmul (Fin (1/2)) sg)
            [\<lparr>p_mass = Fin 2, p_epsilon = Fin (-1/100), p_sigma = Fin (1/3)\<rparr>] createEngine))))))))))) = Some (NaN, NaN)
   \<and> computeTemperature \<lparr>forces = (\<lambda>s. ([Fin 0], [Fin 0])), mwToJoule = (\<lambda>v. jmul v (Fin 2)),
        boltzmann = Fin 5, windowAverage = (\<lambda>h. NaN)\<rparr>
      (adjustTemperature \<lparr>forces = (\<lambda>s. ([Fin 0], [Fin 0])), mwToJoule = (\<lambda>v. jmul v (Fin 2)),
        boltzmann = Fin 5, windowAverage = (\<lambda>h. NaN)\<rparr> None False
      (setUseThermostat True (stateOf (setTargetTemperature (Fin 300)
      (stateOf (addAtom
        (noAtomProps\<lparr>a_element := Some 0, a_x := Some (Fin 1), a_y := Some (Fin 1),
           a_vx := Some (Fin 0), a_vy := Some (Fin 0)\<rparr>)
        (stateOf (createAtomsArray (Some (Fin 1))
          (stateOf (initializeElements (\<lambda>sg. jmul (Fin (1/2)) sg)
            [\<lparr>p_mass = Fin 2, p_epsilon = Fin (-1/100), p_sigma = Fin (1/3)\<rparr>] createEngine)))))))))) = NaN"
proof -
  define M where "M = \<lparr>forces = (\<lambda>s. ([Fin 0], [Fin 0])), mwToJoule = (\<lambda>v. jmul v (Fin 2)),
        boltzmann = Fin 5, windowAverage = (\<lambda>h. NaN)\<rparr>"
  define s where "s = setUseThermostat True (stateOf (setTargetTemperature (Fin 300)
      (stateOf (addAtom
        (noAtomProps\<lparr>a_element := Some 0, a_x := Some (Fin 1), a_y := Some (Fin 1),
           a_vx := Some (Fin 0), a_vy := Some (Fin 0)\<rparr>)
        (stateOf (createAtomsArray (Some (Fin 1))
          (stateOf (initializeElements (\<lambda>sg. jmul (Fin (1/2)) sg)
            [\<lparr>p_mass = Fin 2, p_epsilon = Fin (-1/100), p_sigma = Fin (1/3)\<rparr>] createEngine))))))))"
  define a where "a = \<lparr>radius = [Fin (1/6)], px = [Fin 0], py = [Fin 0],
         x = [Fin 1], y = [Fin 1], vx = [Fin 0], vy = [Fin 0],
         speed = [Fin 0], ax = [Fin 0], ay = [Fin 0],
         charge = [Fin 0], friction = [Fin 0], element = [0], pinned = [False],
         mass = [Fin 2]\<rparr>"
  have at: "atoms s = Some a" and n: "N s = 1" and ob: "obstacles s = None"
    and th: "useThermostat s" and tt: "T_target s = Fin 300"
    unfolding s_def one_atom_engine a_def
    by (simp_all add: setUseThermostat_def setTargetTemperature_def validateTemperature_def
        createEngine_def)
  have mj: "mwToJoule M = (\<lambda>v. jmul v (Fin 2))" "boltzmann M = Fin 5"
    by (simp_all add: M_def)
  have ct: "computeTemperature M s = Fin 0"
    by (simp add: computeTemperature_def at n ob a_def mj atomTwoKE_def KE_to_T_def Let_def)
  have r: "rescales False (measureTemperature M (Fin 300) s)"
    by (simp add: rescales_def measureTemperature_frame th)
  have adj: "adjustTemperature M None False s
      = rescaleVelocities (Fin 300) (measureTemperature M (Fin 300) s)"
    using r by (simp add: adjustTemperature_def targetOf_def tt Let_def)
  have a': "atoms (adjustTemperature M None False s) = Some (a\<lparr>vx := [NaN], vy := [NaN],
        px := [NaN], py := [NaN]\<rparr>)"
    by (simp add: adj rescaleVelocities_def Let_def measureTemperature_frame ct at n
        scaleParticleVelocity_def a_def)
  have n': "N (adjustTemperature M None False s) = 1"
    "obstacles (adjustTemperature M None False s) = None"
    by (simp_all add: adj rescaleVelocities_def Let_def measureTemperature_frame n ob)
  have c2: "computeTemperature M (adjustTemperature M None False s) = NaN"
    by (simp add: computeTemperature_def a' n' atomTwoKE_def KE_to_T_def Let_def a_def mj)
  have v: "map_option (\<lambda>a. (rd (vx a) 0, rd (vy a) 0)) (atoms (adjustTemperature M None False s))
      = Some (NaN, NaN)"
    by (simp add: a' a_def)
  show ?thesis
    unfolding M_def [symmetric] s_def [symmetric]
    using ct r v c2 by (simp only: simp_thms)
qed

section \<open>Rounding at given numbers\<close>

text \<open>The rules by which the rounding functions are evaluated at a given number.\<close>

lemma halvings_unfold:
  "halvings (numeral k) r = (if r < 2 then 0 else 1 + halvings (pred_numeral k) (r / 2))"
  by (simp add: numeral_eq_Suc)

lemma doublings_unfold:
  "doublings (numeral k) r = (if 1 \<le> r then 0 else doublings (pred_numeral k) (r * 2) - 1)"
  by (simp add: numeral_eq_Suc)

lemmas rounding_simps = roundBinary_def binade_def halvings_unfold doublings_unfold
  roundHalfEven_def Let_def power_int_def power_one_over

section \<open>The drift substep\<close>

lemma whileGreater_finite:
  assumes "0 < w"
  shows "\<exists>c'. whileGreater (Fin c) (Fin b) (Fin w) = Some (Fin c')"
proof (induction "nat \<lceil>(c - b) / w\<rceil>" arbitrary: c)
  case 0
  then have "(c - b) / w \<le> 0" by (simp add: ceiling_le_iff)
  with assms have "c \<le> b" by (simp add: divide_le_0_iff)
  then show ?case by (simp add: whileGreater_stop)
next
  case (Suc n)
  show ?case
  proof (cases "b < c")
    case False
    then show ?thesis by (simp add: whileGreater_stop)
  next
    case True
    have "(c - w - b) / w = (c - b) / w - 1"
      using assms by (simp add: field_simps)
    then have "nat \<lceil>(c - w - b) / w\<rceil> = nat (\<lceil>(c - b) / w\<rceil> - 1)"
      by simp
    also have "\<dots> = n"
      using Suc(2) by simp
    finally have "n = nat \<lceil>(c - w - b) / w\<rceil>" by simp
    from Suc(1) [OF this] obtain c' where
      "whileGreater (Fin (c - w)) (Fin b) (Fin w) = Some (Fin c')" by blast
    with True show ?thesis by (simp add: whileGreater_step)
  qed
qed

lemma whileLess_finite:
  assumes "0 < w"
  shows "\<exists>c'. whileLess (Fin c) (Fin b) (Fin w) = Some (Fin c')"
proof (induction "nat \<lceil>(b - c) / w\<rceil>" arbitrary: c)
  case 0
  then have "(b - c) / w \<le> 0" by (simp add: ceiling_le_iff)
  with assms have "b \<le> c" by (simp add: divide_le_0_iff)
  then show ?case by (simp add: whileLess_stop)
next
  case (Suc n)
  show ?case
  proof (cases "c < b")
    case False
    then show ?thesis by (simp add: whileLess_stop)
  next
    case True
    have "(b - (c + w)) / w = (b - c) / w - 1"
      using assms by (simp add: field_simps)
    then have "nat \<lceil>(b - (c + w)) / w\<rceil> = nat (\<lceil>(b - c) / w\<rceil> - 1)"
      by simp
    also have "\<dots> = n"
      using Suc(2) by simp
    finally have "n = nat \<lceil>(b - (c + w)) / w\<rceil>" by simp
    from Suc(1) [OF this] obtain c' where
      "whileLess (Fin (c + w)) (Fin b) (Fin w) = Some (Fin c')" by blast
    with True show ?thesis by (simp add: whileLess_step)
  qed
qed

lemma otherAtomsKept_refl: "otherAtomsKept i a a"
  by (simp add: otherAtomsKept_def)

lemma otherAtomsKept_trans:
  "otherAtomsKept i a b \<Longrightarrow> otherAtomsKept i b c \<Longrightarrow> otherAtomsKept i a c"
  by (simp add: otherAtomsKept_def)

lemma whileGreater_finite_Some:
  "0 < w \<Longrightarrow> whileGreater (Fin c) (Fin b) (Fin w) \<noteq> None"
  using whileGreater_finite [of w c b] by auto

lemma whileLess_finite_Some:
  "0 < w \<Longrightarrow> whileLess (Fin c) (Fin b) (Fin w) \<noteq> None"
  using whileLess_finite [of w c b] by auto

lemma bounceCoordinate_finite:
  assumes "0 < sl" and "0 < sh"
  shows "bounceCoordinate (Fin c) (Fin lo) (Fin hi) (Fin sl) (Fin sh) \<noteq> None"
proof -
  from whileLess_finite [OF assms(1)] obtain c1 where
    "whileLess (Fin c) (Fin (lo - sl)) (Fin sl) = Some (Fin c1)" by blast
  moreover from whileGreater_finite [OF assms(2)] obtain c2 where
    "whileGreater (Fin c) (Fin (hi + sh)) (Fin sh) = Some (Fin c2)" by blast
  ultimately show ?thesis
    by (simp add: bounceCoordinate_def)
qed

lemma bounceParticleOffWalls_finite:
  assumes w: "0 < w" and h: "0 < h"
    and xi: "rd (x a) i = Fin xi" and yi: "rd (y a) i = Fin yi" and r: "rd (radius a) i = Fin r"
  shows "\<exists>a'. bounceParticleOffWalls (Fin w, Fin h) i a = Some a' \<and> otherAtomsKept i a a'"
proof -
  from bounceCoordinate_finite [OF w w] obtain hx where
    hx: "bounceCoordinate (Fin xi) (Fin r) (Fin (w - r)) (Fin w) (Fin w) = Some hx" by blast
  from bounceCoordinate_finite [OF h h] obtain hy where
    hy: "bounceCoordinate (Fin yi) (Fin r) (Fin (h - r)) (Fin h) (Fin h) = Some hy" by blast
  define a1 where "a1 = (case hx of None \<Rightarrow> a
      | Some c \<Rightarrow> a\<lparr>x := (x a)[i := c], vx := (vx a)[i := jmul (rd (vx a) i) (Fin (-1))],
                    px := (px a)[i := jmul (rd (px a) i) (Fin (-1))]\<rparr>)"
  have y1: "rd (y a1) i = Fin yi" and k1: "otherAtomsKept i a a1"
    by (cases hx; simp add: a1_def yi otherAtomsKept_def nth_list_update)+
  define a2 where "a2 = (case hy of None \<Rightarrow> a1
      | Some c \<Rightarrow> a1\<lparr>y := (y a1)[i := c], vy := (vy a1)[i := jmul (rd (vy a1) i) (Fin (-1))],
                     py := (py a1)[i := jmul (rd (py a1) i) (Fin (-1))]\<rparr>)"
  have k2: "otherAtomsKept i a1 a2"
    by (cases hy; simp add: a2_def otherAtomsKept_def nth_list_update)
  have "bounceParticleOffWalls (Fin w, Fin h) i a = Some a2"
    by (simp add: bounceParticleOffWalls_def Let_def xi r hx a1_def [symmetric] y1 hy a2_def)
  with otherAtomsKept_trans [OF k1 k2] show ?thesis by blast
qed

lemma reflectAtObstacle_kept: "otherAtomsKept i a (reflectAtObstacle d i r xi yi j ob a)"
  by (simp add: reflectAtObstacle_def Let_def otherAtomsKept_def nth_list_update)

lemma collideWithObstacle_kept:
  "otherAtomsKept i a (fst (collideWithObstacle d i j (a, ob, p, q)))"
  by (simp add: collideWithObstacle_def Let_def otherAtomsKept_def nth_list_update)

lemma bounceOffObstacle_kept:
  "otherAtomsKept i a (fst (bounceOffObstacle i xp yp up r xi yi j (a, ob, p, q)))"
proof -
  define d where "d = bounceDirectionOf xp yp r xi yi j ob"
  define a1 where "a1 = reflectAtObstacle d i r xi yi j ob a"
  have k1: "otherAtomsKept i a a1"
    unfolding a1_def by (rule reflectAtObstacle_kept)
  have k2: "otherAtomsKept i a1 (fst (collideWithObstacle d i j (a1, ob, p, q)))"
    by (rule collideWithObstacle_kept)
  have "fst (bounceOffObstacle i xp yp up r xi yi j (a, ob, p, q))
      = (if d = 0 then a1 else fst (collideWithObstacle d i j (a1, ob, p, q)))"
    unfolding bounceOffObstacle_def Let_def prod.case d_def [symmetric] a1_def [symmetric]
    by (auto split: prod.splits)
  with k1 otherAtomsKept_trans [OF k1 k2] show ?thesis by simp
qed

lemma fold_bounceOffObstacle_kept:
  "otherAtomsKept i (fst st) (fst (fold (bounceOffObstacle i xp yp up r xi yi) js st))"
proof (induction js arbitrary: st)
  case Nil
  then show ?case by (simp add: otherAtomsKept_refl)
next
  case (Cons j js)
  obtain a ob p q where st: "st = (a, ob, p, q)" by (cases st) auto
  have "otherAtomsKept i (fst st) (fst (bounceOffObstacle i xp yp up r xi yi j st))"
    unfolding st using bounceOffObstacle_kept [of i a xp yp up r xi yi j ob p q] by simp
  from otherAtomsKept_trans [OF this Cons [of "bounceOffObstacle i xp yp up r xi yi j st"]]
  show ?case by simp
qed

lemma bounceParticleOffObstacles_kept:
  "otherAtomsKept i a (fst (bounceParticleOffObstacles n i xp yp up (a, ob)))"
  using fold_bounceOffObstacle_kept [of i "(a, ob, None, None)" xp yp up]
  by (simp add: bounceParticleOffObstacles_def Let_def otherAtomsKept_refl)

lemma advance_undefined [simp]: "advance NaN v d = NaN"
  by (simp add: advance_def)

lemma moveAtom_rd:
  "rd (x (moveAtom d i a)) i = advance (rd (x a) i) (rd (vx a) i) d"
  "rd (y (moveAtom d i a)) i = advance (rd (y a) i) (rd (vy a) i) d"
  "radius (moveAtom d i a) = radius a"
  by (simp_all add: moveAtom_def Let_def rd_def)

lemma moveAtom_kept: "otherAtomsKept i a (moveAtom d i a)"
  by (simp add: moveAtom_def Let_def otherAtomsKept_def nth_list_update)

lemma driftAtom_guard:
  "driftAtom s i (a, obo) =
     (if divergedAt s a i then Some (Throws ModelHasDiverged (moveAtom (dt s) i a, obo))
      else
        (case bounceParticleOffWalls (size_x s, size_y s) i (moveAtom (dt s) i a) of
           None \<Rightarrow> None
         | Some a3 \<Rightarrow>
             if N_obstacles s < 1 then Some (Returns (a3, obo))
             else
               (case obo of
                  None \<Rightarrow> Some (Throws TypeError (a3, obo))
                | Some ob \<Rightarrow>
                    (case bounceParticleOffObstacles (N_obstacles s) i (rd (x a) i) (rd (y a) i)
                            True (a3, ob) of
                       (a4, ob4) \<Rightarrow> Some (Returns (a4, Some ob4))))))"
  by (simp add: driftAtom_def Let_def moveAtom_rd divergedAt_def)

lemma bounded_isFin: "\<not> isNaN v \<Longrightarrow> \<not> jgt (jabs v) (Fin b) \<Longrightarrow> isFin v"
  by (cases v) (simp_all add: jgt_def)

text \<open>
  An atom that has not diverged is at a finite position, so the folding loops of the
  wall bounce end; the loop body then returns what the specification describes, and
  has touched no other atom.
\<close>

lemma driftAtom_returns:
  assumes nd: "\<not> divergedAt s a i"
    and w: "size_x s = Fin w" "0 < w" "hundredfold (size_x s) = Fin w100"
    and h: "size_y s = Fin h" "0 < h" "hundredfold (size_y s) = Fin h100"
    and r: "isFin (rd (radius a) i)"
    and o: "N_obstacles s = 0 \<or> obo \<noteq> None"
  shows "driftAtom s i (a, obo) = Some (Returns (driftThenBounce s i (a, obo)))"
    and "otherAtomsKept i a (fst (driftThenBounce s i (a, obo)))"
    and "N_obstacles s = 0 \<or> snd (driftThenBounce s i (a, obo)) \<noteq> None"
proof -
  define a2 where "a2 = moveAtom (dt s) i a"
  from nd have "isFin (rd (x a2) i)" "isFin (rd (y a2) i)"
    by (auto simp: divergedAt_def a2_def moveAtom_rd w(3) h(3) intro: bounded_isFin)
  then obtain xi yi where xy: "rd (x a2) i = Fin xi" "rd (y a2) i = Fin yi"
    using isFin_realOf by blast
  from r obtain rr where rr: "rd (radius a2) i = Fin rr"
    using isFin_realOf by (auto simp: a2_def moveAtom_rd)
  from bounceParticleOffWalls_finite [OF w(2) h(2) xy rr] obtain a3 where
    a3: "bounceParticleOffWalls (Fin w, Fin h) i a2 = Some a3" and k3: "otherAtomsKept i a2 a3"
    by blast
  have k2: "otherAtomsKept i a a2"
    unfolding a2_def by (rule moveAtom_kept)
  note k = otherAtomsKept_trans [OF k2 k3]
  have "driftAtom s i (a, obo) = Some (Returns (driftThenBounce s i (a, obo)))
    \<and> otherAtomsKept i a (fst (driftThenBounce s i (a, obo)))
    \<and> (N_obstacles s = 0 \<or> snd (driftThenBounce s i (a, obo)) \<noteq> None)"
  proof (cases "N_obstacles s < 1")
    case True
    then have d: "driftThenBounce s i (a, obo) = (a3, obo)"
      by (cases obo) (simp_all add: driftThenBounce_def Let_def w h a2_def [symmetric] a3)
    have "driftAtom s i (a, obo) = Some (Returns (driftThenBounce s i (a, obo)))"
      using nd True by (simp add: d driftAtom_guard w h a2_def [symmetric] a3)
    with k True show ?thesis
      by (simp add: d)
  next
    case False
    with o obtain ob where ob: "obo = Some ob" by auto
    obtain a4 ob4 where b: "bounceParticleOffObstacles (N_obstacles s) i (rd (x a) i) (rd (y a) i)
        True (a3, ob) = (a4, ob4)"
      by (cases "bounceParticleOffObstacles (N_obstacles s) i (rd (x a) i) (rd (y a) i)
        True (a3, ob)") auto
    from bounceParticleOffObstacles_kept [of i a3 "N_obstacles s" "rd (x a) i" "rd (y a) i" True ob]
    have "otherAtomsKept i a3 a4" by (simp add: b)
    with k have k4: "otherAtomsKept i a a4" by (rule otherAtomsKept_trans)
    have d: "driftThenBounce s i (a, obo) = (a4, Some ob4)"
      using False by (simp add: driftThenBounce_def Let_def w h a2_def [symmetric] a3 ob b)
    have "driftAtom s i (a, obo) = Some (Returns (driftThenBounce s i (a, obo)))"
      using nd False unfolding d by (simp add: driftAtom_guard w h a2_def [symmetric] a3 ob b)
    with k4 show ?thesis
      by (simp add: d)
  qed
  then show "driftAtom s i (a, obo) = Some (Returns (driftThenBounce s i (a, obo)))"
    and "otherAtomsKept i a (fst (driftThenBounce s i (a, obo)))"
    and "N_obstacles s = 0 \<or> snd (driftThenBounce s i (a, obo)) \<noteq> None"
    by simp_all
qed

lemma divergedAt_kept:
  "otherAtomsKept j a a' \<Longrightarrow> k \<noteq> j \<Longrightarrow> divergedAt s a' k = divergedAt s a k"
  by (simp add: divergedAt_def otherAtomsKept_def rd_def)

text \<open>
  The loop over a list of distinct atoms: it throws at the first atom that has
  diverged, and otherwise returns the atoms and obstacles that moving and bouncing one
  atom after the other gives.
\<close>

lemma driftFrom_guard:
  assumes w: "size_x s = Fin w" "0 < w" "hundredfold (size_x s) = Fin w100"
    and h: "size_y s = Fin h" "0 < h" "hundredfold (size_y s) = Fin h100"
  shows "distinct js \<Longrightarrow> (\<And>j. j \<in> set js \<Longrightarrow> isFin (rd (radius a) j)) \<Longrightarrow>
     N_obstacles s = 0 \<or> obo \<noteq> None \<Longrightarrow>
     (if list_ex (divergedAt s a) js
      then \<exists>st. driftFrom s js (a, obo) = Some (Throws ModelHasDiverged st)
      else driftFrom s js (a, obo) = Some (Returns (fold (driftThenBounce s) js (a, obo))))"
proof (induction js arbitrary: a obo)
  case Nil
  then show ?case by simp
next
  case (Cons j js)
  show ?case
  proof (cases "divergedAt s a j")
    case True
    then show ?thesis by (simp add: driftAtom_guard andThen_def)
  next
    case False
    from Cons.prems(2) have r: "isFin (rd (radius a) j)" by simp
    obtain a' obo' where p: "driftThenBounce s j (a, obo) = (a', obo')"
      by (cases "driftThenBounce s j (a, obo)") auto
    from driftAtom_returns [OF False w h r Cons.prems(3)]
    have d: "driftAtom s j (a, obo) = Some (Returns (a', obo'))"
      and k: "otherAtomsKept j a a'" and o: "N_obstacles s = 0 \<or> obo' \<noteq> None"
      by (simp_all add: p)
    from Cons.prems(1) have dj: "distinct js" and nj: "\<And>i. i \<in> set js \<Longrightarrow> i \<noteq> j"
      by auto
    have rad: "\<And>i. i \<in> set js \<Longrightarrow> isFin (rd (radius a') i)"
      using Cons.prems(2) k by (simp add: otherAtomsKept_def)
    note ih = Cons.IH [OF dj rad o]
    have e: "list_ex (divergedAt s a') js = list_ex (divergedAt s a) js"
      using divergedAt_kept [OF k nj] by (simp add: list_ex_iff)
    show ?thesis
      using ih False unfolding e
      by (cases "list_ex (divergedAt s a) js") (simp_all add: d p andThen_def)
  qed
qed

text \<open>
  C5. In a state with positive finite domain size (whose hundredfold is a finite double),
  finite atom radii and obstacle arrays present whenever obstacles are counted, the
  drift substep throws \<open>ModelHasDiverged\<close> exactly when some atom has diverged: when its
  new coordinate, as the \<^verbatim>\<open>Float32Array\<close> holds it after \<^verbatim>\<open>x += vx * dt\<close> and
  \<^verbatim>\<open>y += vy * dt\<close>, is \<open>NaN\<close> or exceeds 100 times the extent. When no atom has diverged
  the substep returns, and the state it returns is the one in which every atom, in
  index order, has been moved, bounced off the walls and then bounced off the
  obstacles with pressure updating enabled; nothing but the atom and obstacle arrays
  has changed.
\<close>

theorem updateParticlesPosition_diverges_iff:
  assumes w: "size_x s = Fin w" "0 < w" "hundredfold (size_x s) = Fin w100"
    and h: "size_y s = Fin h" "0 < h" "hundredfold (size_y s) = Fin h100"
    and a: "atoms s = Some a"
    and r: "list_all (\<lambda>i. isFin (rd (radius a) i)) [0 ..< N s]"
    and o: "N_obstacles s = 0 \<or> obstacles s \<noteq> None"
  shows "((\<exists>s'. updateParticlesPosition s = Some (Throws ModelHasDiverged s'))
            \<longleftrightarrow> list_ex (divergedAt s a) [0 ..< N s])
       \<and> (\<not> list_ex (divergedAt s a) [0 ..< N s] \<longrightarrow>
            updateParticlesPosition s = Some (Returns (s\<lparr>
              atoms := Some (fst (fold (driftThenBounce s) [0 ..< N s] (a, obstacles s))),
              obstacles := snd (fold (driftThenBounce s) [0 ..< N s] (a, obstacles s))\<rparr>)))"
proof -
  have rad: "\<And>j. j \<in> set [0 ..< N s] \<Longrightarrow> isFin (rd (radius a) j)"
    using r by (simp add: list_all_iff)
  note g = driftFrom_guard [OF w h, of "[0 ..< N s]" a "obstacles s", OF distinct_upt rad o]
  show ?thesis
  proof (cases "list_ex (divergedAt s a) [0 ..< N s]")
    case True
    with g obtain st where
      "driftFrom s [0 ..< N s] (a, obstacles s) = Some (Throws ModelHasDiverged st)"
      by auto
    with True show ?thesis
      by (cases st) (simp add: updateParticlesPosition_def a)
  next
    case False
    with g have "driftFrom s [0 ..< N s] (a, obstacles s)
        = Some (Returns (fold (driftThenBounce s) [0 ..< N s] (a, obstacles s)))"
      by simp
    with False show ?thesis
      by (simp add: updateParticlesPosition_def a split_beta)
  qed
qed

text \<open>
  One atom of mass 2 and radius 0.25 at height 5 in the default 10 by 10 domain, an
  immovable obstacle covering \<open>4 \<le> x \<le> 6\<close> with its west probe enabled, and a time step
  of 1. Started at \<open>x = 3\<close> with velocity 1 the atom moves to 4, inside the obstacle: it
  is put back to \<open>3.5\<close>, its velocity is reversed and the west probe receives
  \<open>2 * (1 - (-1)) = 4\<close>. Started at \<open>x = 9\<close> it moves to 10, beyond the right wall at
  \<open>9.75\<close>: it is put back to \<open>9.5\<close> with its velocity reversed, and the probe stays at 0.
  Started with velocity 2000 it moves to \<open>x = 2003 > 1000\<close>, and the substep throws.

  The guard reads the coordinate that was stored. From \<open>x = 5\<close> with velocity 995 and a
  time step of \<^verbatim>\<open>1 + 2^-30\<close> the sum \<open>x + vx * dt\<close> is a little more than 1000, and the
  nearest 32-bit float is 1000: the array holds 1000, which does not exceed 1000, and the
  substep returns.
\<close>

theorem updateParticlesPosition_diverges_iff_witness:
  "map_option (\<lambda>r. (thrown r,
        map_option (\<lambda>a. (rd (x a) 0, rd (y a) 0, rd (vx a) 0)) (atoms (stateOf r)),
        map_option (\<lambda>ob. rd (obstacleWProbeValue ob) 0) (obstacles (stateOf r))))
     (updateParticlesPosition
        ((stateOf (addObstacle
          (noObstacleProps\<lparr>o_x := Some (Fin 4), o_y := Some (Fin 0), o_width := Some (Fin 2),
             o_height := Some (Fin 10), o_mass := Some PInf, o_westProbe := Some True\<rparr>)
          (stateOf (addAtom
            (noAtomProps\<lparr>a_element := Some 0, a_x := Some (Fin 3), a_y := Some (Fin 5),
               a_vx := Some (Fin 1), a_vy := Some (Fin 0)\<rparr>)
            (stateOf (createAtomsArray (Some (Fin 1))
              (stateOf (initializeElements (\<lambda>sg. jmul (Fin (1/2)) sg)
                [\<lparr>p_mass = Fin 2, p_epsilon = Fin (1/100), p_sigma = Fin (1/2)\<rparr>]
                createEngine))))))))
         \<lparr>dt := Fin 1, dt_sq := Fin 1\<rparr>))
     = Some (None, Some (Fin (7/2), Fin 5, Fin (-1)), Some (Fin 4))
   \<and> map_option (\<lambda>r. (thrown r,
        map_option (\<lambda>a. (rd (x a) 0, rd (y a) 0, rd (vx a) 0)) (atoms (stateOf r)),
        map_option (\<lambda>ob. rd (obstacleWProbeValue ob) 0) (obstacles (stateOf r))))
     (updateParticlesPosition
        ((stateOf (addObstacle
          (noObstacleProps\<lparr>o_x := Some (Fin 4), o_y := Some (Fin 0), o_width := Some (Fin 2),
             o_height := Some (Fin 10), o_mass := Some PInf, o_westProbe := Some True\<rparr>)
          (stateOf (addAtom
            (noAtomProps\<lparr>a_element := Some 0, a_x := Some (Fin 9), a_y := Some (Fin 5),
               a_vx := Some (Fin 1), a_vy := Some (Fin 0)\<rparr>)
            (stateOf (createAtomsArray (Some (Fin 1))
              (stateOf (initializeElements (\<lambda>sg. jmul (Fin (1/2)) sg)
                [\<lparr>p_mass = Fin 2, p_epsilon = Fin (1/100), p_sigma = Fin (1/2)\<rparr>]
                createEngine))))))))
         \<lparr>dt := Fin 1, dt_sq := Fin 1\<rparr>))
     = Some (None, Some (Fin (19/2), Fin 5, Fin (-1)), Some (Fin 0))
   \<and> (\<exists>s'. updateParticlesPosition
        ((stateOf (addObstacle
          (noObstacleProps\<lparr>o_x := Some (Fin 4), o_y := Some (Fin 0), o_width := Some (Fin 2),
             o_height := Some (Fin 10), o_mass := Some PInf, o_westProbe := Some True\<rparr>)
          (stateOf (addAtom
            (noAtomProps\<lparr>a_element := Some 0, a_x := Some (Fin 3), a_y := Some (Fin 5),
               a_vx := Some (Fin 2000), a_vy := Some (Fin 0)\<rparr>)
            (stateOf (createAtomsArray (Some (Fin 1))
              (stateOf (initializeElements (\<lambda>sg. jmul (Fin (1/2)) sg)
                [\<lparr>p_mass = Fin 2, p_epsilon = Fin (1/100), p_sigma = Fin (1/2)\<rparr>]
                createEngine))))))))
         \<lparr>dt := Fin 1, dt_sq := Fin 1\<rparr>) = Some (Throws ModelHasDiverged s'))
   \<and> jgt (jabs (jadd (Fin 5) (jmul (Fin 995) (Fin (1073741825 / 1073741824)))))
         (jmul (Fin 10) (Fin 100))
   \<and> advance (Fin 5) (Fin 995) (Fin (1073741825 / 1073741824)) = Fin 1000
   \<and> (\<exists>s'. updateParticlesPosition
        ((stateOf (addObstacle
          (noObstacleProps\<lparr>o_x := Some (Fin 4), o_y := Some (Fin 0), o_width := Some (Fin 2),
             o_height := Some (Fin 10), o_mass := Some PInf, o_westProbe := Some True\<rparr>)
          (stateOf (addAtom
            (noAtomProps\<lparr>a_element := Some 0, a_x := Some (Fin 5), a_y := Some (Fin 5),
               a_vx := Some (Fin 995), a_vy := Some (Fin 0)\<rparr>)
            (stateOf (createAtomsArray (Some (Fin 1))
              (stateOf (initializeElements (\<lambda>sg. jmul (Fin (1/2)) sg)
                [\<lparr>p_mass = Fin 2, p_epsilon = Fin (1/100), p_sigma = Fin (1/2)\<rparr>]
                createEngine))))))))
         \<lparr>dt := Fin (1073741825 / 1073741824), dt_sq := Fin (1152921506754330625 / 1152921504606846976)\<rparr>)
        = Some (Returns s'))"
proof -
  define e where "e x0 v = stateOf (addObstacle
          (noObstacleProps\<lparr>o_x := Some (Fin 4), o_y := Some (Fin 0), o_width := Some (Fin 2),
             o_height := Some (Fin 10), o_mass := Some PInf, o_westProbe := Some True\<rparr>)
          (stateOf (addAtom
            (noAtomProps\<lparr>a_element := Some 0, a_x := Some (Fin x0), a_y := Some (Fin 5),
               a_vx := Some (Fin v), a_vy := Some (Fin 0)\<rparr>)
            (stateOf (createAtomsArray (Some (Fin 1))
              (stateOf (initializeElements (\<lambda>sg. jmul (Fin (1/2)) sg)
                [\<lparr>p_mass = Fin 2, p_epsilon = Fin (1/100), p_sigma = Fin (1/2)\<rparr>]
                createEngine)))))))" for x0 v :: real
  define s where "s x0 v = (e x0 v)\<lparr>dt := Fin 1, dt_sq := Fin 1\<rparr>" for x0 v
  define A where "A x0 v p sp = \<lparr>radius = [Fin (1/4)], px = [Fin p], py = [Fin 0],
         x = [Fin x0], y = [Fin 5], vx = [Fin v], vy = [Fin 0],
         speed = [sp], ax = [Fin 0], ay = [Fin 0],
         charge = [Fin 0], friction = [Fin 0], element = [0], pinned = [False],
         mass = [Fin 2]\<rparr>" for x0 v p :: real and sp :: jsnum
  define ob where "ob w = \<lparr>obstacleX = [Fin 4], obstacleY = [Fin 0], obstacleWidth = [Fin 2],
      obstacleHeight = [Fin 10], obstacleMass = [PInf], obstacleVX = [Fin 0],
      obstacleVY = [Fin 0], obstacleExtFX = [Fin 0], obstacleExtFY = [Fin 0],
      obstacleFriction = [Fin 0], obstacleWestProbe = [True], obstacleNorthProbe = [False],
      obstacleEastProbe = [False], obstacleSouthProbe = [False],
      obstacleWProbeValue = [Fin w], obstacleNProbeValue = [Fin 0],
      obstacleEProbeValue = [Fin 0], obstacleSProbeValue = [Fin 0],
      obstacleXPrev = [Fin 4], obstacleYPrev = [Fin 0]\<rparr>" for w :: real
  define sp where "sp v = Fin (sqrt (v * v + 0 * 0))" for v :: real
  have es: "e x0 v = createEngine\<lparr>
       sizeHasBeenInitialized := True, atomsHaveBeenCreated := True,
       elementsHaveBeenCreated := True, N := 1,
       atoms := Some (A x0 v (v * 2) (sp v)),
       elems := Some \<lparr>elementMass = [Fin 2], elementEpsilon = [Fin (1/100)],
         elementSigma = [Fin (1/2)], elementRadius = [Fin (1/4)]\<rparr>,
       N_elements := 1, elementUsed := (\<lambda>_. False)(0 := True),
       obstacles := Some (ob 0), N_obstacles := 1\<rparr>" for x0 v
    unfolding e_def one_atom_engine A_def ob_def sp_def
    by (simp add: addObstacle_def setObstacleProperties_def writeObstacle_def
        noObstacleProps_def createObstaclesArray_def setOpt_def createEngine_def Let_def)
  have st: "s x0 v = createEngine\<lparr>
       sizeHasBeenInitialized := True, atomsHaveBeenCreated := True,
       elementsHaveBeenCreated := True, dt := Fin 1, dt_sq := Fin 1, N := 1,
       atoms := Some (A x0 v (v * 2) (sp v)),
       elems := Some \<lparr>elementMass = [Fin 2], elementEpsilon = [Fin (1/100)],
         elementSigma = [Fin (1/2)], elementRadius = [Fin (1/4)]\<rparr>,
       N_elements := 1, elementUsed := (\<lambda>_. False)(0 := True),
       obstacles := Some (ob 0), N_obstacles := 1\<rparr>" for x0 v
    by (simp add: s_def es)
  have f: "size_x (s x0 v) = Fin 10" "size_y (s x0 v) = Fin 10"
    "atoms (s x0 v) = Some (A x0 v (v * 2) (sp v))" "obstacles (s x0 v) = Some (ob 0)"
    "N (s x0 v) = 1" "N_obstacles (s x0 v) = 1" "dt (s x0 v) = Fin 1" for x0 v
    by (simp_all add: st createEngine_def)
  have hf: "hundredfold (size_x (s x0 v)) = Fin 1000" "hundredfold (size_y (s x0 v)) = Fin 1000"
    for x0 v
    by (simp_all add: f hundredfold_def rounding_simps)
  have adv: "advance (Fin 3) (Fin 1) (Fin 1) = Fin 4" "advance (Fin 9) (Fin 1) (Fin 1) = Fin 10"
    "advance (Fin 5) (Fin 0) (Fin 1) = Fin 5" "advance (Fin 3) (Fin 2000) (Fin 1) = Fin 2003"
    by (simp_all add: advance_def rounding_simps)
  have rd0: "rd (x (A x0 v p q)) 0 = Fin x0" "rd (y (A x0 v p q)) 0 = Fin 5"
    "rd (vx (A x0 v p q)) 0 = Fin v" "rd (vy (A x0 v p q)) 0 = Fin 0"
    "rd (radius (A x0 v p q)) 0 = Fin (1/4)" "rd (px (A x0 v p q)) 0 = Fin p"
    "rd (mass (A x0 v p q)) 0 = Fin 2" for x0 v p q
    by (simp_all add: A_def)
  have r: "list_all (\<lambda>i. isFin (rd (radius (A x0 v p q)) i)) [0 ..< N (s x0 v)]" for x0 v p q
    by (simp add: f rd0)
  have o: "N_obstacles (s x0 v) = 0 \<or> obstacles (s x0 v) \<noteq> None" for x0 v
    by (simp add: f)
  have d3: "\<not> list_ex (divergedAt (s 3 1) (A 3 1 (1 * 2) (sp 1))) [0 ..< N (s 3 1)]"
    by (simp add: f divergedAt_def rd0 adv hf [unfolded f])
  have d9: "\<not> list_ex (divergedAt (s 9 1) (A 9 1 (1 * 2) (sp 1))) [0 ..< N (s 9 1)]"
    by (simp add: f divergedAt_def rd0 adv hf [unfolded f])
  have d2000: "list_ex (divergedAt (s 3 2000) (A 3 2000 (2000 * 2) (sp 2000))) [0 ..< N (s 3 2000)]"
    by (simp add: f divergedAt_def rd0 adv hf [unfolded f])
  have mv: "moveAtom (Fin 1) 0 (A 3 1 p q) = A 4 1 p q"
    "moveAtom (Fin 1) 0 (A 9 1 p q) = A 10 1 p q" for p q
    by (simp_all add: moveAtom_def Let_def rd0 adv) (simp_all add: A_def)
  have wl: "bounceParticleOffWalls (Fin 10, Fin 10) 0 (A 4 1 p q) = Some (A 4 1 p q)"
    "bounceParticleOffWalls (Fin 10, Fin 10) 0 (A 10 1 p q) = Some (A (19/2) (-1) (- p) q)" for p q
    by (simp_all add: bounceParticleOffWalls_def bounceCoordinate_def Let_def rd0
        whileGreater_stop) (simp_all add: A_def)
  have u: "[0 ..< (1::nat)] = [0]"
    by simp
  have dir: "bounceDirectionOf (Fin 3) (Fin 5) (Fin (1/4)) (Fin 4) (Fin 5) 0 (ob 0) = 1"
    "bounceDirectionOf (Fin 9) (Fin 5) (Fin (1/4)) (Fin (19/2)) (Fin 5) 0 (ob 0) = 0"
    by (simp_all add: bounceDirectionOf_def Let_def ob_def)
  have rf: "reflectAtObstacle 1 0 (Fin (1/4)) (Fin 4) (Fin 5) 0 (ob 0) (A 4 1 p q) = A (7/2) 1 p q"
    "reflectAtObstacle 0 0 (Fin (1/4)) (Fin (19/2)) (Fin 5) 0 (ob 0) (A (19/2) (-1) p q)
       = A (19/2) (-1) p q" for p q
    by (simp_all add: reflectAtObstacle_def Let_def ob_def) (simp_all add: A_def)
  have cl: "collideWithObstacle 1 0 0 (A (7/2) 1 p q, ob 0, None, None)
      = (A (7/2) (-1) p q, ob 0, None, None)" for p q
    by (simp add: collideWithObstacle_def Let_def ob_def) (simp add: A_def)
  have pr: "updateProbes 1 0 0 (A (7/2) (-1) p q) None None (ob 0) = ob 4" for p q
    by (simp add: updateProbes_def prevOrNegated_def rdb_def rd0) (simp add: ob_def)
  have b3: "bounceOffObstacle 0 (Fin 3) (Fin 5) True (Fin (1/4)) (Fin 4) (Fin 5) 0
        (A 4 1 p q, ob 0, None, None) = (A (7/2) (-1) p q, ob 4, None, None)" for p q
    by (simp only: bounceOffObstacle_def prod.case Let_def dir rf cl pr) simp
  have b9: "bounceOffObstacle 0 (Fin 9) (Fin 5) True (Fin (1/4)) (Fin (19/2)) (Fin 5) 0
        (A (19/2) (-1) p q, ob 0, None, None) = (A (19/2) (-1) p q, ob 0, None, None)" for p q
    by (simp only: bounceOffObstacle_def prod.case Let_def dir rf) simp
  have o3: "bounceParticleOffObstacles 1 0 (Fin 3) (Fin 5) True (A 4 1 p q, ob 0)
      = (A (7/2) (-1) p q, ob 4)" for p q
    by (simp only: bounceParticleOffObstacles_def Let_def fst_conv snd_conv rd0 u
        List.fold.simps id_apply comp_apply b3 less_irrefl if_False)
  have o9: "bounceParticleOffObstacles 1 0 (Fin 9) (Fin 5) True (A (19/2) (-1) p q, ob 0)
      = (A (19/2) (-1) p q, ob 0)" for p q
    by (simp only: bounceParticleOffObstacles_def Let_def fst_conv snd_conv rd0 u
        List.fold.simps id_apply comp_apply b9 less_irrefl if_False)
  have t3: "fold (driftThenBounce (s 3 1)) [0 ..< N (s 3 1)] (A 3 1 p q, obstacles (s 3 1))
      = (A (7/2) (-1) p q, Some (ob 4))" for p q
    by (simp add: f driftThenBounce_def Let_def mv wl rd0 o3 [unfolded One_nat_def])
  have t9: "fold (driftThenBounce (s 9 1)) [0 ..< N (s 9 1)] (A 9 1 p q, obstacles (s 9 1))
      = (A (19/2) (-1) (- p) q, Some (ob 0))" for p q
    by (simp add: f driftThenBounce_def Let_def mv wl rd0 o9 [unfolded One_nat_def])
  note c3 = updateParticlesPosition_diverges_iff [OF f(1) _ hf(1) f(2) _ hf(2) f(3) r o, of 3 1]
  note c9 = updateParticlesPosition_diverges_iff [OF f(1) _ hf(1) f(2) _ hf(2) f(3) r o, of 9 1]
  note c2000 = updateParticlesPosition_diverges_iff [OF f(1) _ hf(1) f(2) _ hf(2) f(3) r o, of 3 2000]
  from c3 d3 have r3: "updateParticlesPosition (s 3 1) = Some (Returns ((s 3 1)\<lparr>
      atoms := Some (A (7/2) (-1) (1 * 2) (sp 1)), obstacles := Some (ob 4)\<rparr>))"
    by (simp add: t3)
  from c9 d9 have r9: "updateParticlesPosition (s 9 1) = Some (Returns ((s 9 1)\<lparr>
      atoms := Some (A (19/2) (-1) (- (1 * 2)) (sp 1)), obstacles := Some (ob 0)\<rparr>))"
    by (simp add: t9)
  from c2000 d2000 have r2000:
    "\<exists>s'. updateParticlesPosition (s 3 2000) = Some (Throws ModelHasDiverged s')"
    by simp
  have pw: "rd (obstacleWProbeValue (ob w)) 0 = Fin w" for w
    by (simp add: ob_def)
  define t1 :: real where "t1 = 1073741825 / 1073741824"
  define s1 where "s1 = (e 5 995)\<lparr>dt := Fin t1,
      dt_sq := Fin (1152921506754330625 / 1152921504606846976)\<rparr>"
  have f1: "size_x s1 = Fin 10" "size_y s1 = Fin 10"
    "atoms s1 = Some (A 5 995 (995 * 2) (sp 995))" "obstacles s1 = Some (ob 0)"
    "N s1 = 1" "N_obstacles s1 = 1" "dt s1 = Fin t1"
    by (simp_all add: s1_def es createEngine_def)
  have hf1: "hundredfold (size_x s1) = Fin 1000" "hundredfold (size_y s1) = Fin 1000"
    by (simp_all add: f1 hundredfold_def rounding_simps)
  have adv1: "advance (Fin 5) (Fin 995) (Fin t1) = Fin 1000" "advance (Fin 5) (Fin 0) (Fin t1) = Fin 5"
    by (simp_all add: advance_def t1_def rounding_simps)
  have ex1: "jgt (jabs (jadd (Fin 5) (jmul (Fin 995) (Fin t1)))) (jmul (Fin 10) (Fin 100))"
    by (simp add: t1_def)
  have r1: "list_all (\<lambda>i. isFin (rd (radius (A 5 995 (995 * 2) (sp 995))) i)) [0 ..< N s1]"
    by (simp add: f1 rd0)
  have o1: "N_obstacles s1 = 0 \<or> obstacles s1 \<noteq> None"
    by (simp add: f1)
  have d1: "\<not> list_ex (divergedAt s1 (A 5 995 (995 * 2) (sp 995))) [0 ..< N s1]"
    by (simp add: f1 divergedAt_def rd0 adv1 hf1 [unfolded f1])
  note c1 = updateParticlesPosition_diverges_iff [OF f1(1) _ hf1(1) f1(2) _ hf1(2) f1(3) r1 o1]
  from c1 d1 have rr1: "\<exists>s'. updateParticlesPosition s1 = Some (Returns s')"
    by simp
  show ?thesis
    unfolding e_def [symmetric] s_def [symmetric] t1_def [symmetric] s1_def [symmetric]
    using r2000 ex1 adv1(1) rr1 by (simp add: r3 r9 rd0 pw)
qed

section \<open>The integration loop\<close>

lemma integrateLoop_runSteps:
  "integrateLoop M k (Fin (of_int m)) tStart s = runSteps M tStart k (nat (m + 1 - int k)) s"
proof (induction "nat (m + 1 - int k)" arbitrary: k s)
  case 0
  then have "\<not> int k \<le> m" by simp
  then have "\<not> real k \<le> of_int m"
    by (metis of_int_le_iff of_int_of_nat_eq)
  with 0 show ?case
    by (subst integrateLoop.simps) simp
next
  case (Suc n)
  then have le: "int k \<le> m" by simp
  then have "real k \<le> of_int m"
    by (metis of_int_le_iff of_int_of_nat_eq)
  then have j: "jle (Fin (real k)) (Fin (of_int m))" by simp
  from Suc(2) have n: "n = nat (m + 1 - int (k + 1))" by simp
  have ih: "integrateLoop M (Suc k) (Fin (of_int m)) tStart s' = runSteps M tStart (Suc k) n s'"
    for s'
  proof -
    have "nat (m - int k) = n" using Suc(2) by simp
    with Suc(1) [OF n, of s'] show ?thesis by simp
  qed
  have s: "nat (m + 1 - int k) = Suc n"
    using Suc(2) by simp
  have "integrateLoop M k (Fin (of_int m)) tStart s
      = (case verletStep M k tStart s of
           None \<Rightarrow> None
         | Some (Throws e s') \<Rightarrow> Some (Throws e s')
         | Some (Returns s') \<Rightarrow> integrateLoop M (k + 1) (Fin (of_int m)) tStart s')"
    by (subst integrateLoop.simps) (simp only: j if_True)
  also have "\<dots> = andThen (verletStep M k tStart s) (runSteps M tStart (Suc k) n)"
    by (simp add: andThen_def ih split: option.splits outcome.splits)
  finally show ?case
    by (simp only: s runSteps.simps)
qed

text \<open>
  What the substeps of a pass leave alone: the time, the time step and the record of
  the pressure buffers.
\<close>

lemma updateParticlesAccelerations_frame:
  "updateParticlesAccelerations M s = Returns s' \<Longrightarrow>
     time s' = time s \<and> dt s' = dt s \<and> pressureTime s' = pressureTime s"
  by (auto simp: updateParticlesAccelerations_def split: option.splits if_splits)

lemma updateParticlesPosition_frame:
  "updateParticlesPosition s = Some (Returns s') \<Longrightarrow>
     time s' = time s \<and> dt s' = dt s \<and> pressureTime s' = pressureTime s"
  by (auto simp: updateParticlesPosition_def split: option.splits outcome.splits if_splits)

lemma updateObstaclesPosition_frame:
  "updateObstaclesPosition s = Some (Returns s') \<Longrightarrow>
     time s' = time s \<and> dt s' = dt s \<and> pressureTime s' = pressureTime s"
  by (auto simp: updateObstaclesPosition_def split: option.splits if_splits)

lemma adjustTemperature_frame:
  "time (adjustTemperature M tg f s) = time s \<and> dt (adjustTemperature M tg f s) = dt s
     \<and> pressureTime (adjustTemperature M tg f s) = pressureTime s"
  by (simp add: adjustTemperature_def measureTemperature_def rescaleVelocities_def Let_def)

lemma verletStep_frame:
  assumes "verletStep M k tStart s = Some (Returns s')"
  shows "time s' = jadd tStart (jmul (Fin (real k)) (dt s)) \<and> dt s' = dt s
     \<and> pressureTime s' = pressureTime s"
proof -
  define s2 where "s2 = halfUpdateVelocity (s\<lparr>time := jadd tStart (jmul (Fin (real k)) (dt s))\<rparr>)"
  have f2: "time s2 = jadd tStart (jmul (Fin (real k)) (dt s))" "dt s2 = dt s"
    "pressureTime s2 = pressureTime s"
    by (simp_all add: s2_def halfUpdateVelocity_def)
  from assms obtain s3 where s3: "updateParticlesPosition s2 = Some (Returns s3)"
    by (auto simp: verletStep_def Let_def andThen_def s2_def [symmetric]
        split: option.splits outcome.splits)
  from assms s3 obtain s4 where s4: "updateParticlesAccelerations M s3 = Returns s4"
    by (auto simp: verletStep_def Let_def andThen_def s2_def [symmetric]
        split: option.splits outcome.splits)
  define s7 where "s7 = updateParticlesSpeed (halfUpdateVelocity (pinAtoms s4))"
  have f7: "time s7 = time s4" "dt s7 = dt s4" "pressureTime s7 = pressureTime s4"
    by (simp_all add: s7_def updateParticlesSpeed_def halfUpdateVelocity_def pinAtoms_def)
  from assms s3 s4 obtain s8 where s8: "updateObstaclesPosition s7 = Some (Returns s8)"
    and r: "s' = adjustTemperature M None False s8"
    by (auto simp: verletStep_def Let_def andThen_def s2_def [symmetric] s7_def [symmetric]
        split: option.splits outcome.splits)
  from updateParticlesPosition_frame [OF s3] updateParticlesAccelerations_frame [OF s4]
    updateObstaclesPosition_frame [OF s8] f2 f7 adjustTemperature_frame [of M None False s8]
  show ?thesis
    unfolding r by simp
qed

text \<open>
  \<open>n\<close> passes that all return leave the time at \<open>tStart + (iloop + n - 1) * dt\<close>, the
  value the last pass has assigned.
\<close>

lemma runSteps_frame:
  "runSteps M tStart k n s = Some (Returns s') \<Longrightarrow>
     time s' = (if n = 0 then time s else jadd tStart (jmul (Fin (real (k + n - 1))) (dt s)))
     \<and> dt s' = dt s \<and> pressureTime s' = pressureTime s"
proof (induction n arbitrary: k s)
  case 0
  then show ?case by simp
next
  case (Suc n)
  from Suc.prems obtain s1 where s1: "verletStep M k tStart s = Some (Returns s1)"
    and r: "runSteps M tStart (Suc k) n s1 = Some (Returns s')"
    by (auto simp: andThen_def split: option.splits outcome.splits)
  from verletStep_frame [OF s1] Suc.IH [OF r] show ?case
    by (cases n) simp_all
qed

text \<open>
  \<^verbatim>\<open>integrate\<close> as a sequence: the accelerations if the time is \<open>0\<close>, then as many passes
  as the floor of the quotient, rounded as a double, says, then the pressure buffers.
\<close>

lemma integrate_runSteps:
  assumes d: "(case duration0 of None \<Rightarrow> Fin 100 | Some v \<Rightarrow> v) = Fin d"
    and t: "(case dt0 of None \<Rightarrow> Fin 1 | Some v \<Rightarrow> v) = Fin t"
    and q: "toDouble (jdiv (Fin d) (Fin t)) = Fin q"
  shows "integrate M duration0 dt0 s =
     (if \<not> atomsHaveBeenCreated s then Some (Throws IntegrateBeforeAtomsCreated s)
      else
        andThen (if jeq (time s) (Fin 0)
                 then Some (updateParticlesAccelerations M (s\<lparr>dt := Fin t, dt_sq := Fin (t * t)\<rparr>))
                 else Some (Returns (s\<lparr>dt := Fin t, dt_sq := Fin (t * t)\<rparr>))) (\<lambda>s2.
          andThen (runSteps M (time s) 1 (nat \<lfloor>q\<rfloor>) s2) (\<lambda>s3.
            Some (Returns (updateBuffers (Fin d) s3)))))"
proof (cases "atomsHaveBeenCreated s")
  case False
  then show ?thesis by (simp add: integrate_def)
next
  case True
  define s1 where "s1 = s\<lparr>dt := Fin t, dt_sq := Fin (t * t)\<rparr>"
  define r0 where "r0 = (if jeq (time s) (Fin 0)
      then Some (updateParticlesAccelerations M s1) else Some (Returns s1))"
  have loop: "integrateLoop M 1 (jfloor (toDouble (jdiv (Fin d) (dt s2)))) (time s) s2
      = runSteps M (time s) 1 (nat \<lfloor>q\<rfloor>) s2" if "r0 = Some (Returns s2)" for s2
  proof -
    from that have "dt s2 = Fin t"
      by (auto simp: r0_def s1_def split: if_splits dest!: updateParticlesAccelerations_frame)
    then have "jfloor (toDouble (jdiv (Fin d) (dt s2))) = Fin (of_int \<lfloor>q\<rfloor>)"
      by (simp only: q jfloor.simps)
    then show ?thesis
      using integrateLoop_runSteps [of M 1 "\<lfloor>q\<rfloor>" "time s" s2] by simp
  qed
  have "integrate M duration0 dt0 s =
      andThen r0 (\<lambda>s2. andThen (integrateLoop M 1 (jfloor (toDouble (jdiv (Fin d) (dt s2)))) (time s) s2)
        (\<lambda>s3. Some (Returns (updateBuffers (Fin d) s3))))"
    using True by (simp add: integrate_def Let_def d t r0_def s1_def)
  also have "\<dots> = andThen r0 (\<lambda>s2. andThen (runSteps M (time s) 1 (nat \<lfloor>q\<rfloor>) s2)
        (\<lambda>s3. Some (Returns (updateBuffers (Fin d) s3))))"
    using loop by (cases r0) (auto simp: andThen_def split: outcome.splits)
  finally show ?thesis
    using True by (simp add: r0_def s1_def)
qed

text \<open>
  C1. In a state with atoms, for finite \<open>duration = d\<close> and \<open>dt = t\<close> (100 and 1 when the
  arguments are omitted) whose quotient, the double that \<^verbatim>\<open>duration / dt\<close> is, is a finite
  number \<open>q\<close>: \<^verbatim>\<open>integrate\<close> stores \<open>dt\<close>; if and only if the model time is exactly \<open>0\<close> it
  first replaces the accelerations \<open>ax\<close>, \<open>ay\<close> by those of the force computation; it then
  performs \<open>\<lfloor>q\<rfloor>\<close> passes of the loop body (none when that number is negative), numbered
  from 1, as long as no pass throws; and last it advances the pressure buffers by
  \<open>duration\<close>. When it returns, the time is the one the pass numbered \<open>\<lfloor>q\<rfloor>\<close> has
  assigned, \<open>tStart + \<lfloor>q\<rfloor> * dt\<close> (unchanged if there was no pass), and the pressure
  buffers have been advanced exactly once.
\<close>

theorem integrate_step_count:
  assumes c: "atomsHaveBeenCreated s" and a: "atoms s = Some a" and n: "0 < N s"
    and d: "(case duration0 of None \<Rightarrow> Fin 100 | Some v \<Rightarrow> v) = Fin d"
    and t: "(case dt0 of None \<Rightarrow> Fin 1 | Some v \<Rightarrow> v) = Fin t"
    and q: "toDouble (jdiv (Fin d) (Fin t)) = Fin q"
  shows "integrate M duration0 dt0 s =
       andThen (runSteps M (time s) 1 (nat \<lfloor>q\<rfloor>)
          (if time s = Fin 0
           then s\<lparr>dt := Fin t, dt_sq := Fin (t * t),
                  atoms := Some (a\<lparr>ax := fst (forces M (s\<lparr>dt := Fin t, dt_sq := Fin (t * t)\<rparr>)),
                                   ay := snd (forces M (s\<lparr>dt := Fin t, dt_sq := Fin (t * t)\<rparr>))\<rparr>)\<rparr>
           else s\<lparr>dt := Fin t, dt_sq := Fin (t * t)\<rparr>))
         (\<lambda>s3. Some (Returns (s3\<lparr>pressureTime := pressureTime s3 @ [Fin d]\<rparr>)))
     \<and> (\<forall>s'. integrate M duration0 dt0 s = Some (Returns s') \<longrightarrow>
           time s' = (if nat \<lfloor>q\<rfloor> = 0 then time s
                      else jadd (time s) (jmul (Fin (real (nat \<lfloor>q\<rfloor>))) (Fin t)))
           \<and> dt s' = Fin t
           \<and> pressureTime s' = pressureTime s @ [Fin d])"
proof -
  define s1 where "s1 = s\<lparr>dt := Fin t, dt_sq := Fin (t * t)\<rparr>"
  define s2 where "s2 = (if time s = Fin 0
      then s1\<lparr>atoms := Some (a\<lparr>ax := fst (forces M s1), ay := snd (forces M s1)\<rparr>)\<rparr> else s1)"
  have f2: "time s2 = time s" "dt s2 = Fin t" "pressureTime s2 = pressureTime s"
    by (simp_all add: s2_def s1_def)
  have u: "updateParticlesAccelerations M s1
      = Returns (s1\<lparr>atoms := Some (a\<lparr>ax := fst (forces M s1), ay := snd (forces M s1)\<rparr>)\<rparr>)"
    using a n by (simp add: updateParticlesAccelerations_def s1_def)
  have j: "jeq (time s) (Fin 0) = (time s = Fin 0)"
    by (auto simp: jeq_def)
  have e: "integrate M duration0 dt0 s =
       andThen (runSteps M (time s) 1 (nat \<lfloor>q\<rfloor>) s2)
         (\<lambda>s3. Some (Returns (s3\<lparr>pressureTime := pressureTime s3 @ [Fin d]\<rparr>)))"
    unfolding integrate_runSteps [OF d t q] s1_def [symmetric]
    using c by (simp add: j u s2_def andThen_def updateBuffers_def)
  have "time s' = (if nat \<lfloor>q\<rfloor> = 0 then time s
                      else jadd (time s) (jmul (Fin (real (nat \<lfloor>q\<rfloor>))) (Fin t)))
           \<and> dt s' = Fin t \<and> pressureTime s' = pressureTime s @ [Fin d]"
    if r: "integrate M duration0 dt0 s = Some (Returns s')" for s'
  proof -
    from r obtain s3 where s3: "runSteps M (time s) 1 (nat \<lfloor>q\<rfloor>) s2 = Some (Returns s3)"
      and s': "s' = s3\<lparr>pressureTime := pressureTime s3 @ [Fin d]\<rparr>"
      unfolding e by (auto simp: andThen_def split: option.splits outcome.splits)
    from runSteps_frame [OF s3] show ?thesis
      by (simp add: s' f2)
  qed
  with e show ?thesis
    unfolding s2_def s1_def by blast
qed

text \<open>
  Two runs on one atom of mass 2 and radius 0.25 that rests at \<open>(5, 5)\<close> at time \<open>0\<close>.

  \<^verbatim>\<open>integrate(1, 0.1)\<close> without forces: \<^verbatim>\<open>0.1\<close> is the double
  \<open>3602879701896397 / 36028797018963968\<close>, a little more than one tenth, so the exact
  quotient is a little less than 10 and its floor is 9; the quotient as a double is 10,
  and the run performs 10 passes: it returns with the time at ten times the step.

  \<^verbatim>\<open>integrate(2, 1)\<close> under a constant acceleration \<open>(2, 0)\<close>: the accelerations computed
  at time \<open>0\<close> enter the first half-kick, and after two passes the atom is at \<open>x = 9\<close>
  with velocity 4 (it would be at \<open>x = 7\<close> with velocity 3 had the first half-kick
  used the initial zero acceleration).
\<close>

theorem integrate_step_count_witness:
  "toDouble (jdiv (Fin 1) (Fin (3602879701896397 / 36028797018963968))) = Fin 10
   \<and> \<lfloor>(1::real) / (3602879701896397 / 36028797018963968)\<rfloor> = 9
   \<and> (\<exists>s'. integrate \<lparr>forces = (\<lambda>s. ([Fin 0], [Fin 0])), mwToJoule = (\<lambda>v. jmul v (Fin 2)),
          boltzmann = Fin 5, windowAverage = (\<lambda>h. NaN)\<rparr>
          (Some (Fin 1)) (Some (Fin (3602879701896397 / 36028797018963968)))
          (stateOf (addAtom
            (noAtomProps\<lparr>a_element := Some 0, a_x := Some (Fin 5), a_y := Some (Fin 5),
               a_vx := Some (Fin 0), a_vy := Some (Fin 0)\<rparr>)
            (stateOf (createAtomsArray (Some (Fin 1))
              (stateOf (initializeElements (\<lambda>sg. jmul (Fin (1/2)) sg)
                [\<lparr>p_mass = Fin 2, p_epsilon = Fin (1/100), p_sigma = Fin (1/2)\<rparr>]
                createEngine)))))) = Some (Returns s')
        \<and> time s' = Fin (10 * (3602879701896397 / 36028797018963968))
        \<and> pressureTime s' = [Fin 1])
   \<and> map_option (\<lambda>r. (thrown r, time (stateOf r), pressureTime (stateOf r),
        map_option (\<lambda>a. (rd (x a) 0, rd (vx a) 0, rd (ax a) 0)) (atoms (stateOf r))))
       (integrate \<lparr>forces = (\<lambda>s. ([Fin 2], [Fin 0])), mwToJoule = (\<lambda>v. jmul v (Fin 2)),
          boltzmann = Fin 5, windowAverage = (\<lambda>h. NaN)\<rparr>
          (Some (Fin 2)) (Some (Fin 1))
          (stateOf (addAtom
            (noAtomProps\<lparr>a_element := Some 0, a_x := Some (Fin 5), a_y := Some (Fin 5),
               a_vx := Some (Fin 0), a_vy := Some (Fin 0)\<rparr>)
            (stateOf (createAtomsArray (Some (Fin 1))
              (stateOf (initializeElements (\<lambda>sg. jmul (Fin (1/2)) sg)
                [\<lparr>p_mass = Fin 2, p_epsilon = Fin (1/100), p_sigma = Fin (1/2)\<rparr>]
                createEngine)))))))
     = Some (None, Fin 2, [Fin 2], Some (Fin 9, Fin 4, Fin 2))"
proof -
  define t0 :: real where "t0 = 3602879701896397 / 36028797018963968"
  define M0 where "M0 = \<lparr>forces = (\<lambda>s. ([Fin 0], [Fin 0])), mwToJoule = (\<lambda>v. jmul v (Fin 2)),
          boltzmann = Fin 5, windowAverage = (\<lambda>h. NaN)\<rparr>"
  define M1 where "M1 = \<lparr>forces = (\<lambda>s. ([Fin 2], [Fin 0])), mwToJoule = (\<lambda>v. jmul v (Fin 2)),
          boltzmann = Fin 5, windowAverage = (\<lambda>h. NaN)\<rparr>"
  define s0 where "s0 = stateOf (addAtom
            (noAtomProps\<lparr>a_element := Some 0, a_x := Some (Fin 5), a_y := Some (Fin 5),
               a_vx := Some (Fin 0), a_vy := Some (Fin 0)\<rparr>)
            (stateOf (createAtomsArray (Some (Fin 1))
              (stateOf (initializeElements (\<lambda>sg. jmul (Fin (1/2)) sg)
                [\<lparr>p_mass = Fin 2, p_epsilon = Fin (1/100), p_sigma = Fin (1/2)\<rparr>]
                createEngine)))))"
  define A where "A x0 v p sp acc = \<lparr>radius = [Fin (1/4)], px = [Fin p], py = [Fin 0],
         x = [Fin x0], y = [Fin 5], vx = [Fin v], vy = [Fin 0],
         speed = [Fin sp], ax = [Fin acc], ay = [Fin 0],
         charge = [Fin 0], friction = [Fin 0], element = [0], pinned = [False],
         mass = [Fin 2]\<rparr>" for x0 v p sp acc :: real
  define S where "S a tm step tp = createEngine\<lparr>
       sizeHasBeenInitialized := True, atomsHaveBeenCreated := True,
       elementsHaveBeenCreated := True, time := Fin tm, dt := step, dt_sq := jmul step step,
       N := 1, atoms := Some a,
       elems := Some \<lparr>elementMass = [Fin 2], elementEpsilon = [Fin (1/100)],
         elementSigma = [Fin (1/2)], elementRadius = [Fin (1/4)]\<rparr>,
       N_elements := 1, elementUsed := (\<lambda>_. False)(0 := True), T := tp\<rparr>"
    for a :: atoms and tm :: real and step tp :: jsnum
  have s0: "s0 = (S (A 5 0 0 0 0) 0 NaN NaN)"
    unfolding s0_def one_atom_engine S_def A_def by (simp add: createEngine_def)
  have f0: "atomsHaveBeenCreated s0" "atoms s0 = Some (A 5 0 0 0 0)" "0 < N s0" "time s0 = Fin 0"
    "pressureTime s0 = []"
    by (simp_all add: s0 S_def createEngine_def)
  have sd: "(S a tm st tp)\<lparr>dt := Fin t, dt_sq := Fin (t * t)\<rparr> = S a tm (Fin t) tp" for a tm st tp t
    by (simp add: S_def)
  have sa: "(S a tm st tp)\<lparr>atoms := Some a'\<rparr> = S a' tm st tp" for a a' tm st tp
    by (simp add: S_def)
  have stime: "(S a tm st tp)\<lparr>time := Fin tm'\<rparr> = S a tm' st tp" for a tm tm' st tp
    by (simp add: S_def)
  have sT: "(S a tm st tp)\<lparr>T := tp'\<rparr> = S a tm st tp'" for a tm st tp tp'
    by (simp add: S_def)
  have fS: "dt (S a tm st tp) = st" "N (S a tm st tp) = 1" "atoms (S a tm st tp) = Some a"
    "size_x (S a tm st tp) = Fin 10" "size_y (S a tm st tp) = Fin 10"
    "N_obstacles (S a tm st tp) = 0" "obstacles (S a tm st tp) = None"
    "useThermostat (S a tm st tp) = False" "temperatureChangeInProgress (S a tm st tp) = False"
    "T_target (S a tm st tp) = NaN" for a tm st tp
    by (simp_all add: S_def createEngine_def)
  have q10: "toDouble (jdiv (Fin 1) (Fin t0)) = Fin 10"
    by (simp add: t0_def rounding_simps)
  have q9: "\<lfloor>(1::real) / t0\<rfloor> = 9"
    by (simp add: t0_def)
  have hf: "hundredfold (Fin 10) = Fin 1000"
    by (simp add: hundredfold_def rounding_simps)
  have adv5: "advance (Fin 5) (Fin 0) (Fin t) = Fin 5" for t
    by (simp add: advance_def rounding_simps)
  have adv: "advance (Fin 5) (Fin 1) (Fin 1) = Fin 6" "advance (Fin 6) (Fin 3) (Fin 1) = Fin 9"
    by (simp_all add: advance_def rounding_simps)
  have rdA: "rd (x (A x0 v p sp acc)) 0 = Fin x0" "rd (y (A x0 v p sp acc)) 0 = Fin 5"
    "rd (vx (A x0 v p sp acc)) 0 = Fin v" "rd (vy (A x0 v p sp acc)) 0 = Fin 0"
    "rd (radius (A x0 v p sp acc)) 0 = Fin (1/4)" "rd (mass (A x0 v p sp acc)) 0 = Fin 2"
    "rd (ax (A x0 v p sp acc)) 0 = Fin acc" "rd (ay (A x0 v p sp acc)) 0 = Fin 0"
    "rdb (pinned (A x0 v p sp acc)) 0 = False" for x0 v p sp acc
    by (simp_all add: A_def rdb_def)
  have upp: "updateParticlesPosition (S (A x0 v p sp acc) tm (Fin t) tp)
      = Some (Returns (S (A x1 v p sp acc) tm (Fin t) tp))"
    if "advance (Fin x0) (Fin v) (Fin t) = Fin x1" "1/4 \<le> x1" "x1 \<le> 39/4"
    for x0 x1 v p sp acc tm t tp
  proof -
    have m: "moveAtom (Fin t) 0 (A x0 v p sp acc) = A x1 v p sp acc"
      by (simp add: moveAtom_def Let_def rdA that(1) adv5) (simp add: A_def)
    have b: "bounceParticleOffWalls (Fin 10, Fin 10) 0 (A x1 v p sp acc) = Some (A x1 v p sp acc)"
      using that(2,3) by (simp add: bounceParticleOffWalls_def bounceCoordinate_def Let_def rdA)
    have "driftAtom (S (A x0 v p sp acc) tm (Fin t) tp) 0 (A x0 v p sp acc, None)
        = Some (Returns (A x1 v p sp acc, None))"
      using that(2,3) by (simp add: driftAtom_def Let_def fS m rdA hf b)
    then show ?thesis
      by (simp add: updateParticlesPosition_def fS andThen_def sa)
  qed
  have upa0: "updateParticlesAccelerations M0 (S (A x0 v p sp 0) tm st tp)
      = Returns (S (A x0 v p sp 0) tm st tp)" for x0 v p sp tm st tp
    by (simp add: updateParticlesAccelerations_def fS M0_def sa) (simp add: A_def)
  have upa1: "updateParticlesAccelerations M1 (S (A x0 v p sp acc) tm st tp)
      = Returns (S (A x0 v p sp 2) tm st tp)" for x0 v p sp acc tm st tp
    by (simp add: updateParticlesAccelerations_def fS M1_def sa) (simp add: A_def)
  have hk: "halfUpdateVelocity (S (A x0 v p sp acc) tm (Fin t) tp)
      = S (A x0 (v + 1/2 * acc * t) (2 * (v + 1/2 * acc * t)) sp acc) tm (Fin t) tp"
    for x0 v p sp acc tm t tp
    by (simp add: halfUpdateVelocity_def fS halfKick_def Let_def rdA sa) (simp add: A_def)
  have pin: "pinAtoms (S (A x0 v p sp acc) tm st tp) = S (A x0 v p sp acc) tm st tp"
    for x0 v p sp acc tm st tp
    by (simp add: pinAtoms_def fS pinAtom_def rdA sa)
  have spd: "updateParticlesSpeed (S (A x0 v p sp acc) tm st tp)
      = S (A x0 v p \<bar>v\<bar> acc) tm st tp" for x0 v p sp acc tm st tp
    by (simp add: updateParticlesSpeed_def fS updateSpeed_def rdA sa) (simp add: A_def)
  have obs: "updateObstaclesPosition (S a tm st tp) = Some (Returns (S a tm st tp))"
    for a tm st tp
    by (simp add: updateObstaclesPosition_def fS)
  have tmp: "adjustTemperature M None False (S (A x0 v p sp acc) tm st tp)
      = S (A x0 v p sp acc) tm st (Fin (v * v * 2 / 5))"
    if "mwToJoule M = (\<lambda>v. jmul v (Fin 2))" "boltzmann M = Fin 5"
    for M x0 v p sp acc tm st tp
    by (simp add: adjustTemperature_def measureTemperature_def rescales_def Let_def
        computeTemperature_def fS that atomTwoKE_def KE_to_T_def targetOf_def rdA sT)
  have mm: "mwToJoule M0 = (\<lambda>v. jmul v (Fin 2))" "boltzmann M0 = Fin 5"
    "mwToJoule M1 = (\<lambda>v. jmul v (Fin 2))" "boltzmann M1 = Fin 5"
    by (simp_all add: M0_def M1_def)
  have step0: "verletStep M0 k (Fin 0) (S (A 5 0 0 0 0) tm (Fin t0) tp)
      = Some (Returns (S (A 5 0 0 0 0) (real k * t0) (Fin t0) (Fin 0)))" for k tm tp
    by (simp add: verletStep_def Let_def fS stime hk upp [OF adv5] andThen_def upa0 pin spd obs
        tmp [OF mm(1,2)])
  have run0: "\<exists>s'. runSteps M0 (Fin 0) k n (S (A 5 0 0 0 0) tm (Fin t0) tp) = Some (Returns s')"
    for k n tm tp
  proof (induction n arbitrary: k tm tp)
    case 0
    then show ?case by simp
  next
    case (Suc n)
    from Suc [of "Suc k" "real k * t0" "Fin 0"] show ?case
      by (simp add: andThen_def step0)
  qed
  have c0: "(case Some (Fin 1) of None \<Rightarrow> Fin 100 | Some v \<Rightarrow> v) = Fin 1"
    "(case Some (Fin t0) of None \<Rightarrow> Fin 1 | Some v \<Rightarrow> v) = Fin t0"
    "(case Some (Fin 2) of None \<Rightarrow> Fin 100 | Some v \<Rightarrow> v) = Fin 2"
    "(case Some (Fin 1) of None \<Rightarrow> Fin 1 | Some v \<Rightarrow> v) = Fin 1"
    by simp_all
  note i0 = integrate_step_count [of s0 "A 5 0 0 0 0" "Some (Fin 1)" 1 "Some (Fin t0)" t0 10 M0,
      OF f0(1,2,3) c0(1,2) q10]
  have x0: "s0\<lparr>dt := Fin t0, dt_sq := Fin (t0 * t0),
        atoms := Some (A 5 0 0 0 0\<lparr>ax := fst (forces M0 (s0\<lparr>dt := Fin t0, dt_sq := Fin (t0 * t0)\<rparr>)),
                 ay := snd (forces M0 (s0\<lparr>dt := Fin t0, dt_sq := Fin (t0 * t0)\<rparr>))\<rparr>)\<rparr>
      = S (A 5 0 0 0 0) 0 (Fin t0) NaN"
    by (simp add: s0 S_def M0_def A_def)
  from i0 [THEN conjunct1]
  have "integrate M0 (Some (Fin 1)) (Some (Fin t0)) s0
      = andThen (runSteps M0 (Fin 0) 1 (nat \<lfloor>10::real\<rfloor>) (S (A 5 0 0 0 0) 0 (Fin t0) NaN))
          (\<lambda>s3. Some (Returns (s3\<lparr>pressureTime := pressureTime s3 @ [Fin 1]\<rparr>)))"
    by (simp only: f0(4) simp_thms if_True x0)
  then have e0: "integrate M0 (Some (Fin 1)) (Some (Fin t0)) s0
      = andThen (runSteps M0 (Fin 0) 1 10 (S (A 5 0 0 0 0) 0 (Fin t0) NaN))
          (\<lambda>s3. Some (Returns (s3\<lparr>pressureTime := pressureTime s3 @ [Fin 1]\<rparr>)))"
    by simp
  from run0 [of 1 10 0 NaN] obtain s3 where
    "runSteps M0 (Fin 0) 1 10 (S (A 5 0 0 0 0) 0 (Fin t0) NaN) = Some (Returns s3)"
    by blast
  then have r0: "integrate M0 (Some (Fin 1)) (Some (Fin t0)) s0
      = Some (Returns (s3\<lparr>pressureTime := pressureTime s3 @ [Fin 1]\<rparr>))"
    by (simp add: e0 andThen_def)
  from i0 [THEN conjunct2, rule_format, OF r0]
  have o0: "time (s3\<lparr>pressureTime := pressureTime s3 @ [Fin 1]\<rparr>) = Fin (10 * t0)"
    "pressureTime (s3\<lparr>pressureTime := pressureTime s3 @ [Fin 1]\<rparr>) = [Fin 1]"
    by (simp_all add: f0)
  have part0: "\<exists>s'. integrate M0 (Some (Fin 1)) (Some (Fin t0)) s0 = Some (Returns s')
        \<and> time s' = Fin (10 * t0) \<and> pressureTime s' = [Fin 1]"
    using r0 o0 by blast
  have q2: "toDouble (jdiv (Fin 2) (Fin 1)) = Fin 2"
    by (simp add: rounding_simps)
  note i1 = integrate_step_count [of s0 "A 5 0 0 0 0" "Some (Fin 2)" 2 "Some (Fin 1)" 1 2 M1,
      OF f0(1,2,3) c0(3,4) q2]
  have x1: "s0\<lparr>dt := Fin 1, dt_sq := Fin (1 * 1),
        atoms := Some (A 5 0 0 0 0\<lparr>ax := fst (forces M1 (s0\<lparr>dt := Fin 1, dt_sq := Fin (1 * 1)\<rparr>)),
                 ay := snd (forces M1 (s0\<lparr>dt := Fin 1, dt_sq := Fin (1 * 1)\<rparr>))\<rparr>)\<rparr>
      = S (A 5 0 0 0 2) 0 (Fin 1) NaN"
    by (simp add: s0 S_def M1_def A_def)
  from i1 [THEN conjunct1]
  have "integrate M1 (Some (Fin 2)) (Some (Fin 1)) s0
      = andThen (runSteps M1 (Fin 0) 1 (nat \<lfloor>2::real\<rfloor>) (S (A 5 0 0 0 2) 0 (Fin 1) NaN))
          (\<lambda>s3. Some (Returns (s3\<lparr>pressureTime := pressureTime s3 @ [Fin 2]\<rparr>)))"
    by (simp only: f0(4) simp_thms if_True x1)
  then have e1: "integrate M1 (Some (Fin 2)) (Some (Fin 1)) s0
      = andThen (runSteps M1 (Fin 0) 1 2 (S (A 5 0 0 0 2) 0 (Fin 1) NaN))
          (\<lambda>s3. Some (Returns (s3\<lparr>pressureTime := pressureTime s3 @ [Fin 2]\<rparr>)))"
    by simp
  have step1: "verletStep M1 1 (Fin 0) (S (A 5 0 0 0 2) 0 (Fin 1) NaN)
      = Some (Returns (S (A 6 2 4 2 2) 1 (Fin 1) (Fin (8/5))))"
    by (simp add: verletStep_def Let_def fS stime hk upp [OF adv(1)] andThen_def upa1 pin spd obs
        tmp [OF mm(3,4)])
  have step2: "verletStep M1 2 (Fin 0) (S (A 6 2 4 2 2) 1 (Fin 1) (Fin (8/5)))
      = Some (Returns (S (A 9 4 8 4 2) 2 (Fin 1) (Fin (32/5))))"
    by (simp add: verletStep_def Let_def fS stime hk upp [OF adv(2)] andThen_def upa1 pin spd obs
        tmp [OF mm(3,4)])
  have run1: "runSteps M1 (Fin 0) 1 2 (S (A 5 0 0 0 2) 0 (Fin 1) NaN)
      = Some (Returns (S (A 9 4 8 4 2) 2 (Fin 1) (Fin (32/5))))"
    using step1 step2 by (simp add: numeral_2_eq_2 andThen_def)
  have part1: "map_option (\<lambda>r. (thrown r, time (stateOf r), pressureTime (stateOf r),
        map_option (\<lambda>a. (rd (x a) 0, rd (vx a) 0, rd (ax a) 0)) (atoms (stateOf r))))
       (integrate M1 (Some (Fin 2)) (Some (Fin 1)) s0)
     = Some (None, Fin 2, [Fin 2], Some (Fin 9, Fin 4, Fin 2))"
    by (simp add: e1 run1 [unfolded One_nat_def] andThen_def fS rdA) (simp add: S_def createEngine_def)
  show ?thesis
    unfolding M0_def [symmetric] M1_def [symmetric] s0_def [symmetric] t0_def [symmetric]
    using q10 q9 part0 part1 by (simp only: simp_thms)
qed

section \<open>Van der Waals pairs\<close>

lemma fold_vdwLoopPairs:
  "fold (\<lambda>i. fold (\<lambda>j. f (i, j)) [Suc i ..< n]) [0 ..< n] = fold f (vdwLoopPairs n)"
proof -
  have "fold (\<lambda>i. fold (\<lambda>j. f (i, j)) (g i)) is = fold f (concat (map (\<lambda>i. map (Pair i) (g i)) is))"
    for g :: "nat \<Rightarrow> nat list" and "is"
    by (induction "is") (simp_all add: fold_map comp_def)
  then show ?thesis
    by (simp add: vdwLoopPairs_def)
qed

lemma length_vdwLoopPairs:
  "length (vdwLoopPairs n) = n * (n - 1) div 2"
proof -
  define L where "L k = length (concat (map (\<lambda>i. map (Pair i) [Suc i ..< n]) [0 ..< k]))" for k
  have L0: "L 0 = 0"
    by (simp add: L_def)
  have LS: "L (Suc k) = L k + (n - Suc k)" for k
    by (simp add: L_def)
  have "L k * 2 + k * (k - 1) = 2 * k * (n - 1)" if "k \<le> n" for k
    using that
  proof (induction k)
    case 0
    then show ?case by (simp add: L0)
  next
    case (Suc k)
    then have ih: "L k * 2 + k * (k - 1) = 2 * k * (n - 1)"
      by simp
    obtain d where n: "n = Suc k + d"
      using Suc.prems le_Suc_ex by blast
    have "L (Suc k) * 2 + Suc k * (Suc k - 1) = (L k * 2 + k * (k - 1)) + 2 * d + 2 * k"
      unfolding LS n by (cases k) (simp_all add: algebra_simps)
    also have "\<dots> = 2 * Suc k * (n - 1)"
      unfolding ih unfolding n by (simp add: algebra_simps)
    finally show ?case .
  qed
  from this [of n] have "length (vdwLoopPairs n) * 2 = n * (n - 1)"
    by (cases n) (simp_all add: vdwLoopPairs_def L_def algebra_simps del: upt_Suc)
  then show ?thesis
    by simp
qed

lemma vdwLoopPairs_bound:
  "(i, j) \<in> set (vdwLoopPairs n) \<Longrightarrow> i < j \<and> j < n"
  by (auto simp add: vdwLoopPairs_def)

lemma jmul_square_cutoff:
  "jmul (jmul sg sg) (jmul r r) = jmul (jmul r sg) (jmul r sg)"
  by (cases sg; cases r) (simp_all add: zero_less_mult_iff mult_less_0_iff algebra_simps)

lemma jmul_half:
  "jmul (Fin (1/2)) v = jdiv v (Fin 2)"
  by (cases v) simp_all

text \<open>
  What the code tests for a pair, against the specification's words: the same three
  conditions, and in addition that the product of the two sigmas is positive.
\<close>

lemma vdwPairListed_iff:
  "(\<not> radiallyBonded s i j \<and>
      vdwPairListed (jmul (vdwLinesRatio s) (vdwLinesRatio s)) a el i j)
   = (specVdwPair s a el (i, j) \<and> jgt (sigmaProduct a el (i, j)) (Fin 0))"
  by (auto simp add: vdwPairListed_def specVdwPair_def sigmaProduct_def Let_def
      jmul_square_cutoff jmul_half)

text \<open>
  The inner loop body over a list of pairs: while the arrays have room, the pairs that
  pass the tests are appended, in order, after the \<open>n\<close> entries already written.
\<close>

lemma fold_vdwVisit:
  assumes "n + length (filter (\<lambda>ij. \<not> radiallyBonded s (fst ij) (snd ij) \<and>
              vdwPairListed dc a el (fst ij) (snd ij)) ps) \<le> length p1"
    and "n + length (filter (\<lambda>ij. \<not> radiallyBonded s (fst ij) (snd ij) \<and>
              vdwPairListed dc a el (fst ij) (snd ij)) ps) \<le> length p2"
  shows "\<exists>q1 q2. fold (vdwVisit s dc a el) ps (n, p1, p2)
        = (n + length (filter (\<lambda>ij. \<not> radiallyBonded s (fst ij) (snd ij) \<and>
              vdwPairListed dc a el (fst ij) (snd ij)) ps), q1, q2) \<and>
      length q1 = length p1 \<and> length q2 = length p2 \<and>
      take (n + length (filter (\<lambda>ij. \<not> radiallyBonded s (fst ij) (snd ij) \<and>
              vdwPairListed dc a el (fst ij) (snd ij)) ps)) q1
        = take n p1 @ map (\<lambda>ij. fst ij mod 65536)
            (filter (\<lambda>ij. \<not> radiallyBonded s (fst ij) (snd ij) \<and>
              vdwPairListed dc a el (fst ij) (snd ij)) ps) \<and>
      take (n + length (filter (\<lambda>ij. \<not> radiallyBonded s (fst ij) (snd ij) \<and>
              vdwPairListed dc a el (fst ij) (snd ij)) ps)) q2
        = take n p2 @ map (\<lambda>ij. snd ij mod 65536)
            (filter (\<lambda>ij. \<not> radiallyBonded s (fst ij) (snd ij) \<and>
              vdwPairListed dc a el (fst ij) (snd ij)) ps)"
  using assms
proof (induction ps arbitrary: n p1 p2)
  case Nil
  then show ?case by simp
next
  case (Cons ij ps)
  define C where "C = (\<lambda>ij. \<not> radiallyBonded s (fst ij) (snd ij) \<and>
              vdwPairListed dc a el (fst ij) (snd ij))"
  obtain i j where ij: "ij = (i, j)"
    by (cases ij)
  show ?case
  proof (cases "C ij")
    case False
    then have v: "vdwVisit s dc a el ij (n, p1, p2) = (n, p1, p2)"
      by (auto simp add: vdwVisit_def C_def ij)
    from False have f: "filter C (ij # ps) = filter C ps"
      by simp
    show ?thesis
      using Cons.IH [of n p1 p2] Cons.prems
      unfolding C_def [symmetric] f by (simp add: v)
  next
    case True
    then have v: "vdwVisit s dc a el (i, j) (n, p1, p2)
        = (Suc n, p1[n := i mod 65536], p2[n := j mod 65536])"
      by (auto simp add: vdwVisit_def C_def ij)
    from True have f: "filter C (ij # ps) = ij # filter C ps"
      by simp
    from Cons.prems have n: "n < length p1" "n < length p2"
      unfolding C_def [symmetric] f by simp_all
    have t: "take (Suc n) (p1[n := i mod 65536]) = take n p1 @ [i mod 65536]"
      "take (Suc n) (p2[n := j mod 65536]) = take n p2 @ [j mod 65536]"
      using n by (simp_all add: take_Suc_conv_app_nth)
    show ?thesis
      using Cons.IH [of "Suc n" "p1[n := i mod 65536]" "p2[n := j mod 65536]"] Cons.prems
      unfolding C_def [symmetric] f by (simp add: v t ij)
  qed
qed

text \<open>
  What \<^verbatim>\<open>updateVdwPairsArray\<close> records when the arrays have room for all pairs and atom
  indices fit the \<^verbatim>\<open>uint16\<close> entries: the pairs of the specification whose product of
  sigmas is positive, in loop order.
\<close>

lemma updateVdwPairsArray_records:
  assumes a: "atoms s = Some a" and el: "elems s = Some el" and vp: "vdwPairs s = Some vp"
    and c1: "N s * (N s - 1) div 2 \<le> length (vdwPairAtom1Index vp)"
    and c2: "N s * (N s - 1) div 2 \<le> length (vdwPairAtom2Index vp)"
    and n: "N s \<le> 65536"
  shows "\<exists>s'. updateVdwPairsArray s = Returns s' \<and>
      recordedPairs s'
        = filter (\<lambda>ij. specVdwPair s a el ij \<and> jgt (sigmaProduct a el ij) (Fin 0))
            (vdwLoopPairs (N s)) \<and>
      map_option (\<lambda>v. length (vdwPairAtom1Index v)) (vdwPairs s')
        = Some (length (vdwPairAtom1Index vp)) \<and>
      map_option (\<lambda>v. length (vdwPairAtom2Index v)) (vdwPairs s')
        = Some (length (vdwPairAtom2Index vp))"
proof (cases "N s = 0")
  case True
  then show ?thesis
    by (simp add: updateVdwPairsArray_def vp recordedPairs_def vdwLoopPairs_def)
next
  case False
  define dc where "dc = jmul (vdwLinesRatio s) (vdwLinesRatio s)"
  define C where "C = (\<lambda>ij. \<not> radiallyBonded s (fst ij) (snd ij) \<and>
              vdwPairListed dc a el (fst ij) (snd ij))"
  define F where "F = filter C (vdwLoopPairs (N s))"
  have CC: "C = (\<lambda>ij. specVdwPair s a el ij \<and> jgt (sigmaProduct a el ij) (Fin 0))"
    unfolding C_def dc_def by (rule ext) (simp add: vdwPairListed_iff split_beta)
  have "length F \<le> length (vdwLoopPairs (N s))"
    unfolding F_def by simp
  then have len: "length F \<le> N s * (N s - 1) div 2"
    by (simp add: length_vdwLoopPairs)
  obtain q1 q2 where
    q: "fold (vdwVisit s dc a el) (vdwLoopPairs (N s))
          (0, vdwPairAtom1Index vp, vdwPairAtom2Index vp) = (length F, q1, q2)"
    and l: "length q1 = length (vdwPairAtom1Index vp)" "length q2 = length (vdwPairAtom2Index vp)"
    and t: "take (length F) q1 = map (\<lambda>ij. fst ij mod 65536) F"
      "take (length F) q2 = map (\<lambda>ij. snd ij mod 65536) F"
    using fold_vdwVisit [of 0 s dc a el "vdwLoopPairs (N s)" "vdwPairAtom1Index vp"
        "vdwPairAtom2Index vp"] len c1 c2
    unfolding C_def [symmetric] F_def [symmetric] by auto
  have small: "fst ij mod 65536 = fst ij \<and> snd ij mod 65536 = snd ij" if "ij \<in> set F" for ij
  proof -
    from that have "ij \<in> set (vdwLoopPairs (N s))"
      by (simp add: F_def)
    then have "fst ij < snd ij \<and> snd ij < N s"
      using vdwLoopPairs_bound [of "fst ij" "snd ij" "N s"] by simp
    with n show ?thesis
      by simp
  qed
  have z: "zip (map (\<lambda>ij. fst ij mod 65536) F) (map (\<lambda>ij. snd ij mod 65536) F) = F"
  proof -
    have "map (\<lambda>ij. fst ij mod 65536) F = map fst F"
      by (rule map_cong) (simp_all add: small)
    moreover have "map (\<lambda>ij. snd ij mod 65536) F = map snd F"
      by (rule map_cong) (simp_all add: small)
    ultimately show ?thesis
      by (simp only: zip_map_fst_snd)
  qed
  have "updateVdwPairsArray s = Returns (s\<lparr>N_vdwPairs := Some (length F),
          vdwPairs := Some \<lparr>vdwCount = Some (length F), vdwPairAtom1Index = q1,
            vdwPairAtom2Index = q2\<rparr>\<rparr>)"
    using False
    by (simp add: updateVdwPairsArray_def vp a el fold_vdwLoopPairs dc_def [symmetric] q)
  moreover have "filter (\<lambda>ij. specVdwPair s a el ij \<and> jgt (sigmaProduct a el ij) (Fin 0))
      (vdwLoopPairs (N s)) = F"
    by (simp add: F_def CC)
  ultimately show ?thesis
    by (simp add: recordedPairs_def t z l)
qed

lemma createVdwPairsArray_records:
  assumes a: "atoms s = Some a" and el: "elems s = Some el" and n: "N s \<le> 65536"
  shows "\<exists>s'. createVdwPairsArray s = Returns s' \<and>
      recordedPairs s'
        = filter (\<lambda>ij. specVdwPair s a el ij \<and> jgt (sigmaProduct a el ij) (Fin 0))
            (vdwLoopPairs (N s)) \<and>
      map_option (\<lambda>v. length (vdwPairAtom1Index v)) (vdwPairs s') = Some (N s * (N s - 1) div 2) \<and>
      map_option (\<lambda>v. length (vdwPairAtom2Index v)) (vdwPairs s') = Some (N s * (N s - 1) div 2)"
proof -
  define vp where "vp = \<lparr>vdwCount = N_vdwPairs s,
      vdwPairAtom1Index = replicate (N s * (N s - 1) div 2) 0,
      vdwPairAtom2Index = replicate (N s * (N s - 1) div 2) 0\<rparr>"
  define s1 where "s1 = s\<lparr>vdwPairs := Some vp\<rparr>"
  have c: "createVdwPairsArray s = updateVdwPairsArray s1"
    by (simp add: createVdwPairsArray_def s1_def vp_def Let_def)
  have sp: "specVdwPair s1 a el = specVdwPair s a el"
    by (rule ext) (simp add: specVdwPair_def s1_def radiallyBonded_def split_beta)
  show ?thesis
    using updateVdwPairsArray_records [of s1 a el vp] a el n
    unfolding c sp by (simp add: s1_def vp_def)
qed

text \<open>
  C6 (the code at a failing input). Two elements, of sigma \<open>0\<close> and sigma \<open>1\<close>, both of
  epsilon \<open>-0.1\<close>; atom 0 of the first at \<open>(1, 1)\<close>, atom 1 of the second at \<open>(1.5, 1)\<close>,
  no charges, no bonds, \<^verbatim>\<open>vdwLinesRatio\<close> at its default \<open>1.67\<close>. The pair \<open>(0, 1)\<close> is not
  bonded, its charge product is \<open>0\<close> and its squared separation \<open>0.25\<close> is below
  \<open>(1.67 * 0.5)\<^sup>2\<close>: it is the one pair of the specification's list.
  \<^verbatim>\<open>createVdwPairsArray\<close> allocates the two arrays at length \<open>1 = N (N - 1) / 2\<close>, and
  the update it ends with returns with no pair recorded: \<^verbatim>\<open>eps\<close>, which the code
  computes from the two sigmas, is \<open>0\<close> and fails \<^verbatim>\<open>eps > 0\<close>.
\<close>

theorem createVdwPairsArray_omits_zero_sigma_pair:
  "(case createVdwPairsArray (stateOf (addAtom
        (noAtomProps\<lparr>a_element := Some 1, a_x := Some (Fin (3/2)), a_y := Some (Fin 1)\<rparr>)
        (stateOf (addAtom
          (noAtomProps\<lparr>a_element := Some 0, a_x := Some (Fin 1), a_y := Some (Fin 1)\<rparr>)
          (stateOf (createAtomsArray (Some (Fin 2))
            (stateOf (initializeElements (\<lambda>sg. jmul (Fin (1/2)) sg)
              [\<lparr>p_mass = Fin 1, p_epsilon = Fin (-1/10), p_sigma = Fin 0\<rparr>,
               \<lparr>p_mass = Fin 1, p_epsilon = Fin (-1/10), p_sigma = Fin 1\<rparr>] createEngine))))))))
    of Returns s' \<Rightarrow> Some (recordedPairs s', N_vdwPairs s',
          map_option (\<lambda>v. (vdwCount v, vdwPairAtom1Index v, vdwPairAtom2Index v)) (vdwPairs s'))
     | Throws e s' \<Rightarrow> None)
   = Some ([], Some 0, Some (Some 0, [0], [0]))
   \<and> (case stateOf (addAtom
        (noAtomProps\<lparr>a_element := Some 1, a_x := Some (Fin (3/2)), a_y := Some (Fin 1)\<rparr>)
        (stateOf (addAtom
          (noAtomProps\<lparr>a_element := Some 0, a_x := Some (Fin 1), a_y := Some (Fin 1)\<rparr>)
          (stateOf (createAtomsArray (Some (Fin 2))
            (stateOf (initializeElements (\<lambda>sg. jmul (Fin (1/2)) sg)
              [\<lparr>p_mass = Fin 1, p_epsilon = Fin (-1/10), p_sigma = Fin 0\<rparr>,
               \<lparr>p_mass = Fin 1, p_epsilon = Fin (-1/10), p_sigma = Fin 1\<rparr>] createEngine)))))))
    of s \<Rightarrow> (N s, map_option (\<lambda>a. map_option (\<lambda>el.
          filter (specVdwPair s a el) (vdwLoopPairs (N s))) (elems s)) (atoms s)))
   = (2, Some (Some [(0, 1)]))"
proof -
  define S where "S = stateOf (addAtom
        (noAtomProps\<lparr>a_element := Some 1, a_x := Some (Fin (3/2)), a_y := Some (Fin 1)\<rparr>)
        (stateOf (addAtom
          (noAtomProps\<lparr>a_element := Some 0, a_x := Some (Fin 1), a_y := Some (Fin 1)\<rparr>)
          (stateOf (createAtomsArray (Some (Fin 2))
            (stateOf (initializeElements (\<lambda>sg. jmul (Fin (1/2)) sg)
              [\<lparr>p_mass = Fin 1, p_epsilon = Fin (-1/10), p_sigma = Fin 0\<rparr>,
               \<lparr>p_mass = Fin 1, p_epsilon = Fin (-1/10), p_sigma = Fin 1\<rparr>] createEngine)))))))"
  define a where "a = \<lparr>radius = [Fin 0, Fin (1/2)], px = [Fin 0, Fin 0], py = [Fin 0, Fin 0],
      x = [Fin 1, Fin (3/2)], y = [Fin 1, Fin 1], vx = [Fin 0, Fin 0], vy = [Fin 0, Fin 0],
      speed = [Fin 0, Fin 0], ax = [Fin 0, Fin 0], ay = [Fin 0, Fin 0],
      charge = [Fin 0, Fin 0], friction = [Fin 0, Fin 0], element = [0, 1],
      pinned = [False, False], mass = [Fin 1, Fin 1]\<rparr>"
  define el where "el = \<lparr>elementMass = [Fin 1, Fin 1],
      elementEpsilon = [Fin (-1/10), Fin (-1/10)], elementSigma = [Fin 0, Fin 1],
      elementRadius = [Fin 0, Fin (1/2)]\<rparr>"
  have S: "S = createEngine\<lparr>sizeHasBeenInitialized := True, atomsHaveBeenCreated := True,
      elementsHaveBeenCreated := True, N := 2, atoms := Some a, elems := Some el,
      N_elements := 2, elementUsed := (\<lambda>_. False)(0 := True, 1 := True)\<rparr>"
    unfolding S_def a_def el_def
    by (simp add: initializeElements_def createElementsArray_def addElement_def
        extendElements_def extendArray_def createEngine_def Let_def createAtomsArray_def
        N_MIN_def N_MAX_def addAtom_def setAtomProperties_def noAtomProps_def newAtoms_def
        updateDependent_def writeAtom_def setOpt_def numeral_2_eq_2 rd_def)
  have f: "N S = 2" "atoms S = Some a" "elems S = Some el" "N_radialBonds S = 0"
    "vdwLinesRatio S = Fin (167/100)" "N_vdwPairs S = None"
    by (simp_all add: S createEngine_def)
  have p: "vdwLoopPairs 2 = [(0, Suc 0)]"
    by (simp add: vdwLoopPairs_def numeral_2_eq_2)
  have rds: "rdo (elementSigma el) (rdi (element a) 0) = Fin 0"
    "rdo (elementSigma el) (rdi (element a) (Suc 0)) = Fin 1"
    "rd (x a) 0 = Fin 1" "rd (x a) (Suc 0) = Fin (3/2)"
    "rd (y a) 0 = Fin 1" "rd (y a) (Suc 0) = Fin 1"
    "rd (charge a) 0 = Fin 0" "rd (charge a) (Suc 0) = Fin 0"
    by (simp_all add: a_def el_def rd_def rdi_def rdo_def)
  have listed: "\<not> vdwPairListed dc a el 0 (Suc 0)" for dc
    by (simp add: vdwPairListed_def Let_def rds jgt_def)
  have spec: "specVdwPair S a el (0, Suc 0)"
    by (simp add: specVdwPair_def Let_def rds radiallyBonded_def f jle_def jeq_def jsub_def
        power2_eq_square)
  have "createVdwPairsArray S
      = Returns (S\<lparr>N_vdwPairs := Some 0,
          vdwPairs := Some \<lparr>vdwCount = Some 0, vdwPairAtom1Index = [0],
            vdwPairAtom2Index = [0]\<rparr>\<rparr>)"
    by (simp add: createVdwPairsArray_def updateVdwPairsArray_def Let_def f vdwVisit_def
        radiallyBonded_def listed numeral_2_eq_2)
  then have "(case createVdwPairsArray S
    of Returns s' \<Rightarrow> Some (recordedPairs s', N_vdwPairs s',
          map_option (\<lambda>v. (vdwCount v, vdwPairAtom1Index v, vdwPairAtom2Index v)) (vdwPairs s'))
     | Throws e s' \<Rightarrow> None)
   = Some ([], Some 0, Some (Some 0, [0], [0]))
   \<and> (case S
    of s \<Rightarrow> (N s, map_option (\<lambda>a. map_option (\<lambda>el.
          filter (specVdwPair s a el) (vdwLoopPairs (N s))) (elems s)) (atoms s)))
   = (2, Some (Some [(0, 1)]))"
    by (simp add: recordedPairs_def f p spec)
  then show ?thesis
    unfolding S_def .
qed

end
